theory Spec2Isabelle
  imports Complex_Main "HOL-Library.Monad_Syntax"
begin

unbundle bit_operations_syntax

chapter \<open>simPLY\_chess: a shallow embedding of the engine\<close>

text \<open>
  The engine is one Python module. Its pure functions become HOL functions of the same
  name. A Python exception (\<open>IndexError\<close>, \<open>KeyError\<close>, \<open>ZeroDivisionError\<close>,
  \<open>ValueError\<close>, \<open>RecursionError\<close>) is the value \<open>None\<close>; a function that
  returns normally yields \<open>Some\<close> of its result. Python integers are \<open>int\<close>;
  \<open>//\<close> and \<open>%\<close> are \<open>div\<close> and \<open>mod\<close> (both floor). A board is a
  \<open>string\<close>; the characters that the engine ever writes on a board are ASCII, and the
  character tests below are Python's on the ASCII range (a character above 127 is taken to
  be neither a letter nor white space).
\<close>

section \<open>Python primitives\<close>

text \<open>\<open>len(xs)\<close> and \<open>range(n)\<close>.\<close>

definition py_len :: "'a list \<Rightarrow> int" where
  "py_len xs = int (length xs)"

definition py_range :: "int \<Rightarrow> int list" where
  "py_range n = map int [0..<nat n]"

text \<open>\<open>range(start, stop)\<close>.\<close>

definition py_range2 :: "int \<Rightarrow> int \<Rightarrow> int list" where
  "py_range2 start stop = map (\<lambda>i. start + i) (py_range (stop - start))"

text \<open>\<open>xs[i]\<close>: a negative index counts from the end, an index out of range raises.\<close>

definition py_index :: "'a list \<Rightarrow> int \<Rightarrow> 'a option" where
  "py_index xs i =
     (let n = py_len xs; j = (if i < 0 then n + i else i)
      in if 0 \<le> j \<and> j < n then Some (xs ! nat j) else None)"

text \<open>\<open>xs[i] = v\<close> on a Python list.\<close>

definition py_store :: "'a list \<Rightarrow> int \<Rightarrow> 'a \<Rightarrow> 'a list option" where
  "py_store xs i v =
     (let n = py_len xs; j = (if i < 0 then n + i else i)
      in if 0 \<le> j \<and> j < n then Some (xs[nat j := v]) else None)"

definition py_ord :: "char \<Rightarrow> int" where
  "py_ord c = int (of_char c)"

definition isupper :: "char \<Rightarrow> bool" where
  "isupper c = (65 \<le> py_ord c \<and> py_ord c \<le> 90)"

definition islower :: "char \<Rightarrow> bool" where
  "islower c = (97 \<le> py_ord c \<and> py_ord c \<le> 122)"

definition isspace :: "char \<Rightarrow> bool" where
  "isspace c = ((9 \<le> py_ord c \<and> py_ord c \<le> 13) \<or> (28 \<le> py_ord c \<and> py_ord c \<le> 32))"

definition isdigit :: "char \<Rightarrow> bool" where
  "isdigit c = (48 \<le> py_ord c \<and> py_ord c \<le> 57)"

definition upper :: "char \<Rightarrow> char" where
  "upper c = (if islower c then char_of (py_ord c - 32) else c)"

definition lower :: "char \<Rightarrow> char" where
  "lower c = (if isupper c then char_of (py_ord c + 32) else c)"

definition swapcase :: "char \<Rightarrow> char" where
  "swapcase c = (if isupper c then lower c else upper c)"

text \<open>
  The same tests on a whole \<open>str\<close>: \<open>s.isupper()\<close> holds when \<open>s\<close> has a cased
  character and no lowercase one, \<open>s.isdigit()\<close> when \<open>s\<close> is not empty and all
  digits.
\<close>

definition str_isupper :: "string \<Rightarrow> bool" where
  "str_isupper s = (list_ex isupper s \<and> \<not> list_ex islower s)"

definition str_islower :: "string \<Rightarrow> bool" where
  "str_islower s = (list_ex islower s \<and> \<not> list_ex isupper s)"

definition str_isdigit :: "string \<Rightarrow> bool" where
  "str_isdigit s = (s \<noteq> [] \<and> list_all isdigit s)"

text \<open>\<open>s.find(c)\<close> for a one-character needle: the first index, or \<open>-1\<close>.\<close>

fun find_from :: "int \<Rightarrow> char \<Rightarrow> string \<Rightarrow> int" where
  "find_from i c [] = -1"
| "find_from i c (x # xs) = (if x = c then i else find_from (i + 1) c xs)"

definition str_find :: "string \<Rightarrow> char \<Rightarrow> int" where
  "str_find s c = find_from 0 c s"

definition str_count :: "string \<Rightarrow> char \<Rightarrow> int" where
  "str_count s c = int (length (filter (\<lambda>x. x = c) s))"

text \<open>\<open>enumerate(xs)\<close>.\<close>

definition enumerate_py :: "'a list \<Rightarrow> (int \<times> 'a) list" where
  "enumerate_py xs = zip (py_range (py_len xs)) xs"

text \<open>\<open>s.split(sep)\<close> for a one-character separator.\<close>

fun split_acc :: "char \<Rightarrow> string \<Rightarrow> string \<Rightarrow> string list" where
  "split_acc sep acc [] = [rev acc]"
| "split_acc sep acc (x # xs) =
     (if x = sep then rev acc # split_acc sep [] xs else split_acc sep (x # acc) xs)"

definition str_split :: "string \<Rightarrow> char \<Rightarrow> string list" where
  "str_split s sep = split_acc sep [] s"

text \<open>
  A \<open>for\<close> loop whose body may raise: the state is threaded through the elements in
  order and the first exception ends the loop.
\<close>

fun for_each :: "'a list \<Rightarrow> ('a \<Rightarrow> 's \<Rightarrow> 's option) \<Rightarrow> 's \<Rightarrow> 's option" where
  "for_each [] body s = Some s"
| "for_each (x # xs) body s = (case body x s of None \<Rightarrow> None | Some s' \<Rightarrow> for_each xs body s')"

text \<open>The keys of a list comprehension or of \<open>sort(key=...)\<close>, computed in order.\<close>

fun map_opt :: "('a \<Rightarrow> 'b option) \<Rightarrow> 'a list \<Rightarrow> 'b list option" where
  "map_opt f [] = Some []"
| "map_opt f (x # xs) =
     (case f x of None \<Rightarrow> None
      | Some y \<Rightarrow> (case map_opt f xs of None \<Rightarrow> None | Some ys \<Rightarrow> Some (y # ys)))"


subsection \<open>The same operations in one pass\<close>

text \<open>
  These functions compute \<open>py_len\<close>, \<open>py_range\<close>, \<open>py_index\<close>, \<open>py_store\<close> and
  \<open>enumerate_py\<close> in one pass over the list; they are proved equal below and used
  when a term is evaluated.
\<close>

fun len_from :: "int \<Rightarrow> 'a list \<Rightarrow> int" where
  "len_from i [] = i"
| "len_from i (x # xs) = len_from (i + 1) xs"

fun range_from :: "int \<Rightarrow> nat \<Rightarrow> int list" where
  "range_from i 0 = []"
| "range_from i (Suc k) = i # range_from (i + 1) k"

fun nth_opt :: "'a list \<Rightarrow> nat \<Rightarrow> 'a option" where
  "nth_opt [] n = None"
| "nth_opt (x # xs) 0 = Some x"
| "nth_opt (x # xs) (Suc n) = nth_opt xs n"

fun store_opt :: "'a list \<Rightarrow> nat \<Rightarrow> 'a \<Rightarrow> 'a list option" where
  "store_opt [] n v = None"
| "store_opt (x # xs) 0 v = Some (v # xs)"
| "store_opt (x # xs) (Suc n) v = map_option ((#) x) (store_opt xs n v)"

fun enumerate_from :: "int \<Rightarrow> 'a list \<Rightarrow> (int \<times> 'a) list" where
  "enumerate_from i [] = []"
| "enumerate_from i (x # xs) = (i, x) # enumerate_from (i + 1) xs"

section \<open>Constants\<close>

subsection \<open>Squares and directions\<close>

definition A1 :: int where "A1 = 91"
definition H1 :: int where "H1 = 98"
definition A8 :: int where "A8 = 21"
definition H8 :: int where "H8 = 28"

definition NORTH :: int where "NORTH = -10"
definition EAST :: int where "EAST = 1"
definition SOUTH :: int where "SOUTH = 10"
definition WEST :: int where "WEST = -1"

definition PIECE_DIRECTIONS :: "char \<Rightarrow> int list option" where
  "PIECE_DIRECTIONS = map_of [
     (CHR ''P'', [NORTH, NORTH + NORTH, NORTH + WEST, NORTH + EAST]),
     (CHR ''N'', [NORTH + NORTH + EAST, NORTH + NORTH + WEST, EAST + EAST + NORTH,
                  EAST + EAST + SOUTH, SOUTH + SOUTH + EAST, SOUTH + SOUTH + WEST,
                  WEST + WEST + SOUTH, WEST + WEST + NORTH]),
     (CHR ''B'', [NORTH + EAST, SOUTH + EAST, SOUTH + WEST, NORTH + WEST]),
     (CHR ''R'', [NORTH, EAST, SOUTH, WEST]),
     (CHR ''Q'', [NORTH, EAST, SOUTH, WEST, NORTH + EAST, SOUTH + EAST, SOUTH + WEST,
                  NORTH + WEST]),
     (CHR ''K'', [NORTH, EAST, SOUTH, WEST, NORTH + EAST, SOUTH + EAST, SOUTH + WEST,
                  NORTH + WEST])]"

subsection \<open>The initial position\<close>

text \<open>
  The board is a string of 120 characters, twelve rows of ten: a space, eight cells and a
  newline. Uppercase letters are the mover's pieces, lowercase the opponent's, a period
  is an empty square, white space is off the board.
\<close>

definition NL :: char where "NL = CHR 0x0A"

definition INITIAL_POSITION :: string where
  "INITIAL_POSITION =
     ''         '' @ [NL] @
     ''         '' @ [NL] @
     '' rnbqkbnr'' @ [NL] @
     '' pppppppp'' @ [NL] @
     '' ........'' @ [NL] @
     '' ........'' @ [NL] @
     '' ........'' @ [NL] @
     '' ........'' @ [NL] @
     '' PPPPPPPP'' @ [NL] @
     '' RNBQKBNR'' @ [NL] @
     ''         '' @ [NL] @
     ''         '' @ [NL]"

text \<open>
  Castling rights are a two-element list \<open>[queenside, kingside]\<close> in the source; every
  function of the engine reads and writes exactly the elements 0 and 1, so the model uses a
  pair.
\<close>

type_synonym castling_rights = "bool \<times> bool"

definition INITIAL_CASTLING :: castling_rights where "INITIAL_CASTLING = (True, True)"
definition INITIAL_OPPONENT_CASTLING :: castling_rights where
  "INITIAL_OPPONENT_CASTLING = (True, True)"
definition INITIAL_EN_PASSANT :: int where "INITIAL_EN_PASSANT = 0"
definition INITIAL_KING_PASSANT :: int where "INITIAL_KING_PASSANT = 0"
definition INITIAL_COLOR :: string where "INITIAL_COLOR = ''w''"

text \<open>
  The five values that \<open>make_move\<close> and \<open>rotate_position\<close> take and return:
  board, own castling rights, opponent castling rights, en-passant square, king-passant
  square.
\<close>

type_synonym state = "string \<times> castling_rights \<times> castling_rights \<times> int \<times> int"

text \<open>A move: start square, end square, captured piece, promotion piece.\<close>

type_synonym move = "int \<times> int \<times> string \<times> string"

definition NULL_MOVE :: move where "NULL_MOVE = (0, 0, [], [])"

subsection \<open>Piece values and piece-square tables\<close>

definition MIDGAME_PAWN_VALUE :: int where "MIDGAME_PAWN_VALUE = 100"
definition MIDGAME_KNIGHT_VALUE :: int where "MIDGAME_KNIGHT_VALUE = 411"
definition MIDGAME_BISHOP_VALUE :: int where "MIDGAME_BISHOP_VALUE = 445"
definition MIDGAME_ROOK_VALUE :: int where "MIDGAME_ROOK_VALUE = 582"
definition MIDGAME_QUEEN_VALUE :: int where "MIDGAME_QUEEN_VALUE = 1250"
definition MIDGAME_KING_VALUE :: int where "MIDGAME_KING_VALUE = 100000"

definition MIDGAME_VALUE_ITEMS :: "(string \<times> int) list" where
  "MIDGAME_VALUE_ITEMS = [
     (''P'', MIDGAME_PAWN_VALUE), (''N'', MIDGAME_KNIGHT_VALUE), (''B'', MIDGAME_BISHOP_VALUE),
     (''R'', MIDGAME_ROOK_VALUE), (''Q'', MIDGAME_QUEEN_VALUE), (''K'', MIDGAME_KING_VALUE)]"

definition MIDGAME_PIECE_VALUES :: "string \<Rightarrow> int option" where
  "MIDGAME_PIECE_VALUES = map_of MIDGAME_VALUE_ITEMS"

definition MIDGAME_TROPISM_VALUES :: "string \<Rightarrow> int option" where
  "MIDGAME_TROPISM_VALUES = map_of (map (\<lambda>(piece, v). (piece, v div 5)) MIDGAME_VALUE_ITEMS)"

definition ENDGAME_PAWN_VALUE :: int where "ENDGAME_PAWN_VALUE = 115"
definition ENDGAME_KNIGHT_VALUE :: int where "ENDGAME_KNIGHT_VALUE = 343"
definition ENDGAME_BISHOP_VALUE :: int where "ENDGAME_BISHOP_VALUE = 362"
definition ENDGAME_ROOK_VALUE :: int where "ENDGAME_ROOK_VALUE = 624"
definition ENDGAME_QUEEN_VALUE :: int where "ENDGAME_QUEEN_VALUE = 1141"
definition ENDGAME_KING_VALUE :: int where "ENDGAME_KING_VALUE = 100000"

definition ENDGAME_VALUE_ITEMS :: "(string \<times> int) list" where
  "ENDGAME_VALUE_ITEMS = [
     (''P'', ENDGAME_PAWN_VALUE), (''N'', ENDGAME_KNIGHT_VALUE), (''B'', ENDGAME_BISHOP_VALUE),
     (''R'', ENDGAME_ROOK_VALUE), (''Q'', ENDGAME_QUEEN_VALUE), (''K'', ENDGAME_KING_VALUE)]"

definition ENDGAME_PIECE_VALUES :: "string \<Rightarrow> int option" where
  "ENDGAME_PIECE_VALUES = map_of ENDGAME_VALUE_ITEMS"

definition ENDGAME_TROPISM_VALUES :: "string \<Rightarrow> int option" where
  "ENDGAME_TROPISM_VALUES = map_of (map (\<lambda>(piece, v). (piece, v div 3)) ENDGAME_VALUE_ITEMS)"

text \<open>The 8 by 8 tables as the module defines them, rank 8 first.\<close>

definition MIDGAME_PAWN_TABLE :: "int list" where
  "MIDGAME_PAWN_TABLE = [
    0, 0, 0, 0, 0, 0, 0, 0,
    120, 163, 74, 116, 83, 154, 41, -13,
    -7, 9, 32, 38, 79, 68, 30, -24,
    -17, 16, 7, 26, 28, 15, 21, -28,
    -33, -2, -6, 20, 26, 7, 12, -30,
    -32, -5, -5, -12, 4, 4, 40, -15,
    -43, -1, -24, -33, -23, 29, 46, -27,
    0, 0, 0, 0, 0, 0, 0, 0]"

definition MIDGAME_KNIGHT_TABLE :: "int list" where
  "MIDGAME_KNIGHT_TABLE = [
    -204, -109, -41, -60, 74, -118, -18, -130,
    -89, -50, 88, 44, 28, 76, 9, -21,
    -57, 73, 45, 79, 102, 157, 89, 54,
    -11, 21, 23, 65, 45, 84, 22, 27,
    -16, 5, 20, 16, 34, 23, 26, -10,
    -28, -11, 15, 12, 23, 21, 30, -20,
    -35, -65, -15, -4, -1, 22, -17, -23,
    -128, -26, -71, -40, -21, -34, -23, -28]"

definition MIDGAME_BISHOP_TABLE :: "int list" where
  "MIDGAME_BISHOP_TABLE = [
    -35, 5, -100, -45, -30, -51, 9, -10,
    -32, 20, -22, -16, 37, 72, 22, -57,
    -20, 45, 52, 49, 43, 61, 45, -2,
    -5, 6, 23, 61, 45, 45, 9, -2,
    -7, 16, 16, 32, 41, 15, 12, 5,
    0, 18, 18, 18, 17, 33, 22, 12,
    5, 18, 20, 0, 9, 26, 40, 1,
    -40, -4, -17, -26, -16, -15, -48, -26]"

definition MIDGAME_ROOK_TABLE :: "int list" where
  "MIDGAME_ROOK_TABLE = [
    39, 51, 39, 62, 77, 11, 38, 52,
    33, 39, 71, 76, 98, 82, 32, 54,
    -6, 23, 32, 44, 21, 55, 74, 20,
    -29, -13, 9, 32, 29, 43, -10, -24,
    -44, -32, -15, -1, 11, -9, 7, -28,
    -55, -30, -20, -21, 4, 0, -6, -40,
    -54, -20, -24, -11, -1, 13, -7, -87,
    -23, -16, 1, 21, 20, 9, -45, -32]"

definition MIDGAME_QUEEN_TABLE :: "int list" where
  "MIDGAME_QUEEN_TABLE = [
    -34, 0, 35, 15, 72, 54, 52, 55,
    -29, -48, -6, 1, -20, 70, 34, 66,
    -16, -21, 9, 10, 35, 68, 57, 70,
    -33, -33, -20, -20, -1, 21, -2, 1,
    -11, -32, -11, -12, -2, -5, 4, -4,
    -17, 2, -13, -2, -6, 2, 17, 6,
    -43, -10, 13, 2, 10, 18, -4, 1,
    -1, -22, -11, 12, -18, -30, -38, -61]"

definition MIDGAME_KING_TABLE :: "int list" where
  "MIDGAME_KING_TABLE = [
    -79, 28, 20, -18, -68, -41, 2, 16,
    35, -1, -24, -9, -10, -5, -46, -35,
    -11, 29, 2, -20, -24, 7, 27, -27,
    -21, -24, -15, -33, -37, -30, -17, -44,
    -60, -1, -33, -48, -56, -54, -40, -62,
    -17, -17, -27, -56, -54, -37, -18, -33,
    1, 9, -10, -78, -52, -20, 11, 10,
    -18, 44, 15, -66, 10, -34, 29, 17]"

definition ENDGAME_PAWN_TABLE :: "int list" where
  "ENDGAME_PAWN_TABLE = [
    0, 0, 0, 0, 0, 0, 0, 0,
    217, 211, 193, 163, 179, 161, 201, 228,
    115, 122, 104, 82, 68, 65, 100, 102,
    39, 29, 16, 6, -2, 5, 21, 21,
    16, 11, -4, -9, -9, -10, 4, -1,
    5, 9, -7, 1, 0, -6, -1, -10,
    16, 10, 10, 12, 16, 0, 2, -9,
    0, 0, 0, 0, 0, 0, 0, 0]"

definition ENDGAME_KNIGHT_TABLE :: "int list" where
  "ENDGAME_KNIGHT_TABLE = [
    -71, -46, -16, -34, -38, -33, -77, -121,
    -30, -10, -30, -2, -11, -30, -29, -63,
    -29, -24, 12, 11, -1, -11, -23, -50,
    -21, 4, 27, 27, 27, 13, 10, -22,
    -22, -7, 20, 30, 20, 21, 5, -22,
    -28, -4, -1, 18, 12, -4, -24, -27,
    -51, -24, -12, -6, -2, -24, -28, -54,
    -35, -62, -28, -18, -27, -22, -61, -78]"

definition ENDGAME_BISHOP_TABLE :: "int list" where
  "ENDGAME_BISHOP_TABLE = [
    -17, -26, -13, -10, -9, -11, -21, -29,
    -10, -5, 9, -15, -4, -16, -5, -17,
    2, -10, 0, -1, -2, 7, 0, 5,
    -4, 11, 15, 11, 17, 12, 4, 2,
    -7, 4, 16, 23, 9, 12, -4, -11,
    -15, -4, 10, 12, 16, 4, -9, -18,
    -17, -22, -9, -1, 5, -11, -18, -33,
    -28, -11, -28, -6, -11, -20, -6, -21]"

definition ENDGAME_ROOK_TABLE :: "int list" where
  "ENDGAME_ROOK_TABLE = [
    16, 12, 22, 18, 15, 15, 10, 6,
    13, 16, 16, 13, -4, 4, 10, 4,
    9, 9, 9, 6, 5, -4, -6, -4,
    5, 4, 16, 1, 2, 1, -1, 2,
    4, 6, 10, 5, -6, -7, -10, -13,
    -5, 0, -6, -1, -9, -15, -10, -20,
    -7, -7, 0, 2, -11, -11, -13, -4,
    -11, 2, 4, -1, -6, -16, 5, -24]"

definition ENDGAME_QUEEN_TABLE :: "int list" where
  "ENDGAME_QUEEN_TABLE = [
    -11, 27, 27, 33, 33, 23, 12, 24,
    -21, 24, 39, 50, 71, 30, 37, 0,
    -24, 7, 11, 60, 57, 43, 23, 11,
    4, 27, 29, 55, 70, 49, 70, 44,
    -22, 34, 23, 57, 38, 41, 48, 28,
    -20, -33, 18, 7, 11, 21, 12, 6,
    -27, -28, -37, -20, -20, -28, -44, -39,
    -40, -34, -27, -52, -6, -39, -24, -50]"

definition ENDGAME_KING_TABLE :: "int list" where
  "ENDGAME_KING_TABLE = [
    -90, -43, -22, -22, -13, 18, 5, -21,
    -15, 21, 17, 21, 21, 46, 28, 13,
    12, 21, 28, 18, 24, 55, 54, 16,
    -10, 27, 29, 33, 32, 40, 32, 4,
    -22, -5, 26, 29, 33, 28, 11, -13,
    -23, -4, 13, 26, 28, 20, 9, -11,
    -33, -13, 5, 16, 17, 5, -6, -21,
    -65, -41, -26, -13, -34, -17, -29, -52]"

text \<open>
  The first \<open>isready\<close> replaces every table by a 10 by 12 one: two blank rows, then each
  row of eight between two zeros, then two blank rows. The main loop skips every other
  command until that has happened, so the engine's functions only ever read the padded
  tables; \<open>MIDGAME_PIECE_SQUARE_TABLES\<close> and \<open>ENDGAME_PIECE_SQUARE_TABLES\<close> below are
  the dictionaries after that initialisation.
\<close>

definition pad_table :: "int list \<Rightarrow> int list" where
  "pad_table t =
     (let blank_row = replicate 10 (0::int);
          new_table = foldl (\<lambda>acc row. acc @ [0] @ take 8 (drop row t) @ [0])
                        (blank_row @ blank_row) [0, 8, 16, 24, 32, 40, 48, 56]
      in new_table @ blank_row @ blank_row)"

definition MIDGAME_TABLE_ITEMS :: "(string \<times> int list) list" where
  "MIDGAME_TABLE_ITEMS = [
     (''P'', MIDGAME_PAWN_TABLE), (''N'', MIDGAME_KNIGHT_TABLE), (''B'', MIDGAME_BISHOP_TABLE),
     (''R'', MIDGAME_ROOK_TABLE), (''Q'', MIDGAME_QUEEN_TABLE), (''K'', MIDGAME_KING_TABLE)]"

definition ENDGAME_TABLE_ITEMS :: "(string \<times> int list) list" where
  "ENDGAME_TABLE_ITEMS = [
     (''P'', ENDGAME_PAWN_TABLE), (''N'', ENDGAME_KNIGHT_TABLE), (''B'', ENDGAME_BISHOP_TABLE),
     (''R'', ENDGAME_ROOK_TABLE), (''Q'', ENDGAME_QUEEN_TABLE), (''K'', ENDGAME_KING_TABLE)]"

definition MIDGAME_PIECE_SQUARE_TABLES :: "string \<Rightarrow> int list option" where
  "MIDGAME_PIECE_SQUARE_TABLES = map_of (map (\<lambda>(piece, t). (piece, pad_table t)) MIDGAME_TABLE_ITEMS)"

definition ENDGAME_PIECE_SQUARE_TABLES :: "string \<Rightarrow> int list option" where
  "ENDGAME_PIECE_SQUARE_TABLES = map_of (map (\<lambda>(piece, t). (piece, pad_table t)) ENDGAME_TABLE_ITEMS)"

definition MOP_UP_SCORE :: int where "MOP_UP_SCORE = ENDGAME_PAWN_VALUE * 2"

definition CHECKMATE_UPPER :: int where
  "CHECKMATE_UPPER = ENDGAME_KING_VALUE + 10 * ENDGAME_QUEEN_VALUE"

definition CHECKMATE_LOWER :: int where
  "CHECKMATE_LOWER = ENDGAME_KING_VALUE - 10 * ENDGAME_QUEEN_VALUE"

definition KNIGHT_PHASE :: int where "KNIGHT_PHASE = 1"
definition BISHOP_PHASE :: int where "BISHOP_PHASE = 1"
definition ROOK_PHASE :: int where "ROOK_PHASE = 2"
definition QUEEN_PHASE :: int where "QUEEN_PHASE = 4"

definition TOTAL_PHASE :: int where
  "TOTAL_PHASE = 4 * KNIGHT_PHASE + 4 * BISHOP_PHASE + 4 * ROOK_PHASE + 2 * QUEEN_PHASE"

subsection \<open>Hashing constants\<close>

text \<open>The 781 PolyGlot keys, as the module lists them.\<close>

definition HASH_VALUES :: "int list" where
  "HASH_VALUES = [
    0x9D39247E33776D41, 0x2AF7398005AAA5C7, 0x44DB015024623547, 0x9C15F73E62A76AE2,
    0x75834465489C0C89, 0x3290AC3A203001BF, 0x0FBBAD1F61042279, 0xE83A908FF2FB60CA,
    0x0D7E765D58755C10, 0x1A083822CEAFE02D, 0x9605D5F0E25EC3B0, 0xD021FF5CD13A2ED5,
    0x40BDF15D4A672E32, 0x011355146FD56395, 0x5DB4832046F3D9E5, 0x239F8B2D7FF719CC,
    0x05D1A1AE85B49AA1, 0x679F848F6E8FC971, 0x7449BBFF801FED0B, 0x7D11CDB1C3B7ADF0,
    0x82C7709E781EB7CC, 0xF3218F1C9510786C, 0x331478F3AF51BBE6, 0x4BB38DE5E7219443,
    0xAA649C6EBCFD50FC, 0x8DBD98A352AFD40B, 0x87D2074B81D79217, 0x19F3C751D3E92AE1,
    0xB4AB30F062B19ABF, 0x7B0500AC42047AC4, 0xC9452CA81A09D85D, 0x24AA6C514DA27500,
    0x4C9F34427501B447, 0x14A68FD73C910841, 0xA71B9B83461CBD93, 0x03488B95B0F1850F,
    0x637B2B34FF93C040, 0x09D1BC9A3DD90A94, 0x3575668334A1DD3B, 0x735E2B97A4C45A23,
    0x18727070F1BD400B, 0x1FCBACD259BF02E7, 0xD310A7C2CE9B6555, 0xBF983FE0FE5D8244,
    0x9F74D14F7454A824, 0x51EBDC4AB9BA3035, 0x5C82C505DB9AB0FA, 0xFCF7FE8A3430B241,
    0x3253A729B9BA3DDE, 0x8C74C368081B3075, 0xB9BC6C87167C33E7, 0x7EF48F2B83024E20,
    0x11D505D4C351BD7F, 0x6568FCA92C76A243, 0x4DE0B0F40F32A7B8, 0x96D693460CC37E5D,
    0x42E240CB63689F2F, 0x6D2BDCDAE2919661, 0x42880B0236E4D951, 0x5F0F4A5898171BB6,
    0x39F890F579F92F88, 0x93C5B5F47356388B, 0x63DC359D8D231B78, 0xEC16CA8AEA98AD76,
    0x5355F900C2A82DC7, 0x07FB9F855A997142, 0x5093417AA8A7ED5E, 0x7BCBC38DA25A7F3C,
    0x19FC8A768CF4B6D4, 0x637A7780DECFC0D9, 0x8249A47AEE0E41F7, 0x79AD695501E7D1E8,
    0x14ACBAF4777D5776, 0xF145B6BECCDEA195, 0xDABF2AC8201752FC, 0x24C3C94DF9C8D3F6,
    0xBB6E2924F03912EA, 0x0CE26C0B95C980D9, 0xA49CD132BFBF7CC4, 0xE99D662AF4243939,
    0x27E6AD7891165C3F, 0x8535F040B9744FF1, 0x54B3F4FA5F40D873, 0x72B12C32127FED2B,
    0xEE954D3C7B411F47, 0x9A85AC909A24EAA1, 0x70AC4CD9F04F21F5, 0xF9B89D3E99A075C2,
    0x87B3E2B2B5C907B1, 0xA366E5B8C54F48B8, 0xAE4A9346CC3F7CF2, 0x1920C04D47267BBD,
    0x87BF02C6B49E2AE9, 0x092237AC237F3859, 0xFF07F64EF8ED14D0, 0x8DE8DCA9F03CC54E,
    0x9C1633264DB49C89, 0xB3F22C3D0B0B38ED, 0x390E5FB44D01144B, 0x5BFEA5B4712768E9,
    0x1E1032911FA78984, 0x9A74ACB964E78CB3, 0x4F80F7A035DAFB04, 0x6304D09A0B3738C4,
    0x2171E64683023A08, 0x5B9B63EB9CEFF80C, 0x506AACF489889342, 0x1881AFC9A3A701D6,
    0x6503080440750644, 0xDFD395339CDBF4A7, 0xEF927DBCF00C20F2, 0x7B32F7D1E03680EC,
    0xB9FD7620E7316243, 0x05A7E8A57DB91B77, 0xB5889C6E15630A75, 0x4A750A09CE9573F7,
    0xCF464CEC899A2F8A, 0xF538639CE705B824, 0x3C79A0FF5580EF7F, 0xEDE6C87F8477609D,
    0x799E81F05BC93F31, 0x86536B8CF3428A8C, 0x97D7374C60087B73, 0xA246637CFF328532,
    0x043FCAE60CC0EBA0, 0x920E449535DD359E, 0x70EB093B15B290CC, 0x73A1921916591CBD,
    0x56436C9FE1A1AA8D, 0xEFAC4B70633B8F81, 0xBB215798D45DF7AF, 0x45F20042F24F1768,
    0x930F80F4E8EB7462, 0xFF6712FFCFD75EA1, 0xAE623FD67468AA70, 0xDD2C5BC84BC8D8FC,
    0x7EED120D54CF2DD9, 0x22FE545401165F1C, 0xC91800E98FB99929, 0x808BD68E6AC10365,
    0xDEC468145B7605F6, 0x1BEDE3A3AEF53302, 0x43539603D6C55602, 0xAA969B5C691CCB7A,
    0xA87832D392EFEE56, 0x65942C7B3C7E11AE, 0xDED2D633CAD004F6, 0x21F08570F420E565,
    0xB415938D7DA94E3C, 0x91B859E59ECB6350, 0x10CFF333E0ED804A, 0x28AED140BE0BB7DD,
    0xC5CC1D89724FA456, 0x5648F680F11A2741, 0x2D255069F0B7DAB3, 0x9BC5A38EF729ABD4,
    0xEF2F054308F6A2BC, 0xAF2042F5CC5C2858, 0x480412BAB7F5BE2A, 0xAEF3AF4A563DFE43,
    0x19AFE59AE451497F, 0x52593803DFF1E840, 0xF4F076E65F2CE6F0, 0x11379625747D5AF3,
    0xBCE5D2248682C115, 0x9DA4243DE836994F, 0x066F70B33FE09017, 0x4DC4DE189B671A1C,
    0x51039AB7712457C3, 0xC07A3F80C31FB4B4, 0xB46EE9C5E64A6E7C, 0xB3819A42ABE61C87,
    0x21A007933A522A20, 0x2DF16F761598AA4F, 0x763C4A1371B368FD, 0xF793C46702E086A0,
    0xD7288E012AEB8D31, 0xDE336A2A4BC1C44B, 0x0BF692B38D079F23, 0x2C604A7A177326B3,
    0x4850E73E03EB6064, 0xCFC447F1E53C8E1B, 0xB05CA3F564268D99, 0x9AE182C8BC9474E8,
    0xA4FC4BD4FC5558CA, 0xE755178D58FC4E76, 0x69B97DB1A4C03DFE, 0xF9B5B7C4ACC67C96,
    0xFC6A82D64B8655FB, 0x9C684CB6C4D24417, 0x8EC97D2917456ED0, 0x6703DF9D2924E97E,
    0xC547F57E42A7444E, 0x78E37644E7CAD29E, 0xFE9A44E9362F05FA, 0x08BD35CC38336615,
    0x9315E5EB3A129ACE, 0x94061B871E04DF75, 0xDF1D9F9D784BA010, 0x3BBA57B68871B59D,
    0xD2B7ADEEDED1F73F, 0xF7A255D83BC373F8, 0xD7F4F2448C0CEB81, 0xD95BE88CD210FFA7,
    0x336F52F8FF4728E7, 0xA74049DAC312AC71, 0xA2F61BB6E437FDB5, 0x4F2A5CB07F6A35B3,
    0x87D380BDA5BF7859, 0x16B9F7E06C453A21, 0x7BA2484C8A0FD54E, 0xF3A678CAD9A2E38C,
    0x39B0BF7DDE437BA2, 0xFCAF55C1BF8A4424, 0x18FCF680573FA594, 0x4C0563B89F495AC3,
    0x40E087931A00930D, 0x8CFFA9412EB642C1, 0x68CA39053261169F, 0x7A1EE967D27579E2,
    0x9D1D60E5076F5B6F, 0x3810E399B6F65BA2, 0x32095B6D4AB5F9B1, 0x35CAB62109DD038A,
    0xA90B24499FCFAFB1, 0x77A225A07CC2C6BD, 0x513E5E634C70E331, 0x4361C0CA3F692F12,
    0xD941ACA44B20A45B, 0x528F7C8602C5807B, 0x52AB92BEB9613989, 0x9D1DFA2EFC557F73,
    0x722FF175F572C348, 0x1D1260A51107FE97, 0x7A249A57EC0C9BA2, 0x04208FE9E8F7F2D6,
    0x5A110C6058B920A0, 0x0CD9A497658A5698, 0x56FD23C8F9715A4C, 0x284C847B9D887AAE,
    0x04FEABFBBDB619CB, 0x742E1E651C60BA83, 0x9A9632E65904AD3C, 0x881B82A13B51B9E2,
    0x506E6744CD974924, 0xB0183DB56FFC6A79, 0x0ED9B915C66ED37E, 0x5E11E86D5873D484,
    0xF678647E3519AC6E, 0x1B85D488D0F20CC5, 0xDAB9FE6525D89021, 0x0D151D86ADB73615,
    0xA865A54EDCC0F019, 0x93C42566AEF98FFB, 0x99E7AFEABE000731, 0x48CBFF086DDF285A,
    0x7F9B6AF1EBF78BAF, 0x58627E1A149BBA21, 0x2CD16E2ABD791E33, 0xD363EFF5F0977996,
    0x0CE2A38C344A6EED, 0x1A804AADB9CFA741, 0x907F30421D78C5DE, 0x501F65EDB3034D07,
    0x37624AE5A48FA6E9, 0x957BAF61700CFF4E, 0x3A6C27934E31188A, 0xD49503536ABCA345,
    0x088E049589C432E0, 0xF943AEE7FEBF21B8, 0x6C3B8E3E336139D3, 0x364F6FFA464EE52E,
    0xD60F6DCEDC314222, 0x56963B0DCA418FC0, 0x16F50EDF91E513AF, 0xEF1955914B609F93,
    0x565601C0364E3228, 0xECB53939887E8175, 0xBAC7A9A18531294B, 0xB344C470397BBA52,
    0x65D34954DAF3CEBD, 0xB4B81B3FA97511E2, 0xB422061193D6F6A7, 0x071582401C38434D,
    0x7A13F18BBEDC4FF5, 0xBC4097B116C524D2, 0x59B97885E2F2EA28, 0x99170A5DC3115544,
    0x6F423357E7C6A9F9, 0x325928EE6E6F8794, 0xD0E4366228B03343, 0x565C31F7DE89EA27,
    0x30F5611484119414, 0xD873DB391292ED4F, 0x7BD94E1D8E17DEBC, 0xC7D9F16864A76E94,
    0x947AE053EE56E63C, 0xC8C93882F9475F5F, 0x3A9BF55BA91F81CA, 0xD9A11FBB3D9808E4,
    0x0FD22063EDC29FCA, 0xB3F256D8ACA0B0B9, 0xB03031A8B4516E84, 0x35DD37D5871448AF,
    0xE9F6082B05542E4E, 0xEBFAFA33D7254B59, 0x9255ABB50D532280, 0xB9AB4CE57F2D34F3,
    0x693501D628297551, 0xC62C58F97DD949BF, 0xCD454F8F19C5126A, 0xBBE83F4ECC2BDECB,
    0xDC842B7E2819E230, 0xBA89142E007503B8, 0xA3BC941D0A5061CB, 0xE9F6760E32CD8021,
    0x09C7E552BC76492F, 0x852F54934DA55CC9, 0x8107FCCF064FCF56, 0x098954D51FFF6580,
    0x23B70EDB1955C4BF, 0xC330DE426430F69D, 0x4715ED43E8A45C0A, 0xA8D7E4DAB780A08D,
    0x0572B974F03CE0BB, 0xB57D2E985E1419C7, 0xE8D9ECBE2CF3D73F, 0x2FE4B17170E59750,
    0x11317BA87905E790, 0x7FBF21EC8A1F45EC, 0x1725CABFCB045B00, 0x964E915CD5E2B207,
    0x3E2B8BCBF016D66D, 0xBE7444E39328A0AC, 0xF85B2B4FBCDE44B7, 0x49353FEA39BA63B1,
    0x1DD01AAFCD53486A, 0x1FCA8A92FD719F85, 0xFC7C95D827357AFA, 0x18A6A990C8B35EBD,
    0xCCCB7005C6B9C28D, 0x3BDBB92C43B17F26, 0xAA70B5B4F89695A2, 0xE94C39A54A98307F,
    0xB7A0B174CFF6F36E, 0xD4DBA84729AF48AD, 0x2E18BC1AD9704A68, 0x2DE0966DAF2F8B1C,
    0xB9C11D5B1E43A07E, 0x64972D68DEE33360, 0x94628D38D0C20584, 0xDBC0D2B6AB90A559,
    0xD2733C4335C6A72F, 0x7E75D99D94A70F4D, 0x6CED1983376FA72B, 0x97FCAACBF030BC24,
    0x7B77497B32503B12, 0x8547EDDFB81CCB94, 0x79999CDFF70902CB, 0xCFFE1939438E9B24,
    0x829626E3892D95D7, 0x92FAE24291F2B3F1, 0x63E22C147B9C3403, 0xC678B6D860284A1C,
    0x5873888850659AE7, 0x0981DCD296A8736D, 0x9F65789A6509A440, 0x9FF38FED72E9052F,
    0xE479EE5B9930578C, 0xE7F28ECD2D49EECD, 0x56C074A581EA17FE, 0x5544F7D774B14AEF,
    0x7B3F0195FC6F290F, 0x12153635B2C0CF57, 0x7F5126DBBA5E0CA7, 0x7A76956C3EAFB413,
    0x3D5774A11D31AB39, 0x8A1B083821F40CB4, 0x7B4A38E32537DF62, 0x950113646D1D6E03,
    0x4DA8979A0041E8A9, 0x3BC36E078F7515D7, 0x5D0A12F27AD310D1, 0x7F9D1A2E1EBE1327,
    0xDA3A361B1C5157B1, 0xDCDD7D20903D0C25, 0x36833336D068F707, 0xCE68341F79893389,
    0xAB9090168DD05F34, 0x43954B3252DC25E5, 0xB438C2B67F98E5E9, 0x10DCD78E3851A492,
    0xDBC27AB5447822BF, 0x9B3CDB65F82CA382, 0xB67B7896167B4C84, 0xBFCED1B0048EAC50,
    0xA9119B60369FFEBD, 0x1FFF7AC80904BF45, 0xAC12FB171817EEE7, 0xAF08DA9177DDA93D,
    0x1B0CAB936E65C744, 0xB559EB1D04E5E932, 0xC37B45B3F8D6F2BA, 0xC3A9DC228CAAC9E9,
    0xF3B8B6675A6507FF, 0x9FC477DE4ED681DA, 0x67378D8ECCEF96CB, 0x6DD856D94D259236,
    0xA319CE15B0B4DB31, 0x073973751F12DD5E, 0x8A8E849EB32781A5, 0xE1925C71285279F5,
    0x74C04BF1790C0EFE, 0x4DDA48153C94938A, 0x9D266D6A1CC0542C, 0x7440FB816508C4FE,
    0x13328503DF48229F, 0xD6BF7BAEE43CAC40, 0x4838D65F6EF6748F, 0x1E152328F3318DEA,
    0x8F8419A348F296BF, 0x72C8834A5957B511, 0xD7A023A73260B45C, 0x94EBC8ABCFB56DAE,
    0x9FC10D0F989993E0, 0xDE68A2355B93CAE6, 0xA44CFE79AE538BBE, 0x9D1D84FCCE371425,
    0x51D2B1AB2DDFB636, 0x2FD7E4B9E72CD38C, 0x65CA5B96B7552210, 0xDD69A0D8AB3B546D,
    0x604D51B25FBF70E2, 0x73AA8A564FB7AC9E, 0x1A8C1E992B941148, 0xAAC40A2703D9BEA0,
    0x764DBEAE7FA4F3A6, 0x1E99B96E70A9BE8B, 0x2C5E9DEB57EF4743, 0x3A938FEE32D29981,
    0x26E6DB8FFDF5ADFE, 0x469356C504EC9F9D, 0xC8763C5B08D1908C, 0x3F6C6AF859D80055,
    0x7F7CC39420A3A545, 0x9BFB227EBDF4C5CE, 0x89039D79D6FC5C5C, 0x8FE88B57305E2AB6,
    0xA09E8C8C35AB96DE, 0xFA7E393983325753, 0xD6B6D0ECC617C699, 0xDFEA21EA9E7557E3,
    0xB67C1FA481680AF8, 0xCA1E3785A9E724E5, 0x1CFC8BED0D681639, 0xD18D8549D140CAEA,
    0x4ED0FE7E9DC91335, 0xE4DBF0634473F5D2, 0x1761F93A44D5AEFE, 0x53898E4C3910DA55,
    0x734DE8181F6EC39A, 0x2680B122BAA28D97, 0x298AF231C85BAFAB, 0x7983EED3740847D5,
    0x66C1A2A1A60CD889, 0x9E17E49642A3E4C1, 0xEDB454E7BADC0805, 0x50B704CAB602C329,
    0x4CC317FB9CDDD023, 0x66B4835D9EAFEA22, 0x219B97E26FFC81BD, 0x261E4E4C0A333A9D,
    0x1FE2CCA76517DB90, 0xD7504DFA8816EDBB, 0xB9571FA04DC089C8, 0x1DDC0325259B27DE,
    0xCF3F4688801EB9AA, 0xF4F5D05C10CAB243, 0x38B6525C21A42B0E, 0x36F60E2BA4FA6800,
    0xEB3593803173E0CE, 0x9C4CD6257C5A3603, 0xAF0C317D32ADAA8A, 0x258E5A80C7204C4B,
    0x8B889D624D44885D, 0xF4D14597E660F855, 0xD4347F66EC8941C3, 0xE699ED85B0DFB40D,
    0x2472F6207C2D0484, 0xC2A1E7B5B459AEB5, 0xAB4F6451CC1D45EC, 0x63767572AE3D6174,
    0xA59E0BD101731A28, 0x116D0016CB948F09, 0x2CF9C8CA052F6E9F, 0x0B090A7560A968E3,
    0xABEEDDB2DDE06FF1, 0x58EFC10B06A2068D, 0xC6E57A78FBD986E0, 0x2EAB8CA63CE802D7,
    0x14A195640116F336, 0x7C0828DD624EC390, 0xD74BBE77E6116AC7, 0x804456AF10F5FB53,
    0xEBE9EA2ADF4321C7, 0x03219A39EE587A30, 0x49787FEF17AF9924, 0xA1E9300CD8520548,
    0x5B45E522E4B1B4EF, 0xB49C3B3995091A36, 0xD4490AD526F14431, 0x12A8F216AF9418C2,
    0x001F837CC7350524, 0x1877B51E57A764D5, 0xA2853B80F17F58EE, 0x993E1DE72D36D310,
    0xB3598080CE64A656, 0x252F59CF0D9F04BB, 0xD23C8E176D113600, 0x1BDA0492E7E4586E,
    0x21E0BD5026C619BF, 0x3B097ADAF088F94E, 0x8D14DEDB30BE846E, 0xF95CFFA23AF5F6F4,
    0x3871700761B3F743, 0xCA672B91E9E4FA16, 0x64C8E531BFF53B55, 0x241260ED4AD1E87D,
    0x106C09B972D2E822, 0x7FBA195410E5CA30, 0x7884D9BC6CB569D8, 0x0647DFEDCD894A29,
    0x63573FF03E224774, 0x4FC8E9560F91B123, 0x1DB956E450275779, 0xB8D91274B9E9D4FB,
    0xA2EBEE47E2FBFCE1, 0xD9F1F30CCD97FB09, 0xEFED53D75FD64E6B, 0x2E6D02C36017F67F,
    0xA9AA4D20DB084E9B, 0xB64BE8D8B25396C1, 0x70CB6AF7C2D5BCF0, 0x98F076A4F7A2322E,
    0xBF84470805E69B5F, 0x94C3251F06F90CF3, 0x3E003E616A6591E9, 0xB925A6CD0421AFF3,
    0x61BDD1307C66E300, 0xBF8D5108E27E0D48, 0x240AB57A8B888B20, 0xFC87614BAF287E07,
    0xEF02CDD06FFDB432, 0xA1082C0466DF6C0A, 0x8215E577001332C8, 0xD39BB9C3A48DB6CF,
    0x2738259634305C14, 0x61CF4F94C97DF93D, 0x1B6BACA2AE4E125B, 0x758F450C88572E0B,
    0x959F587D507A8359, 0xB063E962E045F54D, 0x60E8ED72C0DFF5D1, 0x7B64978555326F9F,
    0xFD080D236DA814BA, 0x8C90FD9B083F4558, 0x106F72FE81E2C590, 0x7976033A39F7D952,
    0xA4EC0132764CA04B, 0x733EA705FAE4FA77, 0xB4D8F77BC3E56167, 0x9E21F4F903B33FD9,
    0x9D765E419FB69F6D, 0xD30C088BA61EA5EF, 0x5D94337FBFAF7F5B, 0x1A4E4822EB4D7A59,
    0x6FFE73E81B637FB3, 0xDDF957BC36D8B9CA, 0x64D0E29EEA8838B3, 0x08DD9BDFD96B9F63,
    0x087E79E5A57D1D13, 0xE328E230E3E2B3FB, 0x1C2559E30F0946BE, 0x720BF5F26F4D2EAA,
    0xB0774D261CC609DB, 0x443F64EC5A371195, 0x4112CF68649A260E, 0xD813F2FAB7F5C5CA,
    0x660D3257380841EE, 0x59AC2C7873F910A3, 0xE846963877671A17, 0x93B633ABFA3469F8,
    0xC0C0F5A60EF4CDCF, 0xCAF21ECD4377B28C, 0x57277707199B8175, 0x506C11B9D90E8B1D,
    0xD83CC2687A19255F, 0x4A29C6465A314CD1, 0xED2DF21216235097, 0xB5635C95FF7296E2,
    0x22AF003AB672E811, 0x52E762596BF68235, 0x9AEBA33AC6ECC6B0, 0x944F6DE09134DFB6,
    0x6C47BEC883A7DE39, 0x6AD047C430A12104, 0xA5B1CFDBA0AB4067, 0x7C45D833AFF07862,
    0x5092EF950A16DA0B, 0x9338E69C052B8E7B, 0x455A4B4CFE30E3F5, 0x6B02E63195AD0CF8,
    0x6B17B224BAD6BF27, 0xD1E0CCD25BB9C169, 0xDE0C89A556B9AE70, 0x50065E535A213CF6,
    0x9C1169FA2777B874, 0x78EDEFD694AF1EED, 0x6DC93D9526A50E68, 0xEE97F453F06791ED,
    0x32AB0EDB696703D3, 0x3A6853C7E70757A7, 0x31865CED6120F37D, 0x67FEF95D92607890,
    0x1F2B1D1F15F6DC9C, 0xB69E38A8965C6B65, 0xAA9119FF184CCCF4, 0xF43C732873F24C13,
    0xFB4A3D794A9A80D2, 0x3550C2321FD6109C, 0x371F77E76BB8417E, 0x6BFA9AAE5EC05779,
    0xCD04F3FF001A4778, 0xE3273522064480CA, 0x9F91508BFFCFC14A, 0x049A7F41061A9E60,
    0xFCB6BE43A9F2FE9B, 0x08DE8A1C7797DA9B, 0x8F9887E6078735A1, 0xB5B4071DBFC73A66,
    0x230E343DFBA08D33, 0x43ED7F5A0FAE657D, 0x3A88A0FBBCB05C63, 0x21874B8B4D2DBC4F,
    0x1BDEA12E35F6A8C9, 0x53C065C6C8E63528, 0xE34A1D250E7A8D6B, 0xD6B04D3B7651DD7E,
    0x5E90277E7CB39E2D, 0x2C046F22062DC67D, 0xB10BB459132D0A26, 0x3FA9DDFB67E2F199,
    0x0E09B88E1914F7AF, 0x10E8B35AF3EEAB37, 0x9EEDECA8E272B933, 0xD4C718BC4AE8AE5F,
    0x81536D601170FC20, 0x91B534F885818A06, 0xEC8177F83F900978, 0x190E714FADA5156E,
    0xB592BF39B0364963, 0x89C350C893AE7DC1, 0xAC042E70F8B383F2, 0xB49B52E587A1EE60,
    0xFB152FE3FF26DA89, 0x3E666E6F69AE2C15, 0x3B544EBE544C19F9, 0xE805A1E290CF2456,
    0x24B33C9D7ED25117, 0xE74733427B72F0C1, 0x0A804D18B7097475, 0x57E3306D881EDB4F,
    0x4AE7D6A36EB5DBCB, 0x2D8D5432157064C8, 0xD1E649DE1E7F268B, 0x8A328A1CEDFE552C,
    0x07A3AEC79624C7DA, 0x84547DDC3E203C94, 0x990A98FD5071D263, 0x1A4FF12616EEFC89,
    0xF6F7FD1431714200, 0x30C05B1BA332F41C, 0x8D2636B81555A786, 0x46C9FEB55D120902,
    0xCCEC0A73B49C9921, 0x4E9D2827355FC492, 0x19EBB029435DCB0F, 0x4659D2B743848A2C,
    0x963EF2C96B33BE31, 0x74F85198B05A2E7D, 0x5A0F544DD2B1FB18, 0x03727073C2E134B1,
    0xC7F6AA2DE59AEA61, 0x352787BAA0D7C22F, 0x9853EAB63B5E0B35, 0xABBDCDD7ED5C0860,
    0xCF05DAF5AC8D77B0, 0x49CAD48CEBF4A71E, 0x7A4C10EC2158C4A6, 0xD9E92AA246BF719E,
    0x13AE978D09FE5557, 0x730499AF921549FF, 0x4E4B705B92903BA4, 0xFF577222C14F0A3A,
    0x55B6344CF97AAFAE, 0xB862225B055B6960, 0xCAC09AFBDDD2CDB4, 0xDAF8E9829FE96B5F,
    0xB5FDFC5D3132C498, 0x310CB380DB6F7503, 0xE87FBB46217A360E, 0x2102AE466EBB1148,
    0xF8549E1A3AA5E00D, 0x07A69AFDCC42261A, 0xC4C118BFE78FEAAE, 0xF9F4892ED96BD438,
    0x1AF3DBE25D8F45DA, 0xF5B4B0B0D2DEEEB4, 0x962ACEEFA82E1C84, 0x046E3ECAAF453CE9,
    0xF05D129681949A4C, 0x964781CE734B3C84, 0x9C2ED44081CE5FBD, 0x522E23F3925E319E,
    0x177E00F9FC32F791, 0x2BC60A63A6F3B3F2, 0x222BBFAE61725606, 0x486289DDCC3D6780,
    0x7DC7785B8EFDFC80, 0x8AF38731C02BA980, 0x1FAB64EA29A2DDF7, 0xE4D9429322CD065A,
    0x9DA058C67844F20C, 0x24C0E332B70019B0, 0x233003B5A6CFE6AD, 0xD586BD01C5C217F6,
    0x5E5637885F29BC2B, 0x7EBA726D8C94094B, 0x0A56A5F0BFE39272, 0xD79476A84EE20D06,
    0x9E4C1269BAA4BF37, 0x17EFEE45B0DEE640, 0x1D95B0A5FCF90BC6, 0x93CBE0B699C2585D,
    0x65FA4F227A2B6D79, 0xD5F9E858292504D5, 0xC2B5A03F71471A6F, 0x59300222B4561E00,
    0xCE2F8642CA0712DC, 0x7CA9723FBB2E8988, 0x2785338347F2BA08, 0xC61BB3A141E50E8C,
    0x150F361DAB9DEC26, 0x9F6A419D382595F4, 0x64A53DC924FE7AC9, 0x142DE49FFF7A7C3D,
    0x0C335248857FA9E7, 0x0A9C32D5EAE45305, 0xE6C42178C4BBB92E, 0x71F1CE2490D20B07,
    0xF1BCC3D275AFE51A, 0xE728E8C83C334074, 0x96FBF83A12884624, 0x81A1549FD6573DA5,
    0x5FA7867CAF35E149, 0x56986E2EF3ED091B, 0x917F1DD5F8886C61, 0xD20D8C88C8FFE65F,
    0x31D71DCE64B2C310, 0xF165B587DF898190, 0xA57E6339DD2CF3A0, 0x1EF6E6DBB1961EC9,
    0x70CC73D90BC26E24, 0xE21A6B35DF0C3AD7, 0x003A93D8B2806962, 0x1C99DED33CB890A1,
    0xCF3145DE0ADD4289, 0xD0E4427A5514FB72, 0x77C621CC9FB3A483, 0x67A34DAC4356550B,
    0xF8D626AAAF278509]"

definition PIECE_ENCODINGS :: "char \<Rightarrow> int option" where
  "PIECE_ENCODINGS = map_of [
     (CHR ''p'', 0), (CHR ''P'', 1), (CHR ''n'', 2), (CHR ''N'', 3), (CHR ''b'', 4),
     (CHR ''B'', 5), (CHR ''r'', 6), (CHR ''R'', 7), (CHR ''q'', 8), (CHR ''Q'', 9),
     (CHR ''k'', 10), (CHR ''K'', 11)]"

definition DECODED_PROMOTION_PIECES :: "int \<Rightarrow> string option" where
  "DECODED_PROMOTION_PIECES = map_of [(0, ''''), (1, ''N''), (2, ''B''), (3, ''R''), (4, ''Q'')]"

section \<open>Evaluation\<close>

definition manhattan_distance :: "int \<Rightarrow> int \<Rightarrow> int" where
  "manhattan_distance square1 square2 =
     \<bar>square1 mod 10 - square2 mod 10\<bar> + \<bar>square1 div 10 - square2 div 10\<bar>"

definition game_phase :: "string \<Rightarrow> int" where
  "game_phase position =
     (let phase = TOTAL_PHASE;
          phase = phase - (str_count position CHR ''N'' + str_count position CHR ''n'') * KNIGHT_PHASE;
          phase = phase - (str_count position CHR ''B'' + str_count position CHR ''b'') * BISHOP_PHASE;
          phase = phase - (str_count position CHR ''R'' + str_count position CHR ''r'') * ROOK_PHASE;
          phase = phase - (str_count position CHR ''Q'' + str_count position CHR ''q'') * QUEEN_PHASE
      in (phase * 256 + (TOTAL_PHASE div 2)) div TOTAL_PHASE)"

definition interpolate :: "int \<Rightarrow> int \<Rightarrow> int \<Rightarrow> int" where
  "interpolate midgame_score endgame_score phase =
     ((midgame_score * (256 - phase)) + (endgame_score * phase)) div 256"

text \<open>\<open>a // b\<close> raises \<open>ZeroDivisionError\<close> when \<open>b\<close> is 0.\<close>

definition floordiv :: "int \<Rightarrow> int \<Rightarrow> int option" where
  "floordiv a b = (if b = 0 then None else Some (a div b))"

text \<open>\<open>TABLES[piece][square]\<close>: the key may be missing and the index out of range.\<close>

definition table_at :: "(string \<Rightarrow> int list option) \<Rightarrow> string \<Rightarrow> int \<Rightarrow> int option" where
  "table_at tables piece square = do { t \<leftarrow> tables piece; py_index t square }"

text \<open>The cell of the table that scores an opponent's piece on \<open>square\<close>.\<close>

definition mirrored :: "int \<Rightarrow> int" where
  "mirrored square = (11 - (square div 10)) * 10 + (square mod 10)"

text \<open>
  The body of the loop of \<open>evaluate_position\<close> over \<open>enumerate(position)\<close>; the state is
  the pair \<open>(midgame_score, endgame_score)\<close>.
\<close>

definition score_piece :: "int \<Rightarrow> int \<Rightarrow> int \<times> char \<Rightarrow> int \<times> int \<Rightarrow> (int \<times> int) option" where
  "score_piece king_square opponent_king_square sp scores =
     (case (sp, scores) of ((square, piece), (midgame_score, endgame_score)) \<Rightarrow>
        if isupper piece then do {
          mv \<leftarrow> MIDGAME_PIECE_VALUES [piece];
          mt \<leftarrow> table_at MIDGAME_PIECE_SQUARE_TABLES [piece] square;
          mtv \<leftarrow> MIDGAME_TROPISM_VALUES [piece];
          mtr \<leftarrow> floordiv mtv (manhattan_distance square opponent_king_square);
          ev \<leftarrow> ENDGAME_PIECE_VALUES [piece];
          et \<leftarrow> table_at ENDGAME_PIECE_SQUARE_TABLES [piece] square;
          etv \<leftarrow> ENDGAME_TROPISM_VALUES [piece];
          etr \<leftarrow> floordiv etv (manhattan_distance square opponent_king_square);
          Some (midgame_score + (mv + mt) + mtr, endgame_score + (ev + et) + etr)
        }
        else if islower piece then do {
          mv \<leftarrow> MIDGAME_PIECE_VALUES [upper piece];
          mt \<leftarrow> table_at MIDGAME_PIECE_SQUARE_TABLES [upper piece] (mirrored square);
          mtv \<leftarrow> MIDGAME_TROPISM_VALUES [upper piece];
          mtr \<leftarrow> floordiv mtv (manhattan_distance square king_square);
          ev \<leftarrow> ENDGAME_PIECE_VALUES [upper piece];
          et \<leftarrow> table_at ENDGAME_PIECE_SQUARE_TABLES [upper piece] (mirrored square);
          etv \<leftarrow> ENDGAME_TROPISM_VALUES [upper piece];
          etr \<leftarrow> floordiv etv (manhattan_distance square king_square);
          Some (midgame_score - (mv + mt) - mtr, endgame_score - (ev + et) - etr)
        }
        else Some (midgame_score, endgame_score))"

text \<open>\<open>position.find(c) if c in position else 0\<close>.\<close>

definition king_square_of :: "string \<Rightarrow> char \<Rightarrow> int" where
  "king_square_of position c = (if c \<in> set position then str_find position c else 0)"

text \<open>
  The two scores when the loop of \<open>evaluate_position\<close> ends, before the mop-up bonus is
  applied: \<open>(midgame_score, endgame_score)\<close>.
\<close>

definition piece_scores :: "string \<Rightarrow> (int \<times> int) option" where
  "piece_scores position =
     (let king_square = king_square_of position CHR ''K'';
          opponent_king_square = king_square_of position CHR ''k''
      in for_each (enumerate_py position) (score_piece king_square opponent_king_square) (0, 0))"

definition evaluate_position :: "string \<Rightarrow> int option" where
  "evaluate_position position = do {
     (midgame_score, endgame_score) \<leftarrow> piece_scores position;
     let king_square = king_square_of position CHR ''K'';
         opponent_king_square = king_square_of position CHR ''k'';
         mop_up_bonus = (MOP_UP_SCORE * (14 - manhattan_distance king_square opponent_king_square)) div 14;
         endgame_score = (if endgame_score > 0 then endgame_score + mop_up_bonus
                          else if endgame_score < 0 then endgame_score - mop_up_bonus
                          else endgame_score)
     in Some (interpolate midgame_score endgame_score (game_phase position))
   }"

text \<open>
  The two scores of \<open>evaluate_move\<close> before they are interpolated:
  \<open>(midgame_score, endgame_score)\<close>.
\<close>

definition move_scores :: "move \<Rightarrow> string \<Rightarrow> int \<Rightarrow> (int \<times> int) option" where
  "move_scores move position en_passant =
     (case move of (start_square, end_square, piece_captured, promotion_piece) \<Rightarrow> do {
        piece_moved \<leftarrow> py_index position start_square;
        m1 \<leftarrow> table_at MIDGAME_PIECE_SQUARE_TABLES [piece_moved] end_square;
        m0 \<leftarrow> table_at MIDGAME_PIECE_SQUARE_TABLES [piece_moved] start_square;
        e1 \<leftarrow> table_at ENDGAME_PIECE_SQUARE_TABLES [piece_moved] end_square;
        e0 \<leftarrow> table_at ENDGAME_PIECE_SQUARE_TABLES [piece_moved] start_square;
        (midgame_score, endgame_score) \<leftarrow>
          (if str_islower piece_captured then do {
             mv \<leftarrow> MIDGAME_PIECE_VALUES (map upper piece_captured);
             mt \<leftarrow> table_at MIDGAME_PIECE_SQUARE_TABLES (map upper piece_captured) (mirrored end_square);
             ev \<leftarrow> ENDGAME_PIECE_VALUES (map upper piece_captured);
             et \<leftarrow> table_at ENDGAME_PIECE_SQUARE_TABLES (map upper piece_captured) (mirrored end_square);
             Some (m1 - m0 + (mv + mt), e1 - e0 + (ev + et))
           } else Some (m1 - m0, e1 - e0));
        (midgame_score, endgame_score) \<leftarrow>
          (if piece_moved = CHR ''K'' \<and> \<bar>start_square - end_square\<bar> = 2 then do {
             let corner = (if end_square < start_square then A1 else H1);
             mr1 \<leftarrow> table_at MIDGAME_PIECE_SQUARE_TABLES ''R'' ((start_square + end_square) div 2);
             mr0 \<leftarrow> table_at MIDGAME_PIECE_SQUARE_TABLES ''R'' corner;
             er1 \<leftarrow> table_at ENDGAME_PIECE_SQUARE_TABLES ''R'' ((start_square + end_square) div 2);
             er0 \<leftarrow> table_at ENDGAME_PIECE_SQUARE_TABLES ''R'' corner;
             Some (midgame_score + (mr1 - mr0), endgame_score + (er1 - er0))
           } else Some (midgame_score, endgame_score));
        (midgame_score, endgame_score) \<leftarrow>
          (if piece_moved = CHR ''P'' then do {
             (midgame_score, endgame_score) \<leftarrow>
               (if A8 \<le> end_square \<and> end_square \<le> H8 then do {
                  mp \<leftarrow> table_at MIDGAME_PIECE_SQUARE_TABLES promotion_piece end_square;
                  mq \<leftarrow> table_at MIDGAME_PIECE_SQUARE_TABLES ''P'' end_square;
                  mpv \<leftarrow> MIDGAME_PIECE_VALUES promotion_piece;
                  mqv \<leftarrow> MIDGAME_PIECE_VALUES ''P'';
                  ep \<leftarrow> table_at ENDGAME_PIECE_SQUARE_TABLES promotion_piece end_square;
                  eq \<leftarrow> table_at ENDGAME_PIECE_SQUARE_TABLES ''P'' end_square;
                  epv \<leftarrow> ENDGAME_PIECE_VALUES promotion_piece;
                  eqv \<leftarrow> ENDGAME_PIECE_VALUES ''P'';
                  Some (midgame_score + (mp - mq + mpv - mqv), endgame_score + (ep - eq + epv - eqv))
                } else Some (midgame_score, endgame_score));
             (if end_square + SOUTH = en_passant then do {
                mt \<leftarrow> table_at MIDGAME_PIECE_SQUARE_TABLES ''P'' (mirrored (end_square + SOUTH));
                et \<leftarrow> table_at ENDGAME_PIECE_SQUARE_TABLES ''P'' (mirrored (end_square + SOUTH));
                Some (midgame_score + mt, endgame_score + et)
              } else Some (midgame_score, endgame_score))
           } else Some (midgame_score, endgame_score));
        Some (midgame_score, endgame_score)
      })"

definition evaluate_move :: "move \<Rightarrow> string \<Rightarrow> int \<Rightarrow> int option" where
  "evaluate_move move position en_passant = do {
     (midgame_score, endgame_score) \<leftarrow> move_scores move position en_passant;
     Some (interpolate midgame_score endgame_score (game_phase position))
   }"

section \<open>Board logic\<close>

subsection \<open>Move generation\<close>

text \<open>
  What the pawn tests of the innermost loop of \<open>generate_moves\<close> decide for one end
  square: leave the loop, having appended the given moves, or go on to the common part.
\<close>

datatype flow = Break "move list" | Go

definition pawn_tests :: "string \<Rightarrow> int \<Rightarrow> int \<Rightarrow> int \<Rightarrow> int \<Rightarrow> char \<Rightarrow> flow option" where
  "pawn_tests position en_passant start_square direction end_square piece_captured =
     (if direction \<in> set [NORTH, NORTH + NORTH] \<and> piece_captured \<noteq> CHR ''.'' then Some (Break [])
      else do {
        blocked \<leftarrow>
          (if direction = NORTH + NORTH then
             (if start_square < A1 + NORTH then Some True
              else do { c \<leftarrow> py_index position (start_square + NORTH); Some (c \<noteq> CHR ''.'') })
           else Some False);
        if blocked then Some (Break [])
        else if direction \<in> set [NORTH + WEST, NORTH + EAST] \<and> piece_captured = CHR ''.''
                \<and> end_square + SOUTH \<noteq> en_passant then Some (Break [])
        else if A8 \<le> end_square \<and> end_square \<le> H8 then
          Some (Break (map (\<lambda>promotion_piece. (start_square, end_square, [piece_captured], [promotion_piece]))
                         ''QRBN''))
        else Some Go
      })"

text \<open>
  The castling moves appended after a sliding move that ends on \<open>end_square\<close>: the king
  move that goes with a slide from a1 towards the king, then the one from h1.
\<close>

definition castling_moves :: "string \<Rightarrow> castling_rights \<Rightarrow> int \<Rightarrow> int \<Rightarrow> char \<Rightarrow> move list option" where
  "castling_moves position castling start_square end_square piece_captured = do {
     queenside \<leftarrow>
       (if start_square = A1 then do {
          c \<leftarrow> py_index position (end_square + EAST);
          Some (if c = CHR ''K'' \<and> fst castling
                then [(end_square + EAST, end_square + WEST, [piece_captured], [])] else [])
        } else Some []);
     kingside \<leftarrow>
       (if start_square = H1 then do {
          c \<leftarrow> py_index position (end_square + WEST);
          Some (if c = CHR ''K'' \<and> snd castling
                then [(end_square + WEST, end_square + EAST, [piece_captured], [])] else [])
        } else Some []);
     Some (queenside @ kingside)
   }"

text \<open>
  The innermost loop, \<open>for end_square in itertools.count(start_square + direction,
  direction)\<close>, from \<open>end_square\<close> on: the moves it appends, in order. The loop ends by a
  \<open>break\<close> or by the \<open>IndexError\<close> of \<open>position[end_square]\<close>. With a step of 0 the
  counter would never advance; no direction of the engine is 0, and the model gives
  \<open>None\<close> for a loop that would not end.
\<close>

function ray :: "string \<Rightarrow> castling_rights \<Rightarrow> int \<Rightarrow> int \<Rightarrow> char \<Rightarrow> int \<Rightarrow> int \<Rightarrow> move list option" where
  "ray position castling en_passant start_square piece_moved direction end_square =
     (case py_index position end_square of
        None \<Rightarrow> None
      | Some piece_captured \<Rightarrow>
          if isspace piece_captured \<or> isupper piece_captured then Some []
          else
            (case (if piece_moved = CHR ''P''
                   then pawn_tests position en_passant start_square direction end_square piece_captured
                   else Some Go) of
               None \<Rightarrow> None
             | Some (Break moves) \<Rightarrow> Some moves
             | Some Go \<Rightarrow>
                 if piece_moved \<in> set ''PNK'' \<or> islower piece_captured
                 then Some [(start_square, end_square, [piece_captured], [])]
                 else
                   (case castling_moves position castling start_square end_square piece_captured of
                      None \<Rightarrow> None
                    | Some castles \<Rightarrow>
                        if direction = 0 then None
                        else
                          (case ray position castling en_passant start_square piece_moved direction
                                  (end_square + direction) of
                             None \<Rightarrow> None
                           | Some rest \<Rightarrow>
                               Some ((start_square, end_square, [piece_captured], []) # castles @ rest)))))"
  by pat_completeness auto
termination
proof (relation "measure (\<lambda>(position, castling, en_passant, start_square, piece_moved, direction, end_square).
          nat (if direction > 0 then py_len position - end_square
               else py_len position + end_square + 1))", goal_cases)
  case 1
  then show ?case by simp
next
  case (2 position castling en_passant start_square piece_moved direction end_square piece_captured)
  then show ?case
    by (auto simp: py_index_def py_len_def Let_def split: if_splits)
qed

text \<open>The moves of the piece on \<open>start_square\<close>, one ray after the other.\<close>

definition piece_moves :: "string \<Rightarrow> castling_rights \<Rightarrow> int \<Rightarrow> int \<Rightarrow> move list option" where
  "piece_moves position castling en_passant start_square = do {
     piece_moved \<leftarrow> py_index position start_square;
     if \<not> isupper piece_moved then Some []
     else do {
       directions \<leftarrow> PIECE_DIRECTIONS piece_moved;
       rays \<leftarrow> map_opt (\<lambda>direction. ray position castling en_passant start_square piece_moved direction
                                      (start_square + direction)) directions;
       Some (concat rays)
     }
   }"

text \<open>The list before it is sorted.\<close>

definition unsorted_moves :: "string \<Rightarrow> castling_rights \<Rightarrow> int \<Rightarrow> move list option" where
  "unsorted_moves position castling en_passant = do {
     per_square \<leftarrow> map_opt (piece_moves position castling en_passant) (py_range (py_len position));
     Some (concat per_square)
   }"

text \<open>
  \<open>move_list.sort(key=..., reverse=True)\<close>: the keys are computed first, the sort is stable
  and descending.
\<close>

definition sort_descending :: "int list \<Rightarrow> 'a list \<Rightarrow> 'a list" where
  "sort_descending keys xs = map snd (sort_key (\<lambda>(k, x). - k) (zip keys xs))"

definition generate_moves :: "string \<Rightarrow> castling_rights \<Rightarrow> int \<Rightarrow> move list option" where
  "generate_moves position castling en_passant = do {
     move_list \<leftarrow> unsorted_moves position castling en_passant;
     keys \<leftarrow> map_opt (\<lambda>move. evaluate_move move position en_passant) move_list;
     Some (sort_descending keys move_list)
   }"

subsection \<open>Making a move\<close>

text \<open>
  \<open>list_position\<close> is a list of one-character strings; a promotion stores the promotion
  string of the move in it, whatever its length, and the board is the concatenation.
\<close>

definition make_move :: "move \<Rightarrow> state \<Rightarrow> state option" where
  "make_move move st =
     (case (move, st) of
        ((start_square, end_square, piece_captured, promotion_piece),
         (position, castling, opponent_castling, en_passant, king_passant)) \<Rightarrow> do {
        let list_position = map (\<lambda>c. [c]) position;
        piece_moved \<leftarrow> py_index list_position start_square;
        let king_passant = 0;
        list_position \<leftarrow> py_store list_position start_square ''.'';
        list_position \<leftarrow> py_store list_position end_square piece_moved;
        let castling = (if start_square = A1 then (False, snd castling) else castling);
        let castling = (if start_square = H1 then (fst castling, False) else castling);
        let opponent_castling = (if end_square = A8 then (False, snd opponent_castling) else opponent_castling);
        let opponent_castling = (if end_square = H8 then (fst opponent_castling, False) else opponent_castling);
        if piece_moved = ''K'' then do {
          let king_passant = 0;
          let castling = (False, False);
          (list_position, king_passant) \<leftarrow>
            (if start_square - end_square = 2 then do {
               let king_passant = (start_square + end_square) div 2;
               a \<leftarrow> py_index list_position king_passant;
               b \<leftarrow> py_index list_position A1;
               list_position \<leftarrow> py_store list_position A1 a;
               list_position \<leftarrow> py_store list_position king_passant b;
               Some (list_position, king_passant)
             } else Some (list_position, king_passant));
          (list_position, king_passant) \<leftarrow>
            (if end_square - start_square = 2 then do {
               let king_passant = (start_square + end_square) div 2;
               a \<leftarrow> py_index list_position king_passant;
               b \<leftarrow> py_index list_position H1;
               list_position \<leftarrow> py_store list_position H1 a;
               list_position \<leftarrow> py_store list_position king_passant b;
               Some (list_position, king_passant)
             } else Some (list_position, king_passant));
          Some (concat list_position, castling, opponent_castling, en_passant, king_passant)
        }
        else if piece_moved = ''P'' then do {
          list_position \<leftarrow>
            (if end_square = en_passant then py_store list_position (end_square + SOUTH) ''.''
             else Some list_position);
          list_position \<leftarrow>
            (if A8 \<le> end_square \<and> end_square \<le> H8 then py_store list_position end_square promotion_piece
             else Some list_position);
          let en_passant = (if end_square - start_square = NORTH + NORTH then end_square + SOUTH else 0);
          Some (concat list_position, castling, opponent_castling, en_passant, king_passant)
        }
        else Some (concat list_position, castling, opponent_castling, en_passant, king_passant)
      })"

subsection \<open>Rotating the board\<close>

text \<open>One round of the loop of \<open>rotate_position\<close>, for the index \<open>i\<close>.\<close>

definition rotate_cell :: "int \<Rightarrow> string \<Rightarrow> string option" where
  "rotate_cell i list_position = do {
     c \<leftarrow> py_index list_position i;
     if \<not> isspace c then do {
       d \<leftarrow> py_index list_position (119 - i);
       list_position \<leftarrow> py_store list_position (119 - i) (swapcase c);
       py_store list_position i (swapcase d)
     } else Some list_position
   }"

definition rotate_position :: "state \<Rightarrow> state option" where
  "rotate_position st =
     (case st of (position, castling, opponent_castling, en_passant, king_passant) \<Rightarrow> do {
        let en_passant = 119 - en_passant;
        let king_passant = 119 - king_passant;
        list_position \<leftarrow> for_each (py_range 60) rotate_cell position;
        Some (list_position, opponent_castling, castling, en_passant, king_passant)
      })"

subsection \<open>Check detection\<close>

definition king_in_check :: "string \<Rightarrow> castling_rights \<Rightarrow> int \<Rightarrow> bool option" where
  "king_in_check position castling king_passant =
     (let king_position = king_square_of position CHR ''k'' in
      if king_position = 0 then Some True
      else
        let (original_king_position, castled) =
              (if king_passant \<in> set [23, 25] then (24, True)
               else if king_passant \<in> set [24, 26] then (25, True)
               else (0, False))
        in do {
          move_list \<leftarrow> generate_moves position castling 0;
          Some (list_ex (\<lambda>move. (fst (snd move) = king_position \<or> fst (snd move) = king_passant)
                                  \<or> (castled \<and> fst (snd move) = original_king_position)) move_list)
        })"

section \<open>Hashing and the opening book\<close>

text \<open>The body of the loop of \<open>zobrist_hash\<close> over \<open>enumerate(position)\<close>.\<close>

definition hash_piece :: "int \<times> char \<Rightarrow> int \<Rightarrow> int option" where
  "hash_piece ip piece_hash =
     (case ip of (i, piece) \<Rightarrow>
        if \<not> isspace piece \<and> piece \<noteq> CHR ''.'' then do {
          let row = 9 - (i div 10);
          let file = (i mod 10) - 1;
          code \<leftarrow> PIECE_ENCODINGS piece;
          v \<leftarrow> py_index HASH_VALUES ((64 * code) + (8 * row) + file);
          Some (piece_hash XOR v)
        } else Some piece_hash)"

definition castling_hash :: "castling_rights \<Rightarrow> castling_rights \<Rightarrow> int option" where
  "castling_hash castling opponent_castling = do {
     k1 \<leftarrow> py_index HASH_VALUES (768 + 1);
     k0 \<leftarrow> py_index HASH_VALUES (768 + 0);
     k3 \<leftarrow> py_index HASH_VALUES (768 + 3);
     k2 \<leftarrow> py_index HASH_VALUES (768 + 2);
     let h = 0;
     let h = (if fst castling then h XOR k1 else h);
     let h = (if snd castling then h XOR k0 else h);
     let h = (if fst opponent_castling then h XOR k3 else h);
     let h = (if snd opponent_castling then h XOR k2 else h);
     Some h
   }"

text \<open>
  The en-passant part. The file key is used only when a pawn stands where it could make the
  capture: for a square on the row 41 to 48 a \<open>P\<close> on a cell diagonally below it, for a
  square on the row 71 to 78 a \<open>p\<close> on a cell diagonally above it.
\<close>

definition en_passant_hash :: "string \<Rightarrow> int \<Rightarrow> int option" where
  "en_passant_hash position en_passant =
     (if en_passant \<noteq> 0 \<and> en_passant \<noteq> 119 then
        (if 41 \<le> en_passant \<and> en_passant \<le> 48 then do {
           c \<leftarrow> py_index position (en_passant + SOUTH + EAST);
           if c = CHR ''P'' then py_index HASH_VALUES (772 + (en_passant mod 10) - 1)
           else do {
             d \<leftarrow> py_index position (en_passant + SOUTH + WEST);
             if d = CHR ''P'' then py_index HASH_VALUES (772 + (en_passant mod 10) - 1)
             else Some 0
           }
         }
         else if 71 \<le> en_passant \<and> en_passant \<le> 78 then do {
           c \<leftarrow> py_index position (en_passant + NORTH + EAST);
           if c = CHR ''p'' then py_index HASH_VALUES (772 + (en_passant mod 10) - 1)
           else do {
             d \<leftarrow> py_index position (en_passant + NORTH + WEST);
             if d = CHR ''p'' then py_index HASH_VALUES (772 + (en_passant mod 10) - 1)
             else Some 0
           }
         }
         else Some 0)
      else Some 0)"

definition zobrist_hash :: "state \<Rightarrow> string \<Rightarrow> int option" where
  "zobrist_hash st color = do {
     (st, turn_hash) \<leftarrow>
       (if color = ''b'' then do { st \<leftarrow> rotate_position st; Some (st, 0) }
        else do { t \<leftarrow> py_index HASH_VALUES 780; Some (st, t) });
     (case st of (position, castling, opponent_castling, en_passant, king_passant) \<Rightarrow> do {
        piece_hash \<leftarrow> for_each (enumerate_py position) hash_piece 0;
        castling_hash \<leftarrow> castling_hash castling opponent_castling;
        en_passant_hash \<leftarrow> en_passant_hash position en_passant;
        Some (piece_hash XOR castling_hash XOR en_passant_hash XOR turn_hash)
      })
   }"

subsection \<open>The opening book\<close>

text \<open>
  A loaded book is a list of records \<open>[key, move, weight, learn]\<close>. The books come from
  files and the choice among the entries from Python's random numbers: both are parameters
  of the model, as is the clock (\<open>time_at n\<close> is what the \<open>n\<close>-th call of \<open>time.time()\<close>
  returns; times are rationals, the rounding of floating point is not modelled) and the
  depth of recursion the interpreter allows.
\<close>

type_synonym book = "(int \<times> int \<times> int \<times> int) list"

record env =
  OPENING_BOOKS :: "book list"
  randint :: "int \<Rightarrow> int \<Rightarrow> int"
  shuffle :: "(move \<times> int) list \<Rightarrow> (move \<times> int) list"
  time_at :: "nat \<Rightarrow> rat"
  recursion_limit :: nat

definition decode_entry :: "string \<Rightarrow> string \<Rightarrow> int \<Rightarrow> int \<Rightarrow> (move \<times> int) option" where
  "decode_entry position color raw_move weight = do {
     let endian_start_square = (drop_bit 6 raw_move) AND 0x3f;
     let endian_end_square = raw_move AND 0x3f;
     let encoded_promotion_piece = (drop_bit 12 raw_move) AND 0x7;
     let start_square = 10 * (9 - (endian_start_square div 8)) + (endian_start_square mod 8) + 1;
     let end_square = 10 * (9 - (endian_end_square div 8)) + (endian_end_square mod 8) + 1;
     promotion_piece \<leftarrow> DECODED_PROMOTION_PIECES encoded_promotion_piece;
     let start_square = (if color = ''b'' then 119 - start_square else start_square);
     let end_square = (if color = ''b'' then 119 - end_square else end_square);
     let end_square =
       (if start_square = 95 \<or> start_square = 94 then
          (if end_square = H1 then start_square + 2
           else if end_square = A1 then start_square - 2
           else end_square)
        else end_square);
     c \<leftarrow> py_index position end_square;
     Some ((start_square, end_square, [c], promotion_piece), weight)
   }"

definition all_entries :: "book \<Rightarrow> state \<Rightarrow> string \<Rightarrow> (move \<times> int) list option" where
  "all_entries opening_book st color = do {
     key \<leftarrow> zobrist_hash st color;
     map_opt (\<lambda>(entry_key, raw_move, weight, learn). decode_entry (fst st) color raw_move weight)
       (filter (\<lambda>(entry_key, raw_move, weight, learn). entry_key = key) opening_book)
   }"

text \<open>Adding one entry of a book to the entries found so far.\<close>

fun add_entry :: "move \<times> int \<Rightarrow> (move \<times> int) list \<Rightarrow> (move \<times> int) list" where
  "add_entry new_entry [] = [new_entry]"
| "add_entry new_entry (entry # total_entries) =
     (if fst entry = fst new_entry then (fst entry, snd entry + snd new_entry) # total_entries
      else entry # add_entry new_entry total_entries)"

text \<open>\<open>max(xs, key=...)\<close> on a list that is not empty: the first element with the largest key.\<close>

definition tuple_less :: "int \<times> int \<Rightarrow> int \<times> int \<Rightarrow> bool" where
  "tuple_less a b = (fst a < fst b \<or> (fst a = fst b \<and> snd a < snd b))"

fun max_by :: "(int \<times> int) \<times> 'a \<Rightarrow> ((int \<times> int) \<times> 'a) list \<Rightarrow> 'a" where
  "max_by best [] = snd best"
| "max_by best (x # xs) = max_by (if tuple_less (fst best) (fst x) then x else best) xs"

fun pick_weighted :: "int \<Rightarrow> int \<Rightarrow> (move \<times> int) list \<Rightarrow> move" where
  "pick_weighted target current_sum [] = NULL_MOVE"
| "pick_weighted target current_sum (entry # entries) =
     (if current_sum + snd entry \<ge> target then fst entry
      else pick_weighted target (current_sum + snd entry) entries)"

definition book_entries :: "env \<Rightarrow> state \<Rightarrow> string \<Rightarrow> (move \<times> move) option" where
  "book_entries e st color = do {
     per_book \<leftarrow> map_opt (\<lambda>book. all_entries book st color) (OPENING_BOOKS e);
     let total_entries = foldl (\<lambda>total new_entry. add_entry new_entry total) [] (concat per_book);
     if length total_entries = 0 then Some (NULL_MOVE, NULL_MOVE)
     else do {
       keys \<leftarrow> map_opt (\<lambda>pair. do {
                 v \<leftarrow> evaluate_move (fst pair) (fst st) (fst (snd (snd (snd st))));
                 Some (snd pair, v) }) total_entries;
       let max_entry = fst (max_by (hd (zip keys total_entries)) (tl (zip keys total_entries)));
       let weight_sum = sum_list (map snd total_entries);
       let target = randint e 0 weight_sum;
       let weighted_entry = pick_weighted target 0 (shuffle e total_entries);
       Some (max_entry, weighted_entry)
     }
   }"

section \<open>Search\<close>

text \<open>
  The module's global variables that the search reads and writes. \<open>clock\<close> counts the calls
  of \<open>time.time()\<close> made so far, \<open>responses\<close> collects what \<open>send_response\<close> has written.
\<close>

type_synonym tt_entry = "move \<times> int \<times> int"

datatype response =
    Info_string string
  | Info_depth int int int rat string
  | Bestmove string

record globals =
  TRANSPOSITION_TABLE :: "int \<Rightarrow> tt_entry option"
  max_depth :: int
  nodes :: int
  start_time :: rat
  time_limit :: rat
  timeout :: bool
  clock :: nat
  responses :: "response list"

text \<open>\<open>time.time()\<close>.\<close>

definition read_time :: "env \<Rightarrow> globals \<Rightarrow> rat \<times> globals" where
  "read_time e g = (time_at e (clock g), g\<lparr>clock := Suc (clock g)\<rparr>)"

definition send_response :: "response \<Rightarrow> globals \<Rightarrow> globals" where
  "send_response r g = g\<lparr>responses := responses g @ [r]\<rparr>"

definition other_color :: "string \<Rightarrow> string" where
  "other_color color = (if color = ''b'' then ''w'' else ''b'')"

text \<open>
  A \<open>for\<close> loop that the body can leave by \<open>return\<close>: the body yields \<open>Inl\<close> of the
  value returned, or \<open>Inr\<close> of the loop's variables for the next round (\<open>continue\<close>
  included); the loop yields \<open>Inr\<close> of the variables when the list is exhausted.
\<close>

fun for_return :: "'a list \<Rightarrow> ('a \<Rightarrow> 's \<Rightarrow> ('r + 's) option) \<Rightarrow> 's \<Rightarrow> ('r + 's) option" where
  "for_return [] body s = Some (Inr s)"
| "for_return (x # xs) body s =
     (case body x s of
        None \<Rightarrow> None
      | Some (Inl r) \<Rightarrow> Some (Inl r)
      | Some (Inr s') \<Rightarrow> for_return xs body s')"

text \<open>
  \<open>quiesce\<close> and \<open>nega_max\<close> call themselves. Their first argument is the number of
  nested calls the interpreter still allows; a call beyond it raises (\<open>RecursionError\<close>).
  The body of each \<open>for move in move_list\<close> loop is a definition of its own that takes the
  function to call for the recursive call.
\<close>

text \<open>The body of the loop of \<open>quiesce\<close>; the loop's variables are \<open>alpha\<close> and the globals.\<close>

definition quiesce_move ::
  "(int \<Rightarrow> int \<Rightarrow> state \<Rightarrow> globals \<Rightarrow> (int \<times> globals) option) \<Rightarrow> int \<Rightarrow> int \<Rightarrow> state \<Rightarrow> move
     \<Rightarrow> int \<times> globals \<Rightarrow> ((int \<times> globals) + (int \<times> globals)) option" where
  "quiesce_move rec_quiesce stand_pat beta st move ag =
     (case (move, st, ag) of
        ((start_square, end_square, piece_captured, promotion_piece),
         (position, castling, opponent_castling, en_passant, king_passant), (alpha, g)) \<Rightarrow>
        if \<not> str_islower piece_captured then Some (Inr (alpha, g))
        else do {
          new_position \<leftarrow> make_move move st;
          new_position \<leftarrow> rotate_position new_position;
          check \<leftarrow> king_in_check (fst new_position) castling (snd (snd (snd (snd new_position))));
          if check then Some (Inr (alpha, g))
          else do {
            captured_value \<leftarrow> ENDGAME_PIECE_VALUES (map upper piece_captured);
            promotion_value \<leftarrow>
              (if str_isupper promotion_piece then ENDGAME_PIECE_VALUES promotion_piece else Some 0);
            let delta = 200;
            if stand_pat + captured_value + promotion_value + delta < alpha then Some (Inr (alpha, g))
            else do {
              (r, g) \<leftarrow> rec_quiesce (- beta) (- alpha) new_position g;
              let score = - r;
              if timeout g then Some (Inl (0, g))
              else if score \<ge> beta then Some (Inl (beta, g))
              else if score > alpha then Some (Inr (score, g))
              else Some (Inr (alpha, g))
            }
          }
        })"

primrec quiesce :: "nat \<Rightarrow> env \<Rightarrow> int \<Rightarrow> int \<Rightarrow> state \<Rightarrow> globals \<Rightarrow> (int \<times> globals) option" where
  "quiesce 0 e alpha beta st g = None"
| "quiesce (Suc n) e alpha beta st g =
     (case read_time e g of (t, g) \<Rightarrow>
        if t - start_time g > time_limit g then Some (0, g\<lparr>timeout := True\<rparr>)
        else do {
          let g = g\<lparr>nodes := nodes g + 1\<rparr>;
          stand_pat \<leftarrow> evaluate_position (fst st);
          if stand_pat \<ge> beta then Some (stand_pat, g)
          else do {
            let alpha = (if alpha < stand_pat then stand_pat else alpha);
            move_list \<leftarrow> generate_moves (fst st) (fst (snd st)) (fst (snd (snd (snd st))));
            r \<leftarrow> for_return move_list (quiesce_move (quiesce n e) stand_pat beta st) (alpha, g);
            (case r of Inl returned \<Rightarrow> Some returned | Inr (alpha, g) \<Rightarrow> Some (alpha, g))
          }
        })"

text \<open>
  \<open>move_list.insert(0, move_list.pop(i))\<close> for the first \<open>i\<close> whose move is the one of the
  table.
\<close>

definition pv_first :: "move \<Rightarrow> move list \<Rightarrow> move list" where
  "pv_first table_move move_list =
     (if table_move \<in> set move_list then table_move # remove1 table_move move_list else move_list)"

text \<open>
  The body of the loop of \<open>nega_max\<close>; the loop's variables are \<open>alpha\<close>, \<open>best_move\<close>,
  \<open>legal_moves\<close> and the globals.
\<close>

type_synonym nega_vars = "int \<times> move \<times> move list \<times> globals"

definition nega_move ::
  "(int \<Rightarrow> int \<Rightarrow> int \<Rightarrow> state \<Rightarrow> string \<Rightarrow> globals \<Rightarrow> ((int \<times> move) \<times> globals) option)
     \<Rightarrow> int \<Rightarrow> int \<Rightarrow> state \<Rightarrow> string \<Rightarrow> move \<Rightarrow> nega_vars
     \<Rightarrow> (((int \<times> move) \<times> globals) + nega_vars) option" where
  "nega_move rec_nega_max depth beta st color move vars =
     (case (st, vars) of
        ((position, castling, opponent_castling, en_passant, king_passant),
         (alpha, best_move, legal_moves, g)) \<Rightarrow> do {
          new_position \<leftarrow> make_move move st;
          new_position \<leftarrow> rotate_position new_position;
          check \<leftarrow> king_in_check (fst new_position) castling (snd (snd (snd (snd new_position))));
          if check then Some (Inr (alpha, best_move, legal_moves, g))
          else do {
            let legal_moves = legal_moves @ [move];
            ((r, _), g) \<leftarrow> rec_nega_max (depth - 1) (- beta) (- alpha) new_position (other_color color) g;
            let score = - r;
            if timeout g then Some (Inl ((0, NULL_MOVE), g))
            else if score \<ge> beta then Some (Inl ((beta, best_move), g))
            else if score > alpha then Some (Inr (score, move, legal_moves, g))
            else Some (Inr (alpha, best_move, legal_moves, g))
          }
        })"

text \<open>What \<open>nega_max\<close> does after its loop over the moves.\<close>

definition nega_finish :: "int \<Rightarrow> state \<Rightarrow> string \<Rightarrow> nega_vars \<Rightarrow> ((int \<times> move) \<times> globals) option" where
  "nega_finish depth st color vars =
     (case vars of (alpha, best_move, legal_moves, g) \<Rightarrow>
        if length legal_moves = 0 then do {
          new_position \<leftarrow> rotate_position st;
          check \<leftarrow> king_in_check (fst new_position) (fst (snd st)) 0;
          if check then Some ((- CHECKMATE_LOWER + max_depth g - depth, NULL_MOVE), g)
          else Some ((0, NULL_MOVE), g)
        }
        else if best_move \<noteq> NULL_MOVE then do {
          key \<leftarrow> zobrist_hash st color;
          Some ((alpha, best_move),
                g\<lparr>TRANSPOSITION_TABLE := (TRANSPOSITION_TABLE g)(key \<mapsto> (best_move, depth, alpha))\<rparr>)
        }
        else Some ((alpha, best_move), g))"

text \<open>
  The probe of the transposition table at the head of \<open>nega_max\<close>: the entry of the key, or
  the default one; and the test that returns the entry at once.
\<close>

definition table_info_of :: "globals \<Rightarrow> int \<Rightarrow> tt_entry" where
  "table_info_of g key =
     (case TRANSPOSITION_TABLE g key of None \<Rightarrow> (NULL_MOVE, -1, 0) | Some table_info \<Rightarrow> table_info)"

definition table_cutoff :: "tt_entry \<Rightarrow> int \<Rightarrow> bool" where
  "table_cutoff table_info depth =
     (fst (snd table_info) \<ge> depth \<or> snd (snd table_info) \<ge> CHECKMATE_LOWER)"

primrec nega_max :: "nat \<Rightarrow> env \<Rightarrow> int \<Rightarrow> int \<Rightarrow> int \<Rightarrow> state \<Rightarrow> string \<Rightarrow> globals
    \<Rightarrow> ((int \<times> move) \<times> globals) option" where
  "nega_max 0 e depth alpha beta st color g = None"
| "nega_max (Suc n) e depth alpha beta st color g =
     (case read_time e g of (t, g) \<Rightarrow>
        if t - start_time g > time_limit g then Some ((0, NULL_MOVE), g\<lparr>timeout := True\<rparr>)
        else if depth = 0 then do {
          (r, g) \<leftarrow> quiesce n e alpha beta st g;
          Some ((r, NULL_MOVE), g)
        }
        else do {
          key \<leftarrow> zobrist_hash st color;
          let table_info = table_info_of g key;
          if table_cutoff table_info depth then Some ((snd (snd table_info), fst table_info), g)
          else do {
            let g = g\<lparr>nodes := nodes g + 1\<rparr>;
            move_list \<leftarrow> generate_moves (fst st) (fst (snd st)) (fst (snd (snd (snd st))));
            let move_list = pv_first (fst table_info) move_list;
            r \<leftarrow> for_return move_list (nega_move (nega_max n e) depth beta st color)
                   (alpha, NULL_MOVE, [], g);
            (case r of Inl returned \<Rightarrow> Some returned | Inr vars \<Rightarrow> nega_finish depth st color vars)
          }
        })"

section \<open>Utility functions\<close>

text \<open>\<open>str(n)\<close> and \<open>int(s)\<close> for decimal numerals.\<close>

definition digit_char :: "nat \<Rightarrow> char" where
  "digit_char d = char_of (48 + d)"

function str_nat :: "nat \<Rightarrow> string" where
  "str_nat n = (if n < 10 then [digit_char n] else str_nat (n div 10) @ [digit_char (n mod 10)])"
  by pat_completeness auto
termination
  by (relation "measure id") auto

definition str_int :: "int \<Rightarrow> string" where
  "str_int i = (if i < 0 then CHR ''-'' # str_nat (nat (- i)) else str_nat (nat i))"

definition int_of_digits :: "string \<Rightarrow> int" where
  "int_of_digits s = foldl (\<lambda>acc c. 10 * acc + (py_ord c - 48)) 0 s"

text \<open>\<open>int(c)\<close> for a one-character string: a \<open>ValueError\<close> unless it is a digit.\<close>

definition int_of_char :: "char \<Rightarrow> int option" where
  "int_of_char c = (if isdigit c then Some (py_ord c - 48) else None)"

definition parse_coordinates :: "string \<Rightarrow> int option" where
  "parse_coordinates coordinate = do {
     c0 \<leftarrow> py_index coordinate 0;
     let file = py_ord c0 - py_ord CHR ''a'';
     c1 \<leftarrow> py_index coordinate 1;
     d \<leftarrow> int_of_char c1;
     let rank = d - 1;
     Some (A1 + file - 10 * rank)
   }"

definition render_coordinates :: "int \<Rightarrow> string" where
  "render_coordinates index =
     (let rank = (index - A1) div 10;
          file = (index - A1) mod 10
      in char_of (py_ord CHR ''a'' + file) # str_int (1 - rank))"

definition algebraic_notation :: "move \<Rightarrow> string \<Rightarrow> string" where
  "algebraic_notation move color =
     (case move of (start_square, end_square, piece_captured, promotion_piece) \<Rightarrow>
        let start_square = (if color = ''b'' then 119 - start_square else start_square);
            end_square = (if color = ''b'' then 119 - end_square else end_square)
        in if move = NULL_MOVE then ''(none)''
           else render_coordinates start_square @ render_coordinates end_square @ map lower promotion_piece)"

text \<open>
  One character of a row of the piece placement of a FEN; the state is the list of cells
  and the index of the next cell.
\<close>

definition fen_cell :: "char \<Rightarrow> string \<times> int \<Rightarrow> (string \<times> int) option" where
  "fen_cell piece li =
     (case li of (list_position, index) \<Rightarrow>
        if piece \<in> set ''PNBRQKpnbrqk'' then do {
          list_position \<leftarrow> py_store list_position index piece;
          Some (list_position, index + 1)
        }
        else if piece \<in> set ''12345678''
        then for_each (py_range (py_ord piece - 48))
               (\<lambda>_ (list_position, index). do {
                  list_position \<leftarrow> py_store list_position index CHR ''.'';
                  Some (list_position, index + 1) })
               (list_position, index)
        else Some (list_position, index))"

definition load_fen :: "string \<Rightarrow> (state \<times> string) option" where
  "load_fen fen = do {
     let list_position = replicate 120 CHR '' '';
     let fields = str_split fen CHR '' '';
     placement \<leftarrow> py_index fields 0;
     let rows = str_split placement CHR ''/'';
     list_position \<leftarrow> for_each (py_range 8)
        (\<lambda>row list_position. do {
           r \<leftarrow> py_index rows row;
           (list_position, index) \<leftarrow> for_each r fen_cell (list_position, A8 + (10 * row));
           Some list_position })
        list_position;
     list_position \<leftarrow> for_each [9, 19, 29, 39, 49, 59, 69, 79, 89, 99, 109, 119]
        (\<lambda>new_line_index list_position. py_store list_position new_line_index NL) list_position;
     castling_rights \<leftarrow> py_index fields 2;
     let castling = (CHR ''Q'' \<in> set castling_rights, CHR ''K'' \<in> set castling_rights);
     let opponent_castling = (CHR ''q'' \<in> set castling_rights, CHR ''k'' \<in> set castling_rights);
     square \<leftarrow> py_index fields 3;
     en_passant \<leftarrow> (if square \<noteq> ''-'' then parse_coordinates square else Some 0);
     let king_passant = 0;
     color \<leftarrow> py_index fields 1;
     st \<leftarrow> (if color = ''b''
            then rotate_position (list_position, castling, opponent_castling, en_passant, king_passant)
            else Some (list_position, castling, opponent_castling, en_passant, king_passant));
     Some (st, color)
   }"

section \<open>Iterative deepening\<close>

function principal_variation :: "int \<Rightarrow> state \<Rightarrow> string \<Rightarrow> globals \<Rightarrow> move list option" where
  "principal_variation len st color g =
     (case zobrist_hash st color of
        None \<Rightarrow> None
      | Some key \<Rightarrow>
          (case TRANSPOSITION_TABLE g key of
             None \<Rightarrow> Some []
           | Some result \<Rightarrow>
               if len \<le> 0 then Some []
               else
                 (case Option.bind (make_move (fst result) st) rotate_position of
                    None \<Rightarrow> None
                  | Some new_position \<Rightarrow>
                      (case principal_variation (len - 1) new_position (other_color color) g of
                         None \<Rightarrow> None
                       | Some rest \<Rightarrow> Some (fst result # rest)))))"
  by pat_completeness auto
termination
  by (relation "measure (\<lambda>(len, st, color, g). nat len)") auto

text \<open>\<open>s.rstrip()\<close>.\<close>

definition rstrip :: "string \<Rightarrow> string" where
  "rstrip s = rev (dropWhile isspace (rev s))"

definition pv_string_of :: "string \<Rightarrow> move list \<Rightarrow> string" where
  "pv_string_of color pv =
     rstrip (concat (map (\<lambda>(i, move).
        (if i mod 2 = 0 then algebraic_notation move color
         else algebraic_notation move (if color = ''w'' then ''b'' else ''w'')) @ '' '')
        (enumerate_py pv)))"

text \<open>
  The body of the loop of \<open>iteratively_deepen\<close> for one value of \<open>max_depth\<close>; the loop's
  variables are \<open>best_move\<close>, \<open>previous_best_move\<close> and the globals, and a \<open>break\<close>
  yields the move that the function then returns. The \<open>info\<close> line is kept as its fields:
  depth, score, nodes, elapsed time and principal variation.
\<close>

definition deepen_step :: "env \<Rightarrow> state \<Rightarrow> string \<Rightarrow> int \<Rightarrow> move \<times> move \<times> globals
    \<Rightarrow> ((move \<times> globals) + (move \<times> move \<times> globals)) option" where
  "deepen_step e st color depth_now vars =
     (case vars of (best_move, previous_best_move, g) \<Rightarrow> do {
        let g = g\<lparr>max_depth := depth_now\<rparr>;
        let g = g\<lparr>nodes := 0\<rparr>;
        ((score, best_move), g) \<leftarrow>
          nega_max (recursion_limit e) e depth_now (- CHECKMATE_UPPER) CHECKMATE_UPPER st color g;
        if timeout g then Some (Inl (previous_best_move, g\<lparr>timeout := False\<rparr>))
        else do {
          pv \<leftarrow> principal_variation depth_now st color g;
          let pv_string = pv_string_of color pv;
          let (t, g) = read_time e g;
          let g = send_response (Info_depth depth_now (score * (if color = ''b'' then - 1 else 1))
                                   (nodes g) (t - start_time g) pv_string) g;
          if best_move = NULL_MOVE then Some (Inl (best_move, g))
          else Some (Inr (best_move, best_move, g))
        }
      })"

definition iteratively_deepen :: "env \<Rightarrow> int \<Rightarrow> state \<Rightarrow> string \<Rightarrow> globals \<Rightarrow> (move \<times> globals) option" where
  "iteratively_deepen e depth st color g = do {
     (max_entry, weighted_entry) \<leftarrow> book_entries e st color;
     if weighted_entry \<noteq> NULL_MOVE
     then Some (weighted_entry, send_response (Info_string ''weighted bookmove'') g)
     else do {
       let (t, g) = read_time e g;
       let g = g\<lparr>start_time := t\<rparr>;
       let g = g\<lparr>timeout := False\<rparr>;
       r \<leftarrow> for_return (py_range2 1 (depth + 1)) (deepen_step e st color)
              (NULL_MOVE, NULL_MOVE, g);
       (case r of Inl returned \<Rightarrow> Some returned | Inr (best_move, previous_best_move, g) \<Rightarrow> Some (best_move, g))
     }
   }"

text \<open>\<open>tokens.index(x) + 1\<close>, for a token that is in the list.\<close>

definition index_after :: "string list \<Rightarrow> string \<Rightarrow> int" where
  "index_after tokens x = int (length (takeWhile (\<lambda>t. t \<noteq> x) tokens)) + 1"

section \<open>The UCI loop\<close>

text \<open>
  The local variables of \<open>main\<close> that hold the position. Before the first \<open>position\<close>
  command they are the empty string, two empty lists, 120, 120 and the empty string.
\<close>

record engine =
  cur_position :: string
  cur_castling :: "bool list"
  cur_opponent_castling :: "bool list"
  cur_en_passant :: int
  cur_king_passant :: int
  cur_color :: string

definition unset_engine :: engine where
  "unset_engine = \<lparr>cur_position = [], cur_castling = [], cur_opponent_castling = [],
     cur_en_passant = 120, cur_king_passant = 120, cur_color = []\<rparr>"

subsection \<open>The \<open>position\<close> command\<close>

text \<open>
  The position variables as the five values the board functions take, and back. The two
  castling lists have two elements from the first \<open>position\<close> command on.
\<close>

definition engine_state :: "engine \<Rightarrow> state option" where
  "engine_state u = do {
     castling0 \<leftarrow> py_index (cur_castling u) 0;
     castling1 \<leftarrow> py_index (cur_castling u) 1;
     opponent0 \<leftarrow> py_index (cur_opponent_castling u) 0;
     opponent1 \<leftarrow> py_index (cur_opponent_castling u) 1;
     Some (cur_position u, (castling0, castling1), (opponent0, opponent1),
           cur_en_passant u, cur_king_passant u)
   }"

definition engine_of :: "state \<Rightarrow> string \<Rightarrow> engine" where
  "engine_of st color =
     (case st of (position, castling, opponent_castling, en_passant, king_passant) \<Rightarrow>
        \<lparr>cur_position = position, cur_castling = [fst castling, snd castling],
         cur_opponent_castling = [fst opponent_castling, snd opponent_castling],
         cur_en_passant = en_passant, cur_king_passant = king_passant, cur_color = color\<rparr>)"

text \<open>
  One round of the loop over the moves of a \<open>position\<close> command: \<open>ply\<close> is the index of
  the move, \<open>color\<close> the side to move of the position the moves start from. A move whose
  second and fourth characters are not digits is skipped.
\<close>

definition play_move :: "string \<Rightarrow> int \<times> string \<Rightarrow> state \<Rightarrow> state option" where
  "play_move color pm st =
     (case pm of (ply, move) \<Rightarrow> do {
        c1 \<leftarrow> py_index move 1;
        c3 \<leftarrow> (if isdigit c1 then py_index move 3 else Some c1);
        if isdigit c1 \<and> isdigit c3 then do {
          start_square \<leftarrow> parse_coordinates (take 2 move);
          end_square \<leftarrow> parse_coordinates (take 2 (drop 2 move));
          let promotion_piece = map upper (drop 4 move);
          let start_square = (if color = ''b'' then 119 - start_square else start_square);
          let end_square = (if color = ''b'' then 119 - end_square else end_square);
          if ply mod 2 = 1 then do {
            let start_square = 119 - start_square;
            let end_square = 119 - end_square;
            st \<leftarrow> rotate_position st;
            st \<leftarrow> make_move (start_square, end_square, ''.'', promotion_piece) st;
            rotate_position st
          }
          else make_move (start_square, end_square, ''.'', promotion_piece) st
        }
        else Some st
      })"

text \<open>\<open>sep.join(xs)\<close>.\<close>

fun join :: "string \<Rightarrow> string list \<Rightarrow> string" where
  "join sep [] = []"
| "join sep [x] = x"
| "join sep (x # y # ys) = x @ sep @ join sep (y # ys)"

definition position_command :: "string list \<Rightarrow> engine \<Rightarrow> engine option" where
  "position_command tokens u = do {
     u \<leftarrow>
       (if length tokens \<ge> 2 \<and> tokens ! 1 = ''startpos''
        then Some (engine_of (INITIAL_POSITION, INITIAL_CASTLING, INITIAL_OPPONENT_CASTLING,
                              INITIAL_EN_PASSANT, INITIAL_KING_PASSANT) INITIAL_COLOR)
        else if length tokens \<ge> 8 \<and> tokens ! 1 = ''fen''
        then do {
          (st, color) \<leftarrow> load_fen (join '' '' (take 6 (drop 2 tokens)));
          Some (engine_of st color)
        }
        else Some u);
     if ''moves'' \<in> set tokens then
       (let moves_index = index_after tokens ''moves'' in
        if moves_index < 3 then Some u
        else do {
          let moves = drop (nat moves_index) tokens;
          st \<leftarrow> engine_state u;
          st \<leftarrow> for_each (enumerate_py moves) (play_move (cur_color u)) st;
          let ply = (if moves = [] then 0 else py_len moves - 1);
          if ply mod 2 = 0 then do {
            st \<leftarrow> rotate_position st;
            let color = (if cur_color u = ''w'' then ''b''
                         else if cur_color u = ''b'' then ''w'' else cur_color u);
            Some ((engine_of st color)\<lparr>cur_king_passant := 0\<rparr>)
          }
          else Some ((engine_of st (cur_color u))\<lparr>cur_king_passant := 0\<rparr>)
        })
     else Some (u\<lparr>cur_king_passant := 0\<rparr>)
   }"

subsection \<open>The \<open>go\<close> command\<close>

text \<open>The test of the \<open>go\<close> branch that makes the loop \<open>continue\<close>.\<close>

definition invalid_position :: "engine \<Rightarrow> bool" where
  "invalid_position u =
     (length (cur_position u) \<noteq> 120 \<or> length (cur_castling u) \<noteq> 2
      \<or> length (cur_opponent_castling u) \<noteq> 2
      \<or> \<not> (0 \<le> cur_en_passant u \<and> cur_en_passant u \<le> 119)
      \<or> \<not> (0 \<le> cur_king_passant u \<and> cur_king_passant u \<le> 119)
      \<or> cur_color u \<notin> set [''w'', ''b''])"

text \<open>
  The value of a numeric argument: \<open>int(tokens[i]) / 1000\<close> if the token after the keyword
  is all digits, the default otherwise; reading the token raises when the keyword is the
  last one.
\<close>

definition seconds_after :: "string list \<Rightarrow> string \<Rightarrow> rat \<Rightarrow> rat option" where
  "seconds_after tokens keyword dflt =
     (if keyword \<in> set tokens then do {
        tok \<leftarrow> py_index tokens (index_after tokens keyword);
        Some (if str_isdigit tok then of_int (int_of_digits tok) / 1000 else dflt)
      } else Some dflt)"

definition go_limits :: "string list \<Rightarrow> string \<Rightarrow> (int \<times> rat) option" where
  "go_limits tokens color = do {
     let depth = 5;
     let time_limit = 10;
     time_limit \<leftarrow> seconds_after tokens ''movetime'' time_limit;
     depth \<leftarrow>
       (if ''depth'' \<in> set tokens then do {
          tok \<leftarrow> py_index tokens (index_after tokens ''depth'');
          Some (if str_isdigit tok then int_of_digits tok else depth)
        } else Some depth);
     if ''wtime'' \<in> set tokens \<or> ''btime'' \<in> set tokens \<or> ''winc'' \<in> set tokens \<or> ''binc'' \<in> set tokens
     then do {
       white_time \<leftarrow> seconds_after tokens ''wtime'' 400;
       black_time \<leftarrow> seconds_after tokens ''btime'' 400;
       white_increment \<leftarrow> seconds_after tokens ''winc'' 0;
       black_increment \<leftarrow> seconds_after tokens ''binc'' 0;
       let (white_time, black_time) =
             (if color = ''b'' then (black_time, white_time) else (white_time, black_time));
       let (white_increment, black_increment) =
             (if color = ''b'' then (black_increment, white_increment)
              else (white_increment, black_increment));
       Some (depth, if white_time \<le> 60 then 1 else white_time / 40 + white_increment)
     }
     else Some (depth, time_limit)
   }"

text \<open>
  The \<open>go\<close> branch of the loop of \<open>main\<close>, for an initialised engine. The position
  variables are not assigned in this branch; the globals carry the search's effects and
  the lines written.
\<close>

definition go_command :: "env \<Rightarrow> string list \<Rightarrow> engine \<Rightarrow> globals \<Rightarrow> globals option" where
  "go_command e tokens u g =
     (if invalid_position u then Some g
      else do {
        (depth, limit) \<leftarrow> go_limits tokens (cur_color u);
        let g = g\<lparr>time_limit := limit\<rparr>;
        castling0 \<leftarrow> py_index (cur_castling u) 0;
        castling1 \<leftarrow> py_index (cur_castling u) 1;
        opponent0 \<leftarrow> py_index (cur_opponent_castling u) 0;
        opponent1 \<leftarrow> py_index (cur_opponent_castling u) 1;
        (best_move, g) \<leftarrow>
          iteratively_deepen e depth
            (cur_position u, (castling0, castling1), (opponent0, opponent1),
             cur_en_passant u, cur_king_passant u)
            (cur_color u) g;
        Some (send_response (Bestmove (algebraic_notation best_move (cur_color u))) g)
      })"

section \<open>Notions used in the properties\<close>

text \<open>
  The test of the loops of \<open>nega_max\<close> and \<open>quiesce\<close> that discards a move: make it,
  rotate the board, and ask whether the king of the side that moved can be captured.
\<close>

definition self_check :: "state \<Rightarrow> move \<Rightarrow> bool option" where
  "self_check st move = do {
     new_position \<leftarrow> make_move move st;
     new_position \<leftarrow> rotate_position new_position;
     king_in_check (fst new_position) (fst (snd st)) (snd (snd (snd (snd new_position))))
   }"

text \<open>The test \<open>nega_max\<close> makes after its loop to tell checkmate from stalemate.\<close>

definition mover_in_check :: "state \<Rightarrow> bool option" where
  "mover_in_check st = do {
     new_position \<leftarrow> rotate_position st;
     king_in_check (fst new_position) (fst (snd st)) 0
   }"

text \<open>The value a search returns, and the globals it leaves.\<close>

definition result_of :: "('a \<times> globals) option \<Rightarrow> 'a option" where
  "result_of r = map_option fst r"

definition globals_after :: "('a \<times> globals) option \<Rightarrow> globals option" where
  "globals_after r = map_option snd r"

text \<open>
  An environment with no book and a clock that stands still, and the globals as the first
  \<open>isready\<close> sets them, with an empty transposition table and the time limit of ten seconds
  that \<open>go\<close> sets by default.
\<close>

definition quiet_env :: env where
  "quiet_env = \<lparr>OPENING_BOOKS = [], randint = (\<lambda>a b. a), shuffle = (\<lambda>entries. entries),
     time_at = (\<lambda>n. 0), recursion_limit = 1000\<rparr>"

definition fresh_globals :: globals where
  "fresh_globals = \<lparr>TRANSPOSITION_TABLE = Map.empty, max_depth = 0, nodes = 0, start_time = 0,
     time_limit = 10, timeout = False, clock = 0, responses = []\<rparr>"

text \<open>A search from the globals that an earlier computation left, if it returned.\<close>

definition then_nega_max :: "globals option \<Rightarrow> env \<Rightarrow> int \<Rightarrow> state \<Rightarrow> string \<Rightarrow> (int \<times> move) option" where
  "then_nega_max before e depth st color = do {
     g \<leftarrow> before;
     result_of (nega_max (recursion_limit e) e depth (- CHECKMATE_UPPER) CHECKMATE_UPPER st color g)
   }"

text \<open>The globals at the root of a search to depth \<open>d\<close>, with one entry in the table.\<close>

definition globals_with :: "int \<Rightarrow> int \<Rightarrow> tt_entry \<Rightarrow> globals" where
  "globals_with d key table_info =
     fresh_globals\<lparr>TRANSPOSITION_TABLE := [key \<mapsto> table_info], max_depth := d\<rparr>"

text \<open>A board written as its eight ranks, rank 8 first.\<close>

definition board :: "string list \<Rightarrow> string" where
  "board ranks =
     (''         '' @ [NL]) @ (''         '' @ [NL])
     @ concat (map (\<lambda>r. CHR '' '' # r @ [NL]) ranks)
     @ (''         '' @ [NL]) @ (''         '' @ [NL])"

text \<open>
  A stalemate: white king a1, white pawn c6, black pawn c7, black queen b3, black king h8,
  white to move. With the en-passant square d6 (cell 44) the generator adds the pawn move
  from c6 to d7.
\<close>

definition STALEMATE_POSITION :: string where
  "STALEMATE_POSITION = board
     [''.......k'', ''..p.....'', ''..P.....'', ''........'',
      ''........'', ''.q......'', ''........'', ''K.......'']"

definition STALEMATE :: state where
  "STALEMATE = (STALEMATE_POSITION, (False, False), (False, False), 0, 0)"

definition STALEMATE_EP :: state where
  "STALEMATE_EP = (STALEMATE_POSITION, (False, False), (False, False), 44, 0)"

text \<open>The board with no piece on it, as \<open>position fen 8/8/8/8/8/8/8/8 w - - 0 1\<close> sets it.\<close>

definition EMPTY_POSITION :: string where
  "EMPTY_POSITION = board
     [''........'', ''........'', ''........'', ''........'',
      ''........'', ''........'', ''........'', ''........'']"

definition EMPTY_ENGINE :: engine where
  "EMPTY_ENGINE = \<lparr>cur_position = EMPTY_POSITION, cur_castling = [False, False],
     cur_opponent_castling = [False, False], cur_en_passant = 0, cur_king_passant = 0,
     cur_color = ''w''\<rparr>"

text \<open>
  Kings on e1 and e8, a white pawn on g6 and a black pawn on h3, white to move; and the same
  position rotated.
\<close>

definition PAWNS_POSITION :: string where
  "PAWNS_POSITION = board
     [''....k...'', ''........'', ''......P.'', ''........'',
      ''........'', ''.......p'', ''........'', ''....K...'']"

definition PAWNS_ROTATED :: string where
  "PAWNS_ROTATED = board
     [''...k....'', ''........'', ''P.......'', ''........'',
      ''........'', ''.p......'', ''........'', ''...K....'']"

text \<open>
  Kings on e1 and e8 and a white pawn on f4, white to move, with the square e5 (cell 55)
  given as en-passant square.
\<close>

definition F4_POSITION :: string where
  "F4_POSITION = board
     [''....k...'', ''........'', ''........'', ''........'',
      ''.....P..'', ''........'', ''........'', ''....K...'']"

subsection \<open>The layout of a board\<close>

text \<open>
  The cells of the rows 0, 1, 10 and 11 and of the columns 0 and 9 are sentinels. A board
  has the layout of the engine when it has 120 cells, every sentinel cell holds a space or
  a newline and every other cell a period or a piece letter.
\<close>

definition sentinel_index :: "int \<Rightarrow> bool" where
  "sentinel_index i = (i div 10 < 2 \<or> i div 10 > 9 \<or> i mod 10 = 0 \<or> i mod 10 = 9)"

definition cell_ok :: "int \<times> char \<Rightarrow> bool" where
  "cell_ok ic = (case ic of (i, c) \<Rightarrow>
     if sentinel_index i then c = CHR '' '' \<or> c = NL else c \<in> set ''.PNBRQKpnbrqk'')"

definition board_layout :: "string \<Rightarrow> bool" where
  "board_layout position = (length position = 120 \<and> list_all cell_ok (enumerate_py position))"

subsection \<open>The en-passant part of the hash\<close>

text \<open>The position that \<open>zobrist_hash\<close> hashes: rotated when black is to move.\<close>

definition white_view :: "state \<Rightarrow> string \<Rightarrow> state option" where
  "white_view st color = (if color = ''b'' then rotate_position st else Some st)"

text \<open>
  The test of \<open>zobrist_hash\<close> for a pawn that could capture on the en-passant square: a
  \<open>P\<close> diagonally below a square of the row 41 to 48, or a \<open>p\<close> diagonally above a square
  of the row 71 to 78.
\<close>

definition capturing_pawn :: "string \<Rightarrow> int \<Rightarrow> bool" where
  "capturing_pawn position en_passant =
     ((41 \<le> en_passant \<and> en_passant \<le> 48
         \<and> (py_index position (en_passant + SOUTH + EAST) = Some CHR ''P''
              \<or> py_index position (en_passant + SOUTH + WEST) = Some CHR ''P''))
      \<or> (71 \<le> en_passant \<and> en_passant \<le> 78
         \<and> (py_index position (en_passant + NORTH + EAST) = Some CHR ''p''
              \<or> py_index position (en_passant + NORTH + WEST) = Some CHR ''p'')))"

subsection \<open>Positions of games\<close>

text \<open>
  The PolyGlot test position \<open>rnbqkbnr/p1pppppp/8/8/PpP4P/8/1P1PPPP1/RNBQKBNR b KQkq c3\<close>
  from white's point of view, and as \<open>load_fen\<close> stores it for black, who is to move.
\<close>

definition C3_WHITE_VIEW :: string where
  "C3_WHITE_VIEW = board
     [''rnbqkbnr'', ''p.pppppp'', ''........'', ''........'',
      ''PpP....P'', ''........'', ''.P.PPPP.'', ''RNBQKBNR'']"

definition C3_POSITION :: string where
  "C3_POSITION = board
     [''rnbkqbnr'', ''.pppp.p.'', ''........'', ''p....pPp'',
      ''........'', ''........'', ''PPPPPP.P'', ''RNBKQBNR'']"

text \<open>The position after \<open>1. e2e4 g8f6\<close>, white to move.\<close>

definition E4_NF6_POSITION :: string where
  "E4_NF6_POSITION = board
     [''rnbqkb.r'', ''pppppppp'', ''.....n..'', ''........'',
      ''....P...'', ''........'', ''PPPP.PPP'', ''RNBQKBNR'']"

text \<open>
  The position after \<open>1. b2b3 g7g6 2. c1a3 f8g7 3. b1c3 h7h6 4. c3d5 g7a1 5. d1a1 g8f6\<close>,
  white to move: the white queen has taken back on a1, and b1, c1 and d1 are empty.
\<close>

definition QUEEN_A1_POSITION :: string where
  "QUEEN_A1_POSITION = board
     [''rnbqk..r'', ''pppppp..'', ''.....npp'', ''...N....'',
      ''........'', ''BP......'', ''P.PPPPPP'', ''Q...KBNR'']"

subsection \<open>Reachable states\<close>

text \<open>
  A state is well formed when its board has the layout of the engine and a side holds
  castling rights only while its king stands on its first rank.
\<close>

definition kings_on_row :: "string \<Rightarrow> char \<Rightarrow> int \<Rightarrow> bool" where
  "kings_on_row position king first =
     list_all (\<lambda>(i, c). c = king \<longrightarrow> first \<le> i \<and> i \<le> first + 7) (enumerate_py position)"

definition well_formed :: "state \<Rightarrow> bool" where
  "well_formed st =
     (case st of (position, castling, opponent_castling, en_passant, king_passant) \<Rightarrow>
        board_layout position
        \<and> ((fst castling \<or> snd castling) \<longrightarrow> kings_on_row position CHR ''K'' A1)
        \<and> ((fst opponent_castling \<or> snd opponent_castling) \<longrightarrow> kings_on_row position CHR ''k'' A8))"

text \<open>
  The states the engine reaches: the starting position, the well-formed states that
  \<open>load_fen\<close> returns, and from a reachable state the state after one of the moves that
  \<open>generate_moves\<close> gives for it and the rotated state.
\<close>

inductive reachable :: "state \<Rightarrow> bool" where
  startpos: "reachable (INITIAL_POSITION, INITIAL_CASTLING, INITIAL_OPPONENT_CASTLING,
                        INITIAL_EN_PASSANT, INITIAL_KING_PASSANT)"
| fen: "load_fen fen = Some (st, color) \<Longrightarrow> well_formed st \<Longrightarrow> reachable st"
| moved: "reachable st
          \<Longrightarrow> generate_moves (fst st) (fst (snd st)) (fst (snd (snd (snd st)))) = Some move_list
          \<Longrightarrow> move \<in> set move_list \<Longrightarrow> make_move move st = Some st' \<Longrightarrow> reachable st'"
| rotated: "reachable st \<Longrightarrow> rotate_position st = Some st' \<Longrightarrow> reachable st'"

section \<open>Equations for evaluation\<close>

lemma len_from_eq: "len_from i xs = i + int (length xs)"
  by (induction xs arbitrary: i) auto

lemma py_len_code [code]: "py_len xs = len_from 0 xs"
  by (simp add: py_len_def len_from_eq)

lemma range_from_eq: "range_from i k = map (\<lambda>j. i + int j) [0..<k]"
proof (induction k arbitrary: i)
  case 0
  then show ?case by simp
next
  case (Suc k)
  have "[0..<Suc k] = 0 # map Suc [0..<k]"
    by (metis map_Suc_upt upt_conv_Cons zero_less_Suc)
  then show ?case by (simp add: Suc.IH)
qed

lemma py_range_code [code]: "py_range n = range_from 0 (nat n)"
  by (simp add: py_range_def range_from_eq)

lemma nth_opt_eq: "nth_opt xs n = (if n < length xs then Some (xs ! n) else None)"
  by (induction xs n rule: nth_opt.induct) auto

lemma py_index_code [code]:
  "py_index xs i =
     (if 0 \<le> i then nth_opt xs (nat i)
      else (let j = py_len xs + i in if 0 \<le> j then nth_opt xs (nat j) else None))"
  by (auto simp: py_index_def py_len_def nth_opt_eq Let_def)

lemma store_opt_eq: "store_opt xs n v = (if n < length xs then Some (xs[n := v]) else None)"
  by (induction xs n v rule: store_opt.induct) auto

lemma py_store_code [code]:
  "py_store xs i v =
     (if 0 \<le> i then store_opt xs (nat i) v
      else (let j = py_len xs + i in if 0 \<le> j then store_opt xs (nat j) v else None))"
  by (auto simp: py_store_def py_len_def store_opt_eq Let_def)

lemma enumerate_from_eq: "enumerate_from i xs = zip (range_from i (length xs)) xs"
  by (induction xs arbitrary: i) auto

lemma enumerate_py_code [code]: "enumerate_py xs = enumerate_from 0 xs"
  by (simp add: enumerate_py_def py_range_def py_len_def enumerate_from_eq range_from_eq)

text \<open>The character tests, read off the bits of the character.\<close>

lemma isupper_code [code]:
  "isupper (Char b0 b1 b2 b3 b4 b5 b6 b7) =
     (\<not> b7 \<and> b6 \<and> \<not> b5 \<and> (b0 \<or> b1 \<or> b2 \<or> b3 \<or> b4) \<and> \<not> (b4 \<and> b3 \<and> (b2 \<or> (b1 \<and> b0))))"
  by (cases b0; cases b1; cases b2; cases b3; cases b4; cases b5; cases b6; cases b7;
      simp add: isupper_def py_ord_def)

lemma islower_code [code]:
  "islower (Char b0 b1 b2 b3 b4 b5 b6 b7) =
     (\<not> b7 \<and> b6 \<and> b5 \<and> (b0 \<or> b1 \<or> b2 \<or> b3 \<or> b4) \<and> \<not> (b4 \<and> b3 \<and> (b2 \<or> (b1 \<and> b0))))"
  by (cases b0; cases b1; cases b2; cases b3; cases b4; cases b5; cases b6; cases b7;
      simp add: islower_def py_ord_def)

lemma isspace_code [code]:
  "isspace (Char b0 b1 b2 b3 b4 b5 b6 b7) =
     (\<not> b7 \<and> \<not> b6 \<and>
      ((\<not> b5 \<and> \<not> b4 \<and> b3 \<and> ((\<not> b2 \<and> (b1 \<or> b0)) \<or> (b2 \<and> \<not> b1)))
       \<or> (\<not> b5 \<and> b4 \<and> b3 \<and> b2)
       \<or> (b5 \<and> \<not> b4 \<and> \<not> b3 \<and> \<not> b2 \<and> \<not> b1 \<and> \<not> b0)))"
  by (cases b0; cases b1; cases b2; cases b3; cases b4; cases b5; cases b6; cases b7;
      simp add: isspace_def py_ord_def)

lemma upper_code [code]:
  "upper (Char b0 b1 b2 b3 b4 b5 b6 b7) =
     (if islower (Char b0 b1 b2 b3 b4 b5 b6 b7) then Char b0 b1 b2 b3 b4 False b6 b7
      else Char b0 b1 b2 b3 b4 b5 b6 b7)"
  by (cases b0; cases b1; cases b2; cases b3; cases b4; cases b5; cases b6; cases b7;
      simp add: upper_def islower_def py_ord_def char_of_def)

lemma lower_code [code]:
  "lower (Char b0 b1 b2 b3 b4 b5 b6 b7) =
     (if isupper (Char b0 b1 b2 b3 b4 b5 b6 b7) then Char b0 b1 b2 b3 b4 True b6 b7
      else Char b0 b1 b2 b3 b4 b5 b6 b7)"
  by (cases b0; cases b1; cases b2; cases b3; cases b4; cases b5; cases b6; cases b7;
      simp add: lower_def isupper_def py_ord_def char_of_def)

lemma isdigit_code [code]:
  "isdigit (Char b0 b1 b2 b3 b4 b5 b6 b7) =
     (\<not> b7 \<and> \<not> b6 \<and> b5 \<and> b4 \<and> (\<not> b3 \<or> (\<not> b2 \<and> \<not> b1)))"
  by (cases b0; cases b1; cases b2; cases b3; cases b4; cases b5; cases b6; cases b7;
      simp add: isdigit_def py_ord_def)


subsection \<open>The padded tables, computed\<close>

text \<open>
  The dictionaries after the first \<open>isready\<close>, with every padded table written out;
  the equations serve as code equations, so that a lookup does not pad the tables again.
\<close>

lemma pad_MIDGAME_PAWN: "pad_table MIDGAME_PAWN_TABLE = [
      0, 0, 0, 0, 0, 0, 0, 0, 0, 0,
      0, 0, 0, 0, 0, 0, 0, 0, 0, 0,
      0, 0, 0, 0, 0, 0, 0, 0, 0, 0,
      0, 120, 163, 74, 116, 83, 154, 41, -13, 0,
      0, -7, 9, 32, 38, 79, 68, 30, -24, 0,
      0, -17, 16, 7, 26, 28, 15, 21, -28, 0,
      0, -33, -2, -6, 20, 26, 7, 12, -30, 0,
      0, -32, -5, -5, -12, 4, 4, 40, -15, 0,
      0, -43, -1, -24, -33, -23, 29, 46, -27, 0,
      0, 0, 0, 0, 0, 0, 0, 0, 0, 0,
      0, 0, 0, 0, 0, 0, 0, 0, 0, 0,
      0, 0, 0, 0, 0, 0, 0, 0, 0, 0]"
  by code_simp

lemma pad_MIDGAME_KNIGHT: "pad_table MIDGAME_KNIGHT_TABLE = [
      0, 0, 0, 0, 0, 0, 0, 0, 0, 0,
      0, 0, 0, 0, 0, 0, 0, 0, 0, 0,
      0, -204, -109, -41, -60, 74, -118, -18, -130, 0,
      0, -89, -50, 88, 44, 28, 76, 9, -21, 0,
      0, -57, 73, 45, 79, 102, 157, 89, 54, 0,
      0, -11, 21, 23, 65, 45, 84, 22, 27, 0,
      0, -16, 5, 20, 16, 34, 23, 26, -10, 0,
      0, -28, -11, 15, 12, 23, 21, 30, -20, 0,
      0, -35, -65, -15, -4, -1, 22, -17, -23, 0,
      0, -128, -26, -71, -40, -21, -34, -23, -28, 0,
      0, 0, 0, 0, 0, 0, 0, 0, 0, 0,
      0, 0, 0, 0, 0, 0, 0, 0, 0, 0]"
  by code_simp

lemma pad_MIDGAME_BISHOP: "pad_table MIDGAME_BISHOP_TABLE = [
      0, 0, 0, 0, 0, 0, 0, 0, 0, 0,
      0, 0, 0, 0, 0, 0, 0, 0, 0, 0,
      0, -35, 5, -100, -45, -30, -51, 9, -10, 0,
      0, -32, 20, -22, -16, 37, 72, 22, -57, 0,
      0, -20, 45, 52, 49, 43, 61, 45, -2, 0,
      0, -5, 6, 23, 61, 45, 45, 9, -2, 0,
      0, -7, 16, 16, 32, 41, 15, 12, 5, 0,
      0, 0, 18, 18, 18, 17, 33, 22, 12, 0,
      0, 5, 18, 20, 0, 9, 26, 40, 1, 0,
      0, -40, -4, -17, -26, -16, -15, -48, -26, 0,
      0, 0, 0, 0, 0, 0, 0, 0, 0, 0,
      0, 0, 0, 0, 0, 0, 0, 0, 0, 0]"
  by code_simp

lemma pad_MIDGAME_ROOK: "pad_table MIDGAME_ROOK_TABLE = [
      0, 0, 0, 0, 0, 0, 0, 0, 0, 0,
      0, 0, 0, 0, 0, 0, 0, 0, 0, 0,
      0, 39, 51, 39, 62, 77, 11, 38, 52, 0,
      0, 33, 39, 71, 76, 98, 82, 32, 54, 0,
      0, -6, 23, 32, 44, 21, 55, 74, 20, 0,
      0, -29, -13, 9, 32, 29, 43, -10, -24, 0,
      0, -44, -32, -15, -1, 11, -9, 7, -28, 0,
      0, -55, -30, -20, -21, 4, 0, -6, -40, 0,
      0, -54, -20, -24, -11, -1, 13, -7, -87, 0,
      0, -23, -16, 1, 21, 20, 9, -45, -32, 0,
      0, 0, 0, 0, 0, 0, 0, 0, 0, 0,
      0, 0, 0, 0, 0, 0, 0, 0, 0, 0]"
  by code_simp

lemma pad_MIDGAME_QUEEN: "pad_table MIDGAME_QUEEN_TABLE = [
      0, 0, 0, 0, 0, 0, 0, 0, 0, 0,
      0, 0, 0, 0, 0, 0, 0, 0, 0, 0,
      0, -34, 0, 35, 15, 72, 54, 52, 55, 0,
      0, -29, -48, -6, 1, -20, 70, 34, 66, 0,
      0, -16, -21, 9, 10, 35, 68, 57, 70, 0,
      0, -33, -33, -20, -20, -1, 21, -2, 1, 0,
      0, -11, -32, -11, -12, -2, -5, 4, -4, 0,
      0, -17, 2, -13, -2, -6, 2, 17, 6, 0,
      0, -43, -10, 13, 2, 10, 18, -4, 1, 0,
      0, -1, -22, -11, 12, -18, -30, -38, -61, 0,
      0, 0, 0, 0, 0, 0, 0, 0, 0, 0,
      0, 0, 0, 0, 0, 0, 0, 0, 0, 0]"
  by code_simp

lemma pad_MIDGAME_KING: "pad_table MIDGAME_KING_TABLE = [
      0, 0, 0, 0, 0, 0, 0, 0, 0, 0,
      0, 0, 0, 0, 0, 0, 0, 0, 0, 0,
      0, -79, 28, 20, -18, -68, -41, 2, 16, 0,
      0, 35, -1, -24, -9, -10, -5, -46, -35, 0,
      0, -11, 29, 2, -20, -24, 7, 27, -27, 0,
      0, -21, -24, -15, -33, -37, -30, -17, -44, 0,
      0, -60, -1, -33, -48, -56, -54, -40, -62, 0,
      0, -17, -17, -27, -56, -54, -37, -18, -33, 0,
      0, 1, 9, -10, -78, -52, -20, 11, 10, 0,
      0, -18, 44, 15, -66, 10, -34, 29, 17, 0,
      0, 0, 0, 0, 0, 0, 0, 0, 0, 0,
      0, 0, 0, 0, 0, 0, 0, 0, 0, 0]"
  by code_simp

lemma MIDGAME_PIECE_SQUARE_TABLES_unfold:
  "MIDGAME_PIECE_SQUARE_TABLES piece =
     (if piece = ''P'' then Some (pad_table MIDGAME_PAWN_TABLE)
      else if piece = ''N'' then Some (pad_table MIDGAME_KNIGHT_TABLE)
      else if piece = ''B'' then Some (pad_table MIDGAME_BISHOP_TABLE)
      else if piece = ''R'' then Some (pad_table MIDGAME_ROOK_TABLE)
      else if piece = ''Q'' then Some (pad_table MIDGAME_QUEEN_TABLE)
      else if piece = ''K'' then Some (pad_table MIDGAME_KING_TABLE)
      else None)"
  by (simp add: MIDGAME_PIECE_SQUARE_TABLES_def MIDGAME_TABLE_ITEMS_def)

lemma MIDGAME_PIECE_SQUARE_TABLES_code [code]:
  "MIDGAME_PIECE_SQUARE_TABLES piece =
     (if piece = ''P'' then Some [
      0, 0, 0, 0, 0, 0, 0, 0, 0, 0,
      0, 0, 0, 0, 0, 0, 0, 0, 0, 0,
      0, 0, 0, 0, 0, 0, 0, 0, 0, 0,
      0, 120, 163, 74, 116, 83, 154, 41, -13, 0,
      0, -7, 9, 32, 38, 79, 68, 30, -24, 0,
      0, -17, 16, 7, 26, 28, 15, 21, -28, 0,
      0, -33, -2, -6, 20, 26, 7, 12, -30, 0,
      0, -32, -5, -5, -12, 4, 4, 40, -15, 0,
      0, -43, -1, -24, -33, -23, 29, 46, -27, 0,
      0, 0, 0, 0, 0, 0, 0, 0, 0, 0,
      0, 0, 0, 0, 0, 0, 0, 0, 0, 0,
      0, 0, 0, 0, 0, 0, 0, 0, 0, 0]
      else if piece = ''N'' then Some [
      0, 0, 0, 0, 0, 0, 0, 0, 0, 0,
      0, 0, 0, 0, 0, 0, 0, 0, 0, 0,
      0, -204, -109, -41, -60, 74, -118, -18, -130, 0,
      0, -89, -50, 88, 44, 28, 76, 9, -21, 0,
      0, -57, 73, 45, 79, 102, 157, 89, 54, 0,
      0, -11, 21, 23, 65, 45, 84, 22, 27, 0,
      0, -16, 5, 20, 16, 34, 23, 26, -10, 0,
      0, -28, -11, 15, 12, 23, 21, 30, -20, 0,
      0, -35, -65, -15, -4, -1, 22, -17, -23, 0,
      0, -128, -26, -71, -40, -21, -34, -23, -28, 0,
      0, 0, 0, 0, 0, 0, 0, 0, 0, 0,
      0, 0, 0, 0, 0, 0, 0, 0, 0, 0]
      else if piece = ''B'' then Some [
      0, 0, 0, 0, 0, 0, 0, 0, 0, 0,
      0, 0, 0, 0, 0, 0, 0, 0, 0, 0,
      0, -35, 5, -100, -45, -30, -51, 9, -10, 0,
      0, -32, 20, -22, -16, 37, 72, 22, -57, 0,
      0, -20, 45, 52, 49, 43, 61, 45, -2, 0,
      0, -5, 6, 23, 61, 45, 45, 9, -2, 0,
      0, -7, 16, 16, 32, 41, 15, 12, 5, 0,
      0, 0, 18, 18, 18, 17, 33, 22, 12, 0,
      0, 5, 18, 20, 0, 9, 26, 40, 1, 0,
      0, -40, -4, -17, -26, -16, -15, -48, -26, 0,
      0, 0, 0, 0, 0, 0, 0, 0, 0, 0,
      0, 0, 0, 0, 0, 0, 0, 0, 0, 0]
      else if piece = ''R'' then Some [
      0, 0, 0, 0, 0, 0, 0, 0, 0, 0,
      0, 0, 0, 0, 0, 0, 0, 0, 0, 0,
      0, 39, 51, 39, 62, 77, 11, 38, 52, 0,
      0, 33, 39, 71, 76, 98, 82, 32, 54, 0,
      0, -6, 23, 32, 44, 21, 55, 74, 20, 0,
      0, -29, -13, 9, 32, 29, 43, -10, -24, 0,
      0, -44, -32, -15, -1, 11, -9, 7, -28, 0,
      0, -55, -30, -20, -21, 4, 0, -6, -40, 0,
      0, -54, -20, -24, -11, -1, 13, -7, -87, 0,
      0, -23, -16, 1, 21, 20, 9, -45, -32, 0,
      0, 0, 0, 0, 0, 0, 0, 0, 0, 0,
      0, 0, 0, 0, 0, 0, 0, 0, 0, 0]
      else if piece = ''Q'' then Some [
      0, 0, 0, 0, 0, 0, 0, 0, 0, 0,
      0, 0, 0, 0, 0, 0, 0, 0, 0, 0,
      0, -34, 0, 35, 15, 72, 54, 52, 55, 0,
      0, -29, -48, -6, 1, -20, 70, 34, 66, 0,
      0, -16, -21, 9, 10, 35, 68, 57, 70, 0,
      0, -33, -33, -20, -20, -1, 21, -2, 1, 0,
      0, -11, -32, -11, -12, -2, -5, 4, -4, 0,
      0, -17, 2, -13, -2, -6, 2, 17, 6, 0,
      0, -43, -10, 13, 2, 10, 18, -4, 1, 0,
      0, -1, -22, -11, 12, -18, -30, -38, -61, 0,
      0, 0, 0, 0, 0, 0, 0, 0, 0, 0,
      0, 0, 0, 0, 0, 0, 0, 0, 0, 0]
      else if piece = ''K'' then Some [
      0, 0, 0, 0, 0, 0, 0, 0, 0, 0,
      0, 0, 0, 0, 0, 0, 0, 0, 0, 0,
      0, -79, 28, 20, -18, -68, -41, 2, 16, 0,
      0, 35, -1, -24, -9, -10, -5, -46, -35, 0,
      0, -11, 29, 2, -20, -24, 7, 27, -27, 0,
      0, -21, -24, -15, -33, -37, -30, -17, -44, 0,
      0, -60, -1, -33, -48, -56, -54, -40, -62, 0,
      0, -17, -17, -27, -56, -54, -37, -18, -33, 0,
      0, 1, 9, -10, -78, -52, -20, 11, 10, 0,
      0, -18, 44, 15, -66, 10, -34, 29, 17, 0,
      0, 0, 0, 0, 0, 0, 0, 0, 0, 0,
      0, 0, 0, 0, 0, 0, 0, 0, 0, 0]
      else None)"
  by (simp only: MIDGAME_PIECE_SQUARE_TABLES_unfold pad_MIDGAME_PAWN pad_MIDGAME_KNIGHT pad_MIDGAME_BISHOP pad_MIDGAME_ROOK pad_MIDGAME_QUEEN pad_MIDGAME_KING)

lemma pad_ENDGAME_PAWN: "pad_table ENDGAME_PAWN_TABLE = [
      0, 0, 0, 0, 0, 0, 0, 0, 0, 0,
      0, 0, 0, 0, 0, 0, 0, 0, 0, 0,
      0, 0, 0, 0, 0, 0, 0, 0, 0, 0,
      0, 217, 211, 193, 163, 179, 161, 201, 228, 0,
      0, 115, 122, 104, 82, 68, 65, 100, 102, 0,
      0, 39, 29, 16, 6, -2, 5, 21, 21, 0,
      0, 16, 11, -4, -9, -9, -10, 4, -1, 0,
      0, 5, 9, -7, 1, 0, -6, -1, -10, 0,
      0, 16, 10, 10, 12, 16, 0, 2, -9, 0,
      0, 0, 0, 0, 0, 0, 0, 0, 0, 0,
      0, 0, 0, 0, 0, 0, 0, 0, 0, 0,
      0, 0, 0, 0, 0, 0, 0, 0, 0, 0]"
  by code_simp

lemma pad_ENDGAME_KNIGHT: "pad_table ENDGAME_KNIGHT_TABLE = [
      0, 0, 0, 0, 0, 0, 0, 0, 0, 0,
      0, 0, 0, 0, 0, 0, 0, 0, 0, 0,
      0, -71, -46, -16, -34, -38, -33, -77, -121, 0,
      0, -30, -10, -30, -2, -11, -30, -29, -63, 0,
      0, -29, -24, 12, 11, -1, -11, -23, -50, 0,
      0, -21, 4, 27, 27, 27, 13, 10, -22, 0,
      0, -22, -7, 20, 30, 20, 21, 5, -22, 0,
      0, -28, -4, -1, 18, 12, -4, -24, -27, 0,
      0, -51, -24, -12, -6, -2, -24, -28, -54, 0,
      0, -35, -62, -28, -18, -27, -22, -61, -78, 0,
      0, 0, 0, 0, 0, 0, 0, 0, 0, 0,
      0, 0, 0, 0, 0, 0, 0, 0, 0, 0]"
  by code_simp

lemma pad_ENDGAME_BISHOP: "pad_table ENDGAME_BISHOP_TABLE = [
      0, 0, 0, 0, 0, 0, 0, 0, 0, 0,
      0, 0, 0, 0, 0, 0, 0, 0, 0, 0,
      0, -17, -26, -13, -10, -9, -11, -21, -29, 0,
      0, -10, -5, 9, -15, -4, -16, -5, -17, 0,
      0, 2, -10, 0, -1, -2, 7, 0, 5, 0,
      0, -4, 11, 15, 11, 17, 12, 4, 2, 0,
      0, -7, 4, 16, 23, 9, 12, -4, -11, 0,
      0, -15, -4, 10, 12, 16, 4, -9, -18, 0,
      0, -17, -22, -9, -1, 5, -11, -18, -33, 0,
      0, -28, -11, -28, -6, -11, -20, -6, -21, 0,
      0, 0, 0, 0, 0, 0, 0, 0, 0, 0,
      0, 0, 0, 0, 0, 0, 0, 0, 0, 0]"
  by code_simp

lemma pad_ENDGAME_ROOK: "pad_table ENDGAME_ROOK_TABLE = [
      0, 0, 0, 0, 0, 0, 0, 0, 0, 0,
      0, 0, 0, 0, 0, 0, 0, 0, 0, 0,
      0, 16, 12, 22, 18, 15, 15, 10, 6, 0,
      0, 13, 16, 16, 13, -4, 4, 10, 4, 0,
      0, 9, 9, 9, 6, 5, -4, -6, -4, 0,
      0, 5, 4, 16, 1, 2, 1, -1, 2, 0,
      0, 4, 6, 10, 5, -6, -7, -10, -13, 0,
      0, -5, 0, -6, -1, -9, -15, -10, -20, 0,
      0, -7, -7, 0, 2, -11, -11, -13, -4, 0,
      0, -11, 2, 4, -1, -6, -16, 5, -24, 0,
      0, 0, 0, 0, 0, 0, 0, 0, 0, 0,
      0, 0, 0, 0, 0, 0, 0, 0, 0, 0]"
  by code_simp

lemma pad_ENDGAME_QUEEN: "pad_table ENDGAME_QUEEN_TABLE = [
      0, 0, 0, 0, 0, 0, 0, 0, 0, 0,
      0, 0, 0, 0, 0, 0, 0, 0, 0, 0,
      0, -11, 27, 27, 33, 33, 23, 12, 24, 0,
      0, -21, 24, 39, 50, 71, 30, 37, 0, 0,
      0, -24, 7, 11, 60, 57, 43, 23, 11, 0,
      0, 4, 27, 29, 55, 70, 49, 70, 44, 0,
      0, -22, 34, 23, 57, 38, 41, 48, 28, 0,
      0, -20, -33, 18, 7, 11, 21, 12, 6, 0,
      0, -27, -28, -37, -20, -20, -28, -44, -39, 0,
      0, -40, -34, -27, -52, -6, -39, -24, -50, 0,
      0, 0, 0, 0, 0, 0, 0, 0, 0, 0,
      0, 0, 0, 0, 0, 0, 0, 0, 0, 0]"
  by code_simp

lemma pad_ENDGAME_KING: "pad_table ENDGAME_KING_TABLE = [
      0, 0, 0, 0, 0, 0, 0, 0, 0, 0,
      0, 0, 0, 0, 0, 0, 0, 0, 0, 0,
      0, -90, -43, -22, -22, -13, 18, 5, -21, 0,
      0, -15, 21, 17, 21, 21, 46, 28, 13, 0,
      0, 12, 21, 28, 18, 24, 55, 54, 16, 0,
      0, -10, 27, 29, 33, 32, 40, 32, 4, 0,
      0, -22, -5, 26, 29, 33, 28, 11, -13, 0,
      0, -23, -4, 13, 26, 28, 20, 9, -11, 0,
      0, -33, -13, 5, 16, 17, 5, -6, -21, 0,
      0, -65, -41, -26, -13, -34, -17, -29, -52, 0,
      0, 0, 0, 0, 0, 0, 0, 0, 0, 0,
      0, 0, 0, 0, 0, 0, 0, 0, 0, 0]"
  by code_simp

lemma ENDGAME_PIECE_SQUARE_TABLES_unfold:
  "ENDGAME_PIECE_SQUARE_TABLES piece =
     (if piece = ''P'' then Some (pad_table ENDGAME_PAWN_TABLE)
      else if piece = ''N'' then Some (pad_table ENDGAME_KNIGHT_TABLE)
      else if piece = ''B'' then Some (pad_table ENDGAME_BISHOP_TABLE)
      else if piece = ''R'' then Some (pad_table ENDGAME_ROOK_TABLE)
      else if piece = ''Q'' then Some (pad_table ENDGAME_QUEEN_TABLE)
      else if piece = ''K'' then Some (pad_table ENDGAME_KING_TABLE)
      else None)"
  by (simp add: ENDGAME_PIECE_SQUARE_TABLES_def ENDGAME_TABLE_ITEMS_def)

lemma ENDGAME_PIECE_SQUARE_TABLES_code [code]:
  "ENDGAME_PIECE_SQUARE_TABLES piece =
     (if piece = ''P'' then Some [
      0, 0, 0, 0, 0, 0, 0, 0, 0, 0,
      0, 0, 0, 0, 0, 0, 0, 0, 0, 0,
      0, 0, 0, 0, 0, 0, 0, 0, 0, 0,
      0, 217, 211, 193, 163, 179, 161, 201, 228, 0,
      0, 115, 122, 104, 82, 68, 65, 100, 102, 0,
      0, 39, 29, 16, 6, -2, 5, 21, 21, 0,
      0, 16, 11, -4, -9, -9, -10, 4, -1, 0,
      0, 5, 9, -7, 1, 0, -6, -1, -10, 0,
      0, 16, 10, 10, 12, 16, 0, 2, -9, 0,
      0, 0, 0, 0, 0, 0, 0, 0, 0, 0,
      0, 0, 0, 0, 0, 0, 0, 0, 0, 0,
      0, 0, 0, 0, 0, 0, 0, 0, 0, 0]
      else if piece = ''N'' then Some [
      0, 0, 0, 0, 0, 0, 0, 0, 0, 0,
      0, 0, 0, 0, 0, 0, 0, 0, 0, 0,
      0, -71, -46, -16, -34, -38, -33, -77, -121, 0,
      0, -30, -10, -30, -2, -11, -30, -29, -63, 0,
      0, -29, -24, 12, 11, -1, -11, -23, -50, 0,
      0, -21, 4, 27, 27, 27, 13, 10, -22, 0,
      0, -22, -7, 20, 30, 20, 21, 5, -22, 0,
      0, -28, -4, -1, 18, 12, -4, -24, -27, 0,
      0, -51, -24, -12, -6, -2, -24, -28, -54, 0,
      0, -35, -62, -28, -18, -27, -22, -61, -78, 0,
      0, 0, 0, 0, 0, 0, 0, 0, 0, 0,
      0, 0, 0, 0, 0, 0, 0, 0, 0, 0]
      else if piece = ''B'' then Some [
      0, 0, 0, 0, 0, 0, 0, 0, 0, 0,
      0, 0, 0, 0, 0, 0, 0, 0, 0, 0,
      0, -17, -26, -13, -10, -9, -11, -21, -29, 0,
      0, -10, -5, 9, -15, -4, -16, -5, -17, 0,
      0, 2, -10, 0, -1, -2, 7, 0, 5, 0,
      0, -4, 11, 15, 11, 17, 12, 4, 2, 0,
      0, -7, 4, 16, 23, 9, 12, -4, -11, 0,
      0, -15, -4, 10, 12, 16, 4, -9, -18, 0,
      0, -17, -22, -9, -1, 5, -11, -18, -33, 0,
      0, -28, -11, -28, -6, -11, -20, -6, -21, 0,
      0, 0, 0, 0, 0, 0, 0, 0, 0, 0,
      0, 0, 0, 0, 0, 0, 0, 0, 0, 0]
      else if piece = ''R'' then Some [
      0, 0, 0, 0, 0, 0, 0, 0, 0, 0,
      0, 0, 0, 0, 0, 0, 0, 0, 0, 0,
      0, 16, 12, 22, 18, 15, 15, 10, 6, 0,
      0, 13, 16, 16, 13, -4, 4, 10, 4, 0,
      0, 9, 9, 9, 6, 5, -4, -6, -4, 0,
      0, 5, 4, 16, 1, 2, 1, -1, 2, 0,
      0, 4, 6, 10, 5, -6, -7, -10, -13, 0,
      0, -5, 0, -6, -1, -9, -15, -10, -20, 0,
      0, -7, -7, 0, 2, -11, -11, -13, -4, 0,
      0, -11, 2, 4, -1, -6, -16, 5, -24, 0,
      0, 0, 0, 0, 0, 0, 0, 0, 0, 0,
      0, 0, 0, 0, 0, 0, 0, 0, 0, 0]
      else if piece = ''Q'' then Some [
      0, 0, 0, 0, 0, 0, 0, 0, 0, 0,
      0, 0, 0, 0, 0, 0, 0, 0, 0, 0,
      0, -11, 27, 27, 33, 33, 23, 12, 24, 0,
      0, -21, 24, 39, 50, 71, 30, 37, 0, 0,
      0, -24, 7, 11, 60, 57, 43, 23, 11, 0,
      0, 4, 27, 29, 55, 70, 49, 70, 44, 0,
      0, -22, 34, 23, 57, 38, 41, 48, 28, 0,
      0, -20, -33, 18, 7, 11, 21, 12, 6, 0,
      0, -27, -28, -37, -20, -20, -28, -44, -39, 0,
      0, -40, -34, -27, -52, -6, -39, -24, -50, 0,
      0, 0, 0, 0, 0, 0, 0, 0, 0, 0,
      0, 0, 0, 0, 0, 0, 0, 0, 0, 0]
      else if piece = ''K'' then Some [
      0, 0, 0, 0, 0, 0, 0, 0, 0, 0,
      0, 0, 0, 0, 0, 0, 0, 0, 0, 0,
      0, -90, -43, -22, -22, -13, 18, 5, -21, 0,
      0, -15, 21, 17, 21, 21, 46, 28, 13, 0,
      0, 12, 21, 28, 18, 24, 55, 54, 16, 0,
      0, -10, 27, 29, 33, 32, 40, 32, 4, 0,
      0, -22, -5, 26, 29, 33, 28, 11, -13, 0,
      0, -23, -4, 13, 26, 28, 20, 9, -11, 0,
      0, -33, -13, 5, 16, 17, 5, -6, -21, 0,
      0, -65, -41, -26, -13, -34, -17, -29, -52, 0,
      0, 0, 0, 0, 0, 0, 0, 0, 0, 0,
      0, 0, 0, 0, 0, 0, 0, 0, 0, 0]
      else None)"
  by (simp only: ENDGAME_PIECE_SQUARE_TABLES_unfold pad_ENDGAME_PAWN pad_ENDGAME_KNIGHT pad_ENDGAME_BISHOP pad_ENDGAME_ROOK pad_ENDGAME_QUEEN pad_ENDGAME_KING)

text \<open>
  \<open>generate_moves\<close> computes the game phase of the position anew for every move it
  ranks; the phase is the same each time.
\<close>

lemma generate_moves_code [code]:
  "generate_moves position castling en_passant = do {
     move_list \<leftarrow> unsorted_moves position castling en_passant;
     let phase = game_phase position;
     keys \<leftarrow> map_opt (\<lambda>move. do {
               (midgame_score, endgame_score) \<leftarrow> move_scores move position en_passant;
               Some (interpolate midgame_score endgame_score phase) }) move_list;
     Some (sort_descending keys move_list)
   }"
  by (simp add: generate_moves_def evaluate_move_def)
chapter \<open>Properties\<close>

section \<open>The hash of the starting position\<close>

lemma initial_position_hash:
  "zobrist_hash (INITIAL_POSITION, INITIAL_CASTLING, INITIAL_OPPONENT_CASTLING,
                 INITIAL_EN_PASSANT, INITIAL_KING_PASSANT) INITIAL_COLOR
   = Some 0x463B96181691FC9C"
  by code_simp

lemma startpos_parsed:
  "load_fen ''rnbqkbnr/pppppppp/8/8/8/8/PPPPPPPP/RNBQKBNR w KQkq - 0 1''
   = Some ((INITIAL_POSITION, INITIAL_CASTLING, INITIAL_OPPONENT_CASTLING,
            INITIAL_EN_PASSANT, INITIAL_KING_PASSANT), INITIAL_COLOR)"
  by code_simp

lemma startpos_set:
  "position_command [''position'', ''startpos''] unset_engine
   = Some (engine_of (INITIAL_POSITION, INITIAL_CASTLING, INITIAL_OPPONENT_CASTLING,
                      INITIAL_EN_PASSANT, INITIAL_KING_PASSANT) INITIAL_COLOR)"
  by code_simp

text \<open>
  Claim C1. The starting position, as the \<open>position startpos\<close> command sets it and as
  \<open>load_fen\<close> parses it from its FEN (white to move, all four castling rights, no
  en-passant square), has the Zobrist hash \<open>0x463B96181691FC9C\<close>, the PolyGlot key of
  that position.
\<close>

theorem startpos_hash:
  "position_command [''position'', ''startpos''] unset_engine
     = Some (engine_of (INITIAL_POSITION, INITIAL_CASTLING, INITIAL_OPPONENT_CASTLING,
                        INITIAL_EN_PASSANT, INITIAL_KING_PASSANT) INITIAL_COLOR)
   \<and> load_fen ''rnbqkbnr/pppppppp/8/8/8/8/PPPPPPPP/RNBQKBNR w KQkq - 0 1''
     = Some ((INITIAL_POSITION, INITIAL_CASTLING, INITIAL_OPPONENT_CASTLING,
              INITIAL_EN_PASSANT, INITIAL_KING_PASSANT), INITIAL_COLOR)
   \<and> zobrist_hash (INITIAL_POSITION, INITIAL_CASTLING, INITIAL_OPPONENT_CASTLING,
                    INITIAL_EN_PASSANT, INITIAL_KING_PASSANT) INITIAL_COLOR
     = Some 0x463B96181691FC9C"
  using startpos_set startpos_parsed initial_position_hash by blast

section \<open>The en-passant square after a move\<close>

text \<open>
  Claim C3 says that \<open>make_move\<close> returns a nonzero en-passant square only after a pawn
  has advanced two cells, so that the move of another piece returns 0. The function
  assigns \<open>en_passant\<close> only in its pawn branch. After \<open>1. e2e4\<close> from the starting
  position the square is 75, and 44 once the board is rotated; the reply \<open>g8f6\<close>, the move
  from 92 to 73 of a knight on the rotated board, returns the square 44 again.
\<close>

theorem knight_move_keeps_en_passant:
  "map_option (\<lambda>st. fst (snd (snd (snd st))))
     (Option.bind
        (Option.bind
           (make_move (85, 65, ''.'', [])
              (INITIAL_POSITION, INITIAL_CASTLING, INITIAL_OPPONENT_CASTLING, 0, 0))
           rotate_position)
        (make_move (92, 73, ''.'', [])))
   = Some 44"
  by code_simp

section \<open>Facts about the search\<close>

lemma for_return_inv_obj:
  "for_return xs body s = Some res \<Longrightarrow> I s
   \<Longrightarrow> (\<forall>x\<in>set xs. \<forall>s s'. I s \<longrightarrow> body x s = Some (Inr s') \<longrightarrow> I s')
   \<Longrightarrow> (\<forall>x\<in>set xs. \<forall>s r. I s \<longrightarrow> body x s = Some (Inl r) \<longrightarrow> R r)
   \<Longrightarrow> (case res of Inl r \<Rightarrow> R r | Inr s' \<Rightarrow> I s')"
proof (induction xs arbitrary: s)
  case Nil
  then show ?case by auto
next
  case (Cons x xs)
  show ?case
  proof (cases "body x s")
    case None
    with Cons.prems(1) show ?thesis by simp
  next
    case (Some y)
    show ?thesis
    proof (cases y)
      case (Inl r)
      with Some Cons.prems(1) have "res = Inl r" by simp
      moreover have "R r" using Cons.prems(2,4) Some Inl by (meson list.set_intros(1))
      ultimately show ?thesis by simp
    next
      case (Inr s')
      with Some Cons.prems(1) have run: "for_return xs body s' = Some res" by simp
      have "I s'" using Cons.prems(2,3) Some Inr by (meson list.set_intros(1))
      moreover have "\<forall>x\<in>set xs. \<forall>s s'. I s \<longrightarrow> body x s = Some (Inr s') \<longrightarrow> I s'"
        using Cons.prems(3) by (meson list.set_intros(2))
      moreover have "\<forall>x\<in>set xs. \<forall>s r. I s \<longrightarrow> body x s = Some (Inl r) \<longrightarrow> R r"
        using Cons.prems(4) by (meson list.set_intros(2))
      ultimately show ?thesis using Cons.IH[OF run] by blast
    qed
  qed
qed

lemma for_return_inv:
  assumes "for_return xs body s = Some res" and "I s"
    and "\<And>x s s'. x \<in> set xs \<Longrightarrow> I s \<Longrightarrow> body x s = Some (Inr s') \<Longrightarrow> I s'"
    and "\<And>x s r. x \<in> set xs \<Longrightarrow> I s \<Longrightarrow> body x s = Some (Inl r) \<Longrightarrow> R r"
  shows "case res of Inl r \<Rightarrow> R r | Inr s' \<Rightarrow> I s'"
proof -
  have a: "\<forall>x\<in>set xs. \<forall>s s'. I s \<longrightarrow> body x s = Some (Inr s') \<longrightarrow> I s'"
    using assms(3) by blast
  have b: "\<forall>x\<in>set xs. \<forall>s r. I s \<longrightarrow> body x s = Some (Inl r) \<longrightarrow> R r"
    using assms(4) by blast
  show ?thesis by (rule for_return_inv_obj[OF assms(1) assms(2) a b])
qed

lemma for_return_all_continue:
  "(\<And>x. x \<in> set xs \<Longrightarrow> body x s = Some (Inr s)) \<Longrightarrow> for_return xs body s = Some (Inr s)"
  by (induction xs) auto


lemma quiesce_move_nodes:
  assumes rec: "\<And>a b st g r g'. rec_quiesce a b st g = Some (r, g') \<Longrightarrow> nodes g \<le> nodes g'"
    and run: "quiesce_move rec_quiesce stand_pat beta st move (alpha, g) = Some res"
  shows "case res of Inl (v, g') \<Rightarrow> nodes g \<le> nodes g' | Inr (a', g') \<Rightarrow> nodes g \<le> nodes g'"
  using run rec
  by (auto simp: quiesce_move_def Let_def split: prod.splits if_splits option.splits bind_splits sum.splits)

lemma quiesce_nodes:
  "quiesce n e alpha beta st g = Some (r, g') \<Longrightarrow> nodes g \<le> nodes g'"
proof (induction n arbitrary: alpha beta st g r g')
  case 0
  then show ?case by simp
next
  case (Suc n)
  let ?g1 = "g\<lparr>clock := Suc (clock g)\<rparr>"
  show ?case
  proof (cases "time_at e (clock g) - start_time g > time_limit g")
    case True
    with Suc.prems show ?thesis by (auto simp: read_time_def)
  next
    case False
    let ?g2 = "?g1\<lparr>nodes := nodes ?g1 + 1\<rparr>"
    from Suc.prems False obtain stand_pat where sp: "evaluate_position (fst st) = Some stand_pat"
      by (auto simp: read_time_def Let_def split: bind_splits)
    show ?thesis
    proof (cases "stand_pat \<ge> beta")
      case True
      with Suc.prems False sp show ?thesis by (auto simp: read_time_def Let_def)
    next
      case nb: False
      let ?a = "if alpha < stand_pat then stand_pat else alpha"
      from Suc.prems False sp nb obtain move_list res where
        ml: "generate_moves (fst st) (fst (snd st)) (fst (snd (snd (snd st)))) = Some move_list"
        and loop: "for_return move_list (quiesce_move (quiesce n e) stand_pat beta st) (?a, ?g2) = Some res"
        and fin: "(case res of Inl x \<Rightarrow> x | Inr x \<Rightarrow> x) = (r, g')"
        by (auto simp: read_time_def Let_def split: bind_splits sum.splits)
      have "case res of Inl (v, g'') \<Rightarrow> nodes ?g2 \<le> nodes g'' | Inr (a', g'') \<Rightarrow> nodes ?g2 \<le> nodes g''"
      proof -
        have "case res of Inl r \<Rightarrow> (\<lambda>(v, g''). nodes ?g2 \<le> nodes g'') r
                        | Inr s' \<Rightarrow> (\<lambda>(a', g''). nodes ?g2 \<le> nodes g'') s'"
        proof (rule for_return_inv[OF loop], goal_cases)
          case 1
          then show ?case by simp
        next
          case (2 x s s')
          obtain a1 g1 where s: "s = (a1, g1)" by (cases s)
          from quiesce_move_nodes[of "quiesce n e" stand_pat beta st x a1 g1 "Inr s'"] Suc.IH 2 s
          show ?case by (auto split: prod.splits)
        next
          case (3 x s r)
          obtain a1 g1 where s: "s = (a1, g1)" by (cases s)
          from quiesce_move_nodes[of "quiesce n e" stand_pat beta st x a1 g1 "Inl r"] Suc.IH 3 s
          show ?case by (auto split: prod.splits)
        qed
        then show ?thesis by (auto split: sum.splits)
      qed
      with fin show ?thesis by (auto split: sum.splits prod.splits)
    qed
  qed
qed


lemma nega_finish_nodes:
  "nega_finish depth st color (alpha, best_move, legal_moves, g) = Some (r, g') \<Longrightarrow> nodes g' = nodes g"
  by (auto simp: nega_finish_def split: if_splits bind_splits)

lemma nega_move_nodes:
  assumes rec: "\<And>d a b st c g r g'. rec_nega_max d a b st c g = Some (r, g') \<Longrightarrow> nodes g \<le> nodes g'"
    and run: "nega_move rec_nega_max depth beta st color move (alpha, best_move, legal_moves, g) = Some res"
  shows "case res of Inl (v, g') \<Rightarrow> nodes g \<le> nodes g' | Inr (a', b', l', g') \<Rightarrow> nodes g \<le> nodes g'"
  using run rec
  by (auto simp: nega_move_def Let_def split: prod.splits if_splits option.splits bind_splits sum.splits)

lemma nega_max_nodes:
  "nega_max n e depth alpha beta st color g = Some (r, g') \<Longrightarrow> nodes g \<le> nodes g'"
proof (induction n arbitrary: depth alpha beta st color g r g')
  case 0
  then show ?case by simp
next
  case (Suc n)
  let ?g1 = "g\<lparr>clock := Suc (clock g)\<rparr>"
  show ?case
  proof (cases "time_at e (clock g) - start_time g > time_limit g")
    case True
    with Suc.prems show ?thesis by (auto simp: read_time_def)
  next
    case False
    show ?thesis
    proof (cases "depth = 0")
      case True
      with Suc.prems False obtain v where "quiesce n e alpha beta st ?g1 = Some (v, g')"
        by (auto simp: read_time_def split: bind_splits)
      from quiesce_nodes[OF this] show ?thesis by simp
    next
      case d: False
      from Suc.prems False d obtain key where key: "zobrist_hash st color = Some key"
        by (auto simp: read_time_def split: bind_splits)
      show ?thesis
      proof (cases "table_cutoff (table_info_of ?g1 key) depth")
        case True
        with Suc.prems False d key show ?thesis by (auto simp: read_time_def Let_def)
      next
        case nc: False
        let ?g2 = "?g1\<lparr>nodes := nodes ?g1 + 1\<rparr>"
        from Suc.prems False d key nc obtain move_list res where
          loop: "for_return move_list (nega_move (nega_max n e) depth beta st color)
                   (alpha, NULL_MOVE, [], ?g2) = Some res"
          and fin: "(case res of Inl returned \<Rightarrow> Some returned | Inr vars \<Rightarrow> nega_finish depth st color vars)
                    = Some (r, g')"
          by (auto simp: read_time_def Let_def split: bind_splits)
        have "case res of Inl r \<Rightarrow> (\<lambda>(v, g''). nodes ?g2 \<le> nodes g'') r
                        | Inr s' \<Rightarrow> (\<lambda>(a', b', l', g''). nodes ?g2 \<le> nodes g'') s'"
        proof (rule for_return_inv[OF loop], goal_cases)
          case 1
          then show ?case by simp
        next
          case (2 x s s')
          obtain a1 b1 l1 g1 where s: "s = (a1, b1, l1, g1)" by (cases s)
          from nega_move_nodes[of "nega_max n e" depth beta st color x a1 b1 l1 g1 "Inr s'"] Suc.IH 2 s
          show ?case by (auto split: prod.splits)
        next
          case (3 x s r)
          obtain a1 b1 l1 g1 where s: "s = (a1, b1, l1, g1)" by (cases s)
          from nega_move_nodes[of "nega_max n e" depth beta st color x a1 b1 l1 g1 "Inl r"] Suc.IH 3 s
          show ?case by (auto split: prod.splits)
        qed
        with fin show ?thesis
          by (auto split: sum.splits prod.splits dest: nega_finish_nodes)
      qed
    qed
  qed
qed

lemma nega_loop_nodes:
  assumes rec: "\<And>d a b st c g r g'. rec_nega_max d a b st c g = Some (r, g') \<Longrightarrow> nodes g \<le> nodes g'"
    and loop: "for_return move_list (nega_move rec_nega_max depth beta st color) (alpha, best_move, legal_moves, g) = Some res"
    and fin: "(case res of Inl returned \<Rightarrow> Some returned | Inr vars \<Rightarrow> nega_finish depth st color vars) = Some (r, g')"
  shows "nodes g \<le> nodes g'"
proof -
  have "case res of Inl r \<Rightarrow> (\<lambda>(v, g''). nodes g \<le> nodes g'') r
                  | Inr s' \<Rightarrow> (\<lambda>(a', b', l', g''). nodes g \<le> nodes g'') s'"
  proof (rule for_return_inv[OF loop], goal_cases)
    case 1
    then show ?case by simp
  next
    case (2 x s s')
    obtain a1 b1 l1 g1 where s: "s = (a1, b1, l1, g1)" by (cases s)
    from nega_move_nodes[of rec_nega_max depth beta st color x a1 b1 l1 g1 "Inr s'"] rec 2 s
    show ?case by (auto split: prod.splits)
  next
    case (3 x s r)
    obtain a1 b1 l1 g1 where s: "s = (a1, b1, l1, g1)" by (cases s)
    from nega_move_nodes[of rec_nega_max depth beta st color x a1 b1 l1 g1 "Inl r"] rec 3 s
    show ?case by (auto split: prod.splits)
  qed
  with fin show ?thesis
    by (auto split: sum.splits prod.splits dest: nega_finish_nodes)
qed

lemma table_info_of_clock [simp]: "table_info_of (g\<lparr>clock := c\<rparr>) key = table_info_of g key"
  by (simp add: table_info_of_def)

lemma nega_max_probe_hit:
  assumes "depth \<noteq> 0" and "\<not> time_at e (clock g) - start_time g > time_limit g"
    and "zobrist_hash st color = Some key" and "table_cutoff (table_info_of g key) depth"
  shows "nega_max (Suc n) e depth alpha beta st color g
         = Some ((snd (snd (table_info_of g key)), fst (table_info_of g key)), g\<lparr>clock := Suc (clock g)\<rparr>)"
  using assms by (simp add: read_time_def Let_def)

lemma nega_max_probe_miss:
  assumes "depth \<noteq> 0" and "\<not> time_at e (clock g) - start_time g > time_limit g"
    and "zobrist_hash st color = Some key" and "\<not> table_cutoff (table_info_of g key) depth"
  shows "nega_max (Suc n) e depth alpha beta st color g
         = do {
             move_list \<leftarrow> generate_moves (fst st) (fst (snd st)) (fst (snd (snd (snd st))));
             r \<leftarrow> for_return (pv_first (fst (table_info_of g key)) move_list)
                    (nega_move (nega_max n e) depth beta st color)
                    (alpha, NULL_MOVE, [], g\<lparr>clock := Suc (clock g), nodes := nodes g + 1\<rparr>);
             (case r of Inl returned \<Rightarrow> Some returned | Inr vars \<Rightarrow> nega_finish depth st color vars)
           }"
  using assms by (simp add: read_time_def Let_def)

lemma nega_max_search_nodes:
  assumes "depth \<noteq> 0" and "\<not> time_at e (clock g) - start_time g > time_limit g"
    and "zobrist_hash st color = Some key" and "\<not> table_cutoff (table_info_of g key) depth"
    and run: "nega_max (Suc n) e depth alpha beta st color g = Some (r, g')"
  shows "nodes g + 1 \<le> nodes g'"
proof -
  from run obtain move_list res where
    loop: "for_return (pv_first (fst (table_info_of g key)) move_list)
             (nega_move (nega_max n e) depth beta st color)
             (alpha, NULL_MOVE, [], g\<lparr>clock := Suc (clock g), nodes := nodes g + 1\<rparr>) = Some res"
    and fin: "(case res of Inl returned \<Rightarrow> Some returned | Inr vars \<Rightarrow> nega_finish depth st color vars)
              = Some (r, g')"
    unfolding nega_max_probe_miss[OF assms(1-4)] by (auto split: bind_splits)
  from nega_loop_nodes[OF nega_max_nodes loop fin] show ?thesis by simp
qed

lemma set_pv_first [simp]: "set (pv_first m ms) = set ms"
proof (cases "m \<in> set ms")
  case True
  have "set (remove1 m ms) \<subseteq> set ms" by (rule set_remove1_subset)
  moreover have "\<And>x. x \<in> set ms \<Longrightarrow> x \<noteq> m \<Longrightarrow> x \<in> set (remove1 m ms)"
    by (simp add: in_set_remove1)
  ultimately have "insert m (set (remove1 m ms)) = set ms" using True by blast
  with True show ?thesis by (simp add: pv_first_def)
next
  case False
  then show ?thesis by (simp add: pv_first_def)
qed

lemma nega_move_self_check:
  assumes "self_check st move = Some True"
  shows "nega_move rec_nega_max depth beta st color move (alpha, best_move, legal_moves, g)
         = Some (Inr (alpha, best_move, legal_moves, g))"
  using assms
  by (cases st) (auto simp: nega_move_def self_check_def split: bind_splits)


lemma nega_max_no_legal_move:
  assumes d: "depth \<ge> 1" and t: "\<not> time_at e (clock g) - start_time g > time_limit g"
    and k: "zobrist_hash st color = Some key"
    and miss: "\<not> table_cutoff (table_info_of g key) depth"
    and moves: "generate_moves (fst st) (fst (snd st)) (fst (snd (snd (snd st)))) = Some move_list"
    and none: "\<forall>move \<in> set move_list. self_check st move = Some True"
    and chk: "mover_in_check st = Some check"
  shows "nega_max (Suc n) e depth alpha beta st color g
         = Some ((if check then - (CHECKMATE_LOWER - (max_depth g - depth)) else 0, NULL_MOVE),
                 g\<lparr>clock := Suc (clock g), nodes := nodes g + 1\<rparr>)"
proof -
  let ?g2 = "g\<lparr>clock := Suc (clock g), nodes := nodes g + 1\<rparr>"
  have d0: "depth \<noteq> 0" using d by simp
  have loop: "for_return (pv_first (fst (table_info_of g key)) move_list)
                (nega_move (nega_max n e) depth beta st color) (alpha, NULL_MOVE, [], ?g2)
              = Some (Inr (alpha, NULL_MOVE, [], ?g2))"
    by (rule for_return_all_continue) (simp add: nega_move_self_check none)
  have fin: "nega_finish depth st color (alpha, NULL_MOVE, [], ?g2)
             = Some ((if check then - (CHECKMATE_LOWER - (max_depth g - depth)) else 0, NULL_MOVE), ?g2)"
    using chk by (auto simp: nega_finish_def mover_in_check_def split: bind_splits)
  show ?thesis
    unfolding nega_max_probe_miss[OF d0 t k miss] by (simp add: moves loop fin)
qed

section \<open>The search on concrete positions\<close>

lemma stalemate_hash: "zobrist_hash STALEMATE ''w'' = Some 0xC45BB9E318034A08"
  by code_simp

lemma stalemate_moves:
  "generate_moves (fst STALEMATE) (fst (snd STALEMATE)) (fst (snd (snd (snd STALEMATE))))
   = Some [(91, 82, ''.'', []), (91, 92, ''.'', []), (91, 81, ''.'', [])]"
  by code_simp

lemma stalemate_b2: "self_check STALEMATE (91, 82, ''.'', []) = Some True"
  by code_simp

lemma stalemate_b1: "self_check STALEMATE (91, 92, ''.'', []) = Some True"
  by code_simp

lemma stalemate_a2: "self_check STALEMATE (91, 81, ''.'', []) = Some True"
  by code_simp

lemma stalemate_not_in_check: "mover_in_check STALEMATE = Some False"
  by code_simp

lemma quiet_no_timeout:
  "\<not> time_at quiet_env (clock (globals_with d key table_info))
       - start_time (globals_with d key table_info) > time_limit (globals_with d key table_info)"
  by (simp add: quiet_env_def globals_with_def fresh_globals_def)

lemma globals_with_entry: "TRANSPOSITION_TABLE (globals_with d key table_info) key = Some table_info"
  by (simp add: globals_with_def)

lemma globals_with_fields:
  "max_depth (globals_with d key table_info) = d" "nodes (globals_with d key table_info) = 0"
  "clock (globals_with d key table_info) = 0"
  by (simp_all add: globals_with_def fresh_globals_def)

section \<open>The probe of the transposition table\<close>

text \<open>
  Claim C4 says that \<open>nega_max\<close> returns the score and the move of the table entry of
  the position at once exactly when the depth of the entry is at least the current depth or
  the absolute value of its score is at least \<open>CHECKMATE_LOWER\<close>. The test of the code
  is on the score itself: for a call with a depth other than 0 that does not time out, on a
  position whose key has the entry \<open>(table_move, table_depth, table_score)\<close>, the entry's
  score and move are returned with the globals untouched but for the clock exactly when
  \<open>table_depth \<ge> depth\<close> or \<open>table_score \<ge> CHECKMATE_LOWER\<close>.
\<close>

theorem table_probe:
  assumes d: "depth \<noteq> 0" and t: "\<not> time_at e (clock g) - start_time g > time_limit g"
    and k: "zobrist_hash st color = Some key"
    and entry: "TRANSPOSITION_TABLE g key = Some (table_move, table_depth, table_score)"
  shows "(nega_max (Suc n) e depth alpha beta st color g
            = Some ((table_score, table_move), g\<lparr>clock := Suc (clock g)\<rparr>))
         \<longleftrightarrow> (table_depth \<ge> depth \<or> table_score \<ge> CHECKMATE_LOWER)"
proof -
  have info: "table_info_of g key = (table_move, table_depth, table_score)"
    using entry by (simp add: table_info_of_def)
  show ?thesis
  proof (cases "table_cutoff (table_info_of g key) depth")
    case True
    from nega_max_probe_hit[OF d t k True] True info show ?thesis
      by (simp add: table_cutoff_def)
  next
    case False
    have "nega_max (Suc n) e depth alpha beta st color g
            \<noteq> Some ((table_score, table_move), g\<lparr>clock := Suc (clock g)\<rparr>)"
    proof
      assume "nega_max (Suc n) e depth alpha beta st color g
                = Some ((table_score, table_move), g\<lparr>clock := Suc (clock g)\<rparr>)"
      from nega_max_search_nodes[OF d t k False this] show False by simp
    qed
    with False info show ?thesis by (simp add: table_cutoff_def)
  qed
qed

theorem table_probe_witness:
  "(2::int) \<noteq> 0
   \<and> \<not> time_at quiet_env (clock (globals_with 2 0x463B96181691FC9C ((85, 65, ''.'', []), 3, 55)))
         - start_time (globals_with 2 0x463B96181691FC9C ((85, 65, ''.'', []), 3, 55))
         > time_limit (globals_with 2 0x463B96181691FC9C ((85, 65, ''.'', []), 3, 55))
   \<and> zobrist_hash (INITIAL_POSITION, INITIAL_CASTLING, INITIAL_OPPONENT_CASTLING,
                    INITIAL_EN_PASSANT, INITIAL_KING_PASSANT) INITIAL_COLOR
       = Some 0x463B96181691FC9C
   \<and> TRANSPOSITION_TABLE (globals_with 2 0x463B96181691FC9C ((85, 65, ''.'', []), 3, 55))
         0x463B96181691FC9C = Some ((85, 65, ''.'', []), 3, 55)
   \<and> nega_max (Suc 0) quiet_env 2 (- CHECKMATE_UPPER) CHECKMATE_UPPER
         (INITIAL_POSITION, INITIAL_CASTLING, INITIAL_OPPONENT_CASTLING,
          INITIAL_EN_PASSANT, INITIAL_KING_PASSANT) INITIAL_COLOR
         (globals_with 2 0x463B96181691FC9C ((85, 65, ''.'', []), 3, 55))
       = Some ((55, (85, 65, ''.'', [])),
               (globals_with 2 0x463B96181691FC9C ((85, 65, ''.'', []), 3, 55))
                 \<lparr>clock := Suc (clock (globals_with 2 0x463B96181691FC9C ((85, 65, ''.'', []), 3, 55)))\<rparr>)"
proof -
  let ?g = "globals_with 2 0x463B96181691FC9C ((85, 65, ''.'', []), 3, 55)"
  have d: "(2::int) \<noteq> 0" by simp
  note t = quiet_no_timeout[of 2 "0x463B96181691FC9C" "((85, 65, ''.'', []), 3, 55)"]
  note k = initial_position_hash
  note entry = globals_with_entry[of 2 "0x463B96181691FC9C" "((85, 65, ''.'', []), 3, 55)"]
  from table_probe[OF d t k entry, of 0 "- CHECKMATE_UPPER" CHECKMATE_UPPER]
  have "nega_max (Suc 0) quiet_env 2 (- CHECKMATE_UPPER) CHECKMATE_UPPER
          (INITIAL_POSITION, INITIAL_CASTLING, INITIAL_OPPONENT_CASTLING,
           INITIAL_EN_PASSANT, INITIAL_KING_PASSANT) INITIAL_COLOR ?g
        = Some ((55, (85, 65, ''.'', [])), ?g\<lparr>clock := Suc (clock ?g)\<rparr>)"
    by simp
  with d t k entry show ?thesis by blast
qed

text \<open>
  On the stalemate position, searched to depth 2 with the entry \<open>((43, 34, ''.'', ''''), 1,
  - CHECKMATE_LOWER)\<close> in the table, the entry is not returned: the search runs and returns
  the stalemate score 0 with the null move.
\<close>

theorem mated_entry_not_returned:
  "zobrist_hash STALEMATE ''w'' = Some 0xC45BB9E318034A08
   \<and> TRANSPOSITION_TABLE (globals_with 2 0xC45BB9E318034A08 ((43, 34, ''.'', []), 1, - CHECKMATE_LOWER))
         0xC45BB9E318034A08 = Some ((43, 34, ''.'', []), 1, - CHECKMATE_LOWER)
   \<and> result_of (nega_max (Suc 0) quiet_env 2 (- CHECKMATE_UPPER) CHECKMATE_UPPER STALEMATE ''w''
         (globals_with 2 0xC45BB9E318034A08 ((43, 34, ''.'', []), 1, - CHECKMATE_LOWER)))
       = Some (0, NULL_MOVE)"
proof -
  let ?g = "globals_with 2 0xC45BB9E318034A08 ((43, 34, ''.'', []), 1, - CHECKMATE_LOWER)"
  have miss: "\<not> table_cutoff (table_info_of ?g 0xC45BB9E318034A08) 2"
    by (simp add: table_cutoff_def table_info_of_def globals_with_def CHECKMATE_LOWER_def
        ENDGAME_KING_VALUE_def ENDGAME_QUEEN_VALUE_def)
  have none: "\<forall>move \<in> set [(91, 82, ''.'', []), (91, 92, ''.'', []), (91, 81, ''.'', [])].
                self_check STALEMATE move = Some True"
    by (simp add: stalemate_b2 stalemate_b1 stalemate_a2)
  have "nega_max (Suc 0) quiet_env 2 (- CHECKMATE_UPPER) CHECKMATE_UPPER STALEMATE ''w'' ?g
        = Some ((0, NULL_MOVE), ?g\<lparr>clock := Suc (clock ?g), nodes := nodes ?g + 1\<rparr>)"
    using nega_max_no_legal_move[OF _ quiet_no_timeout stalemate_hash miss stalemate_moves none
        stalemate_not_in_check, of 0 "- CHECKMATE_UPPER" CHECKMATE_UPPER]
    by simp
  then show ?thesis
    by (simp add: result_of_def stalemate_hash globals_with_entry)
qed

section \<open>A position without a legal move\<close>

text \<open>
  Claim C7 says that a call of \<open>nega_max\<close> with a depth of at least 1 that does not time
  out, on a position none of whose generated moves is legal, returns
  \<open>- (CHECKMATE_LOWER - (max_depth - depth))\<close> when the mover is in check and 0 when not,
  with the null move. That is what the code does after its loop; the loop is reached when
  the probe of the transposition table does not return an entry first.
\<close>

theorem no_legal_move:
  assumes "depth \<ge> 1" and "\<not> time_at e (clock g) - start_time g > time_limit g"
    and "zobrist_hash st color = Some key"
    and "\<not> table_cutoff (table_info_of g key) depth"
    and "generate_moves (fst st) (fst (snd st)) (fst (snd (snd (snd st)))) = Some move_list"
    and "\<forall>move \<in> set move_list. self_check st move = Some True"
    and "mover_in_check st = Some check"
  shows "nega_max (Suc n) e depth alpha beta st color g
         = Some ((if check then - (CHECKMATE_LOWER - (max_depth g - depth)) else 0, NULL_MOVE),
                 g\<lparr>clock := Suc (clock g), nodes := nodes g + 1\<rparr>)"
  using assms by (rule nega_max_no_legal_move)

theorem no_legal_move_witness:
  "(1::int) \<ge> 1
   \<and> \<not> time_at quiet_env (clock (globals_with 1 0 (NULL_MOVE, 0, 0)))
         - start_time (globals_with 1 0 (NULL_MOVE, 0, 0)) > time_limit (globals_with 1 0 (NULL_MOVE, 0, 0))
   \<and> zobrist_hash STALEMATE ''w'' = Some 0xC45BB9E318034A08
   \<and> \<not> table_cutoff (table_info_of (globals_with 1 0 (NULL_MOVE, 0, 0)) 0xC45BB9E318034A08) 1
   \<and> generate_moves (fst STALEMATE) (fst (snd STALEMATE)) (fst (snd (snd (snd STALEMATE))))
       = Some [(91, 82, ''.'', []), (91, 92, ''.'', []), (91, 81, ''.'', [])]
   \<and> self_check STALEMATE (91, 82, ''.'', []) = Some True
   \<and> self_check STALEMATE (91, 92, ''.'', []) = Some True
   \<and> self_check STALEMATE (91, 81, ''.'', []) = Some True
   \<and> mover_in_check STALEMATE = Some False
   \<and> nega_max (Suc 0) quiet_env 1 (- CHECKMATE_UPPER) CHECKMATE_UPPER STALEMATE ''w''
         (globals_with 1 0 (NULL_MOVE, 0, 0))
       = Some ((0, NULL_MOVE),
               (globals_with 1 0 (NULL_MOVE, 0, 0))
                 \<lparr>clock := Suc (clock (globals_with 1 0 (NULL_MOVE, 0, 0))),
                  nodes := nodes (globals_with 1 0 (NULL_MOVE, 0, 0)) + 1\<rparr>)"
proof -
  let ?g = "globals_with 1 0 (NULL_MOVE, 0, 0)"
  have d: "(1::int) \<ge> 1" by simp
  have miss: "\<not> table_cutoff (table_info_of ?g 0xC45BB9E318034A08) 1"
    by (simp add: table_cutoff_def table_info_of_def globals_with_def CHECKMATE_LOWER_def
        ENDGAME_KING_VALUE_def ENDGAME_QUEEN_VALUE_def)
  have none: "\<forall>move \<in> set [(91, 82, ''.'', []), (91, 92, ''.'', []), (91, 81, ''.'', [])].
                self_check STALEMATE move = Some True"
    by (simp add: stalemate_b2 stalemate_b1 stalemate_a2)
  from no_legal_move[OF d quiet_no_timeout stalemate_hash miss stalemate_moves none
      stalemate_not_in_check, of 0 "- CHECKMATE_UPPER" CHECKMATE_UPPER]
  have "nega_max (Suc 0) quiet_env 1 (- CHECKMATE_UPPER) CHECKMATE_UPPER STALEMATE ''w'' ?g
        = Some ((0, NULL_MOVE), ?g\<lparr>clock := Suc (clock ?g), nodes := nodes ?g + 1\<rparr>)"
    by simp
  with d quiet_no_timeout[of 1 0 "(NULL_MOVE, 0, 0)"] stalemate_hash miss stalemate_moves
    stalemate_b2 stalemate_b1 stalemate_a2 stalemate_not_in_check
  show ?thesis by blast
qed


lemma stalemate_parsed:
  "load_fen ''7k/2p5/2P5/8/8/1q6/8/K7 w - - 0 1'' = Some (STALEMATE, ''w'')"
  by code_simp

lemma stalemate_ep_parsed:
  "load_fen ''7k/2p5/2P5/8/8/1q6/8/K7 w - d6 0 1'' = Some (STALEMATE_EP, ''w'')"
  by code_simp

lemma stalemate_search:
  "then_nega_max (globals_after (iteratively_deepen quiet_env 1 STALEMATE_EP ''w'' fresh_globals))
     quiet_env 1 STALEMATE ''w'' = Some (- 1129, (43, 34, ''.'', []))"
  by code_simp

text \<open>
  White is stalemated in \<open>7k/2p5/2P5/8/8/1q6/8/K7 w - - 0 1\<close>: the three moves of the king
  leave it capturable and it is not in check. The same board with the en-passant square d6
  has the same hash, since no white pawn stands on c5 or e5, and there the generator gives
  the pawn on c6 a move to d7. After \<open>go depth 1\<close> on the board with the en-passant square the
  table holds that move for the key, and the call of \<open>nega_max\<close> with depth 1 on the
  stalemate returns the entry, the score \<open>-1129\<close> and the move of the pawn, where the claim
  has the score 0 and the null move.
\<close>

theorem stalemate_after_search:
  "load_fen ''7k/2p5/2P5/8/8/1q6/8/K7 w - - 0 1'' = Some (STALEMATE, ''w'')
   \<and> load_fen ''7k/2p5/2P5/8/8/1q6/8/K7 w - d6 0 1'' = Some (STALEMATE_EP, ''w'')
   \<and> generate_moves (fst STALEMATE) (fst (snd STALEMATE)) (fst (snd (snd (snd STALEMATE))))
     = Some [(91, 82, ''.'', []), (91, 92, ''.'', []), (91, 81, ''.'', [])]
   \<and> self_check STALEMATE (91, 82, ''.'', []) = Some True
   \<and> self_check STALEMATE (91, 92, ''.'', []) = Some True
   \<and> self_check STALEMATE (91, 81, ''.'', []) = Some True
   \<and> mover_in_check STALEMATE = Some False
   \<and> then_nega_max (globals_after (iteratively_deepen quiet_env 1 STALEMATE_EP ''w'' fresh_globals))
         quiet_env 1 STALEMATE ''w'' = Some (- 1129, (43, 34, ''.'', []))"
  using stalemate_parsed stalemate_ep_parsed stalemate_moves stalemate_b2 stalemate_b1
    stalemate_a2 stalemate_not_in_check stalemate_search
  by blast
section \<open>The \<open>go\<close> command on an invalid position\<close>

text \<open>
  Claim C9 says that \<open>go\<close> is ignored whenever the position is invalid, a position
  without a king or with inconsistent castling flags included. The test of the code is on
  the shape of the variables only: when the board does not have 120 characters, a castling
  list does not have two elements, a square is outside 0 to 119 or the colour is neither
  \<open>w\<close> nor \<open>b\<close>, the command returns with the globals as they were: no search, no line
  written.
\<close>

theorem go_ignored: "invalid_position u \<Longrightarrow> go_command e tokens u g = Some g"
  by (simp add: go_command_def)

theorem go_ignored_witness:
  "invalid_position unset_engine
   \<and> go_command quiet_env [''go''] unset_engine fresh_globals = Some fresh_globals"
proof -
  have h: "invalid_position unset_engine"
    by (simp add: invalid_position_def unset_engine_def)
  from go_ignored[OF h, of quiet_env "[''go'']" fresh_globals] h show ?thesis by simp
qed

text \<open>
  The board without any piece passes the test: \<open>go depth 1\<close> searches it and writes an
  \<open>info\<close> line and \<open>bestmove (none)\<close>.
\<close>

theorem go_without_kings:
  "position_command [''position'', ''fen'', ''8/8/8/8/8/8/8/8'', ''w'', ''-'', ''-'', ''0'', ''1'']
     unset_engine = Some EMPTY_ENGINE
   \<and> CHR ''K'' \<notin> set (cur_position EMPTY_ENGINE) \<and> CHR ''k'' \<notin> set (cur_position EMPTY_ENGINE)
   \<and> \<not> invalid_position EMPTY_ENGINE
   \<and> map_option responses (go_command quiet_env [''go'', ''depth'', ''1''] EMPTY_ENGINE fresh_globals)
       = Some [Info_depth 1 (- 88590) 1 0 [], Bestmove ''(none)'']"
  by code_simp

section \<open>The en-passant part of the hash\<close>

lemma xor_eq_self: "(x XOR k = x) = (k = (0::int))"
  by (metis xor.assoc xor_self_eq xor.left_neutral xor.right_neutral)

lemma en_passant_key_values:
  "map (py_index HASH_VALUES) [772, 773, 774, 775, 776, 777, 778, 779]
   = [Some 0x70CC73D90BC26E24, Some 0xE21A6B35DF0C3AD7, Some 0x003A93D8B2806962,
      Some 0x1C99DED33CB890A1, Some 0xCF3145DE0ADD4289, Some 0xD0E4427A5514FB72,
      Some 0x77C621CC9FB3A483, Some 0x67A34DAC4356550B]"
  by code_simp

lemma en_passant_key_nonzero:
  assumes "772 \<le> i" and "i \<le> 779" and "py_index HASH_VALUES i = Some v"
  shows "v \<noteq> 0"
proof -
  from assms(1,2) have "i = 772 \<or> i = 773 \<or> i = 774 \<or> i = 775 \<or> i = 776 \<or> i = 777 \<or> i = 778 \<or> i = 779"
    by arith
  with assms(3) en_passant_key_values show ?thesis by auto
qed

lemma en_passant_hash_none [simp]: "en_passant_hash position 0 = Some 0" "en_passant_hash position 119 = Some 0"
  by (simp_all add: en_passant_hash_def)

lemma en_passant_key_nonzero_row:
  assumes "(41 \<le> en_passant \<and> en_passant \<le> 48) \<or> (71 \<le> en_passant \<and> en_passant \<le> 78)"
    and "py_index HASH_VALUES (771 + en_passant mod 10) = Some v"
  shows "v \<noteq> 0"
proof -
  from assms(1) have "772 \<le> 771 + en_passant mod 10" "771 + en_passant mod 10 \<le> 779"
    by presburger+
  from en_passant_key_nonzero[OF this assms(2)] show ?thesis .
qed

lemma en_passant_hash_cases:
  assumes "en_passant_hash position en_passant = Some eh"
  shows "if capturing_pawn position en_passant
         then (\<exists>key. py_index HASH_VALUES (772 + (en_passant mod 10) - 1) = Some key \<and> key \<noteq> 0 \<and> eh = key)
         else eh = 0"
proof (cases "41 \<le> en_passant \<and> en_passant \<le> 48")
  case True
  from True have ne: "en_passant \<noteq> 0" "en_passant \<noteq> 119" "\<not> (71 \<le> en_passant \<and> en_passant \<le> 78)" by auto
  from assms True ne show ?thesis
    by (auto simp: en_passant_hash_def capturing_pawn_def split: bind_splits if_splits
        dest: en_passant_key_nonzero_row[rotated])
next
  case False
  show ?thesis
  proof (cases "71 \<le> en_passant \<and> en_passant \<le> 78")
    case True
    from True have ne: "en_passant \<noteq> 0" "en_passant \<noteq> 119" by auto
    from assms True False ne show ?thesis
      by (auto simp: en_passant_hash_def capturing_pawn_def split: bind_splits if_splits
          dest: en_passant_key_nonzero_row[rotated])
  next
    case F2: False
    with False assms show ?thesis
      by (auto simp: en_passant_hash_def capturing_pawn_def split: if_splits)
  qed
qed

lemma rotate_position_en_passant:
  "rotate_position (position, castling, opponent_castling, en_passant, king_passant)
     = Some (position', castling', opponent_castling', en_passant', king_passant')
   \<Longrightarrow> rotate_position (position, castling, opponent_castling, other, king_passant)
     = Some (position', castling', opponent_castling', 119 - other, king_passant')"
  by (auto simp: rotate_position_def split: bind_splits)

text \<open>
  Claim C8 says that for every state with a nonzero en-passant square the hash includes
  the key of the en-passant file exactly when, from white's point of view, a pawn of the
  side to move stands diagonally behind that square, and that the hash is otherwise the one
  of the state without en-passant square. The test of the code goes by the row of the
  square, not by the side to move: the key is included exactly when the square, seen from
  white, is on the row 41 to 48 with a \<open>P\<close> diagonally below it or on the row 71 to 78 with
  a \<open>p\<close> diagonally above it; for every other state the hash is the one with the
  en-passant square 0.
\<close>

theorem en_passant_hashed:
  assumes view: "white_view (position, castling, opponent_castling, en_passant, king_passant) color
                 = Some (wposition, wcastling, wopponent, wen_passant, wking_passant)"
    and h: "zobrist_hash (position, castling, opponent_castling, en_passant, king_passant) color = Some h"
  shows "\<exists>h0. zobrist_hash (position, castling, opponent_castling, 0, king_passant) color = Some h0
           \<and> (if capturing_pawn wposition wen_passant
               then (\<exists>key. py_index HASH_VALUES (772 + (wen_passant mod 10) - 1) = Some key
                            \<and> key \<noteq> 0 \<and> h = h0 XOR key \<and> h \<noteq> h0)
               else h = h0)"
proof -
  obtain t where turn: "(if color = ''b'' then Some (0::int) else py_index HASH_VALUES 780) = Some t"
    using h by (auto simp: zobrist_hash_def split: bind_splits if_splits)
  from h view turn obtain ph ch eh where
    ph: "for_each (enumerate_py wposition) hash_piece 0 = Some ph"
    and ch: "castling_hash wcastling wopponent = Some ch"
    and eh: "en_passant_hash wposition wen_passant = Some eh"
    and hval: "h = ph XOR ch XOR eh XOR t"
    by (auto simp: zobrist_hash_def white_view_def split: bind_splits if_splits)
  have view0: "white_view (position, castling, opponent_castling, 0, king_passant) color
               = Some (wposition, wcastling, wopponent, if color = ''b'' then 119 else 0, wking_passant)"
  proof (cases "color = ''b''")
    case True
    with view have "rotate_position (position, castling, opponent_castling, en_passant, king_passant)
                    = Some (wposition, wcastling, wopponent, wen_passant, wking_passant)"
      by (simp add: white_view_def)
    from rotate_position_en_passant[OF this, of 0] True show ?thesis
      by (simp add: white_view_def)
  next
    case False
    with view show ?thesis by (simp add: white_view_def)
  qed
  have h0: "zobrist_hash (position, castling, opponent_castling, 0, king_passant) color
            = Some (ph XOR ch XOR 0 XOR t)"
    using view0 turn ph ch
    by (auto simp: zobrist_hash_def white_view_def split: if_splits)
  have rel: "h = (ph XOR ch XOR 0 XOR t) XOR eh"
    unfolding hval by (simp add: ac_simps)
  from en_passant_hash_cases[OF eh] rel h0 show ?thesis
    by (auto simp: xor_eq_self split: if_splits)
qed


lemma c3_position_parsed:
  "load_fen ''rnbqkbnr/p1pppppp/8/8/PpP4P/8/1P1PPPP1/RNBQKBNR b KQkq c3 0 3''
   = Some ((C3_POSITION, (True, True), (True, True), 46, 119), ''b'')"
  by code_simp

lemma c3_view:
  "white_view (C3_POSITION, (True, True), (True, True), 46, 119) ''b''
   = Some (C3_WHITE_VIEW, (True, True), (True, True), 73, 0)"
  by code_simp

lemma c3_hash:
  "zobrist_hash (C3_POSITION, (True, True), (True, True), 46, 119) ''b'' = Some 0x3C8123EA7B067637"
  by code_simp

lemma c3_capturing: "capturing_pawn C3_WHITE_VIEW 73"
  by code_simp

text \<open>
  The position after \<open>1. a4 b5 2. h4 b4 3. c4\<close>, black to move, the third of the published test
  positions with an en-passant square: the black pawn on b4 can capture on c3, and the key
  of file c is part of the hash \<open>0x3C8123EA7B067637\<close>.
\<close>

theorem en_passant_hashed_witness:
  "load_fen ''rnbqkbnr/p1pppppp/8/8/PpP4P/8/1P1PPPP1/RNBQKBNR b KQkq c3 0 3''
     = Some ((C3_POSITION, (True, True), (True, True), 46, 119), ''b'')
   \<and> white_view (C3_POSITION, (True, True), (True, True), 46, 119) ''b''
     = Some (C3_WHITE_VIEW, (True, True), (True, True), 73, 0)
   \<and> zobrist_hash (C3_POSITION, (True, True), (True, True), 46, 119) ''b'' = Some 0x3C8123EA7B067637
   \<and> capturing_pawn C3_WHITE_VIEW 73
   \<and> (\<exists>h0 key. zobrist_hash (C3_POSITION, (True, True), (True, True), 0, 119) ''b'' = Some h0
         \<and> py_index HASH_VALUES 774 = Some key \<and> key \<noteq> 0
         \<and> 0x3C8123EA7B067637 = h0 XOR key \<and> 0x3C8123EA7B067637 \<noteq> h0)"
proof -
  from en_passant_hashed[OF c3_view c3_hash] c3_capturing
  obtain h0 key where
    "zobrist_hash (C3_POSITION, (True, True), (True, True), 0, 119) ''b'' = Some h0"
    "py_index HASH_VALUES 774 = Some key" "key \<noteq> 0"
    "0x3C8123EA7B067637 = h0 XOR key" "0x3C8123EA7B067637 \<noteq> h0"
    by auto
  with c3_position_parsed c3_view c3_hash c3_capturing show ?thesis by blast
qed

lemma e4_nf6_played:
  "position_command [''position'', ''startpos'', ''moves'', ''e2e4'', ''g8f6''] unset_engine
   = Some (engine_of (E4_NF6_POSITION, (True, True), (True, True), 75, 0) ''w'')"
  by code_simp

lemma e4_nf6_pawn: "py_index E4_NF6_POSITION (75 + SOUTH + WEST) = Some CHR ''P''"
  by code_simp

lemma e4_nf6_hash:
  "zobrist_hash (E4_NF6_POSITION, (True, True), (True, True), 75, 0) ''w'' = Some 15695800775901642752"
  by code_simp

lemma e4_nf6_hash_without:
  "zobrist_hash (E4_NF6_POSITION, (True, True), (True, True), 0, 0) ''w'' = Some 15695800775901642752"
  by code_simp

text \<open>
  After \<open>position startpos moves e2e4 g8f6\<close> white is to move and the en-passant square of the
  state is still 75, the cell e3 behind the white pawn (the knight move did not clear it).
  A white pawn stands on cell 84, diagonally behind that square, and yet no en-passant key
  is part of the hash: it is the hash of the same state with \<open>en_passant = 0\<close>. For a
  square of the row 71 to 78 the code looks for a \<open>p\<close> on the cells 64 and 66 diagonally
  above it, whichever side is to move.
\<close>

theorem stale_square_not_hashed:
  "position_command [''position'', ''startpos'', ''moves'', ''e2e4'', ''g8f6''] unset_engine
     = Some (engine_of (E4_NF6_POSITION, (True, True), (True, True), 75, 0) ''w'')
   \<and> py_index E4_NF6_POSITION (75 + SOUTH + WEST) = Some CHR ''P''
   \<and> zobrist_hash (E4_NF6_POSITION, (True, True), (True, True), 75, 0) ''w''
     = Some 15695800775901642752
   \<and> zobrist_hash (E4_NF6_POSITION, (True, True), (True, True), 0, 0) ''w''
     = Some 15695800775901642752"
  using e4_nf6_played e4_nf6_pawn e4_nf6_hash e4_nf6_hash_without by blast
section \<open>The evaluation of a position and of the rotated position\<close>

lemma pawns_parsed:
  "load_fen ''4k3/8/6P1/8/8/7p/8/4K3 w - - 0 1''
   = Some ((PAWNS_POSITION, (False, False), (False, False), 0, 0), ''w'')"
  by code_simp

lemma pawns_scores: "piece_scores PAWNS_POSITION = Some (55, 0)"
  by code_simp

lemma pawns_value: "evaluate_position PAWNS_POSITION = Some 0"
  by code_simp

lemma pawns_rotated:
  "rotate_position (PAWNS_POSITION, (False, False), (False, False), 0, 0)
   = Some (PAWNS_ROTATED, (False, False), (False, False), 119, 119)"
  by code_simp

lemma rotated_scores: "piece_scores PAWNS_ROTATED = Some (- 17, - 9)"
  by code_simp

lemma rotated_value: "evaluate_position PAWNS_ROTATED = Some (- 124)"
  by code_simp

text \<open>
  Claim C6 says that the evaluation of a position whose endgame score is zero is the
  negation of the evaluation of the rotated position. In \<open>4k3/8/6P1/8/8/7p/8/4K3 w - - 0 1\<close>
  the loop of \<open>evaluate_position\<close> ends with the midgame score 55 and the endgame score 0,
  and the evaluation is 0; on the rotated board the loop ends with the scores \<open>-17\<close> and
  \<open>-9\<close>, and the evaluation is \<open>-124\<close>. \<open>rotate_position\<close> takes the cell \<open>i\<close> to
  \<open>119 - i\<close>, which reverses the ranks and the files, while the table of an opponent's piece
  is read at \<open>(11 - i div 10) * 10 + i mod 10\<close>, which reverses the ranks only, and the
  tables are not the same on the files a to d as on h to e.
\<close>

theorem evaluation_not_antisymmetric:
  "load_fen ''4k3/8/6P1/8/8/7p/8/4K3 w - - 0 1''
     = Some ((PAWNS_POSITION, (False, False), (False, False), 0, 0), ''w'')
   \<and> piece_scores PAWNS_POSITION = Some (55, 0)
   \<and> evaluate_position PAWNS_POSITION = Some 0
   \<and> rotate_position (PAWNS_POSITION, (False, False), (False, False), 0, 0)
     = Some (PAWNS_ROTATED, (False, False), (False, False), 119, 119)
   \<and> piece_scores PAWNS_ROTATED = Some (- 17, - 9)
   \<and> evaluate_position PAWNS_ROTATED = Some (- 124)"
  using pawns_parsed pawns_scores pawns_value pawns_rotated rotated_scores rotated_value
  by blast
section \<open>Castling moves of the generator\<close>

lemma queen_a1_played:
  "position_command [''position'', ''startpos'', ''moves'', ''b2b3'', ''g7g6'', ''c1a3'', ''f8g7'',
      ''b1c3'', ''h7h6'', ''c3d5'', ''g7a1'', ''d1a1'', ''g8f6''] unset_engine
   = Some (engine_of (QUEEN_A1_POSITION, (True, False), (True, True), 119, 0) ''w'')"
  by code_simp

lemma queen_a1_corner: "py_index QUEEN_A1_POSITION A1 = Some CHR ''Q''"
  by code_simp

lemma queen_a1_castles:
  "map_option (\<lambda>move_list. (95, 93, ''.'', []) \<in> set move_list)
     (generate_moves QUEEN_A1_POSITION (True, False) 119) = Some True"
  by code_simp

lemma queen_a1_legal:
  "self_check (QUEEN_A1_POSITION, (True, False), (True, True), 119, 0) (95, 93, ''.'', [])
   = Some False"
  by code_simp

lemma queen_a1_castled:
  "map_option fst (make_move (95, 93, ''.'', [])
     (QUEEN_A1_POSITION, (True, False), (True, True), 119, 0))
   = Some (board [''rnbqk..r'', ''pppppp..'', ''.....npp'', ''...N....'',
                  ''........'', ''BP......'', ''P.PPPPPP'', ''..KQ.BNR''])"
  by code_simp

text \<open>
  Claim C2 says that \<open>generate_moves\<close> emits a castling move only when the right is set, the
  rook stands on its home cell, the king on e1 and the cells between them are empty. The
  generator emits the move while it slides the piece that stands on a1 or h1, and does not
  look which piece that is. In the game \<open>1. b3 g6 2. Ba3 Bg7 3. Nc3 h6 4. Nd5 Bxa1 5. Qxa1 Nf6\<close>
  black takes the rook on a1 and the white queen takes back. \<open>make_move\<close> clears a castling
  flag of the opponent when the move ends on \<open>A8\<close> or \<open>H8\<close> of the mover's board; a1 is the
  cell \<open>H8\<close> of the board rotated for black, so the capture clears the kingside flag of white
  and leaves the queenside flag. With the queen on a1, the cells b1, c1 and d1 empty and
  that flag, the generator emits the move of the king from e1 to c1, which does not leave
  the king capturable, and \<open>make_move\<close> puts the queen on d1.
\<close>

theorem castling_without_rook:
  "position_command [''position'', ''startpos'', ''moves'', ''b2b3'', ''g7g6'', ''c1a3'', ''f8g7'',
      ''b1c3'', ''h7h6'', ''c3d5'', ''g7a1'', ''d1a1'', ''g8f6''] unset_engine
     = Some (engine_of (QUEEN_A1_POSITION, (True, False), (True, True), 119, 0) ''w'')
   \<and> py_index QUEEN_A1_POSITION A1 = Some CHR ''Q''
   \<and> map_option (\<lambda>move_list. (95, 93, ''.'', []) \<in> set move_list)
        (generate_moves QUEEN_A1_POSITION (True, False) 119) = Some True
   \<and> self_check (QUEEN_A1_POSITION, (True, False), (True, True), 119, 0) (95, 93, ''.'', [])
     = Some False
   \<and> map_option fst (make_move (95, 93, ''.'', [])
        (QUEEN_A1_POSITION, (True, False), (True, True), 119, 0))
     = Some (board [''rnbqk..r'', ''pppppp..'', ''.....npp'', ''...N....'',
                    ''........'', ''BP......'', ''P.PPPPPP'', ''..KQ.BNR''])"
  using queen_a1_played queen_a1_corner queen_a1_castles queen_a1_legal queen_a1_castled
  by blast

end
